theory Spec2Isabelle
  imports Complex_Main "HOL-Library.Signed_Division" "HOL-Library.Monad_Syntax"
    "HOL-Library.Log_Nat"
begin

section \<open>Scalars, integers, errors\<close>

text \<open>
  The staggered-grid code of LaMEM (\<^verbatim>\<open>fdstag.c\<close>, and the residual assembler whose
  functions are named \<^verbatim>\<open>JacRes...\<close>) computes with \<^verbatim>\<open>PetscScalar\<close> and \<^verbatim>\<open>PetscInt\<close>.
  Here \<^verbatim>\<open>PetscScalar\<close> is \<^typ>\<open>real\<close> and \<^verbatim>\<open>PetscInt\<close> is \<^typ>\<open>int\<close>. Where a property
  depends on what the machine does, the model says so: in the coordinate generation
  (\<^verbatim>\<open>MeshSeg1DGenCoord\<close>, \<^verbatim>\<open>Discret1DGenCoord\<close>) a division by zero (an infinity or a NaN
  in C), a sum that leaves the 32-bit range of \<^verbatim>\<open>PetscInt\<close> and a store outside the
  allocated buffer make the result \<open>None\<close>; the strain-rate computation
  (\<^verbatim>\<open>JacResGetEffStrainRate\<close>) has, next to its model in exact arithmetic, a model in which
  every operation is rounded, with the rounding of binary64 as \<open>rnd64\<close>. Elsewhere the
  arithmetic is exact. The quotient and remainder of C integers truncate toward zero;
  they are \<open>sdiv\<close> and \<open>smod\<close>.
  A pointer into a buffer of scalars is a function from the (possibly negative) offset
  to the value stored there.

  A PETSc error return (\<^verbatim>\<open>SETERRQ\<close>, \<^verbatim>\<open>CHKERRQ\<close>) is the left summand of a sum type.
\<close>

type_synonym PetscScalar = real
type_synonym PetscInt = int

datatype error =
    PETSC_ERR_USER string
  | PETSC_ERR_LIB string

section \<open>MeshSeg1D: one axis as a sequence of segments\<close>

text \<open>
  \<^verbatim>\<open>MeshSeg1D\<close>: \<open>nsegs\<close> segments; segment \<open>i\<close> runs from node index \<open>istart i\<close> and
  coordinate \<open>xstart i\<close> to node index \<open>istart (i + 1)\<close> and coordinate \<open>xstart (i + 1)\<close>,
  with the ratio \<open>biases i\<close> of its last to its first cell size. The three arrays are
  pointers (functions of the offset). \<^verbatim>\<open>MeshSegInp\<close> is the user's input: the number of
  segments (zero for the default uniform mesh), the interior delimiters, the number of
  cells and the bias of every segment.
\<close>

record MeshSeg1D =
  nsegs :: PetscInt
  istart :: "int \<Rightarrow> PetscInt"
  xstart :: "int \<Rightarrow> PetscScalar"
  biases :: "int \<Rightarrow> PetscScalar"


text \<open>
  A C loop \<^verbatim>\<open>for(i = 0; i < n; i++) body\<close> whose body does not change \<open>i\<close> or \<open>n\<close> is
  a fold of the body over the indices \<open>[0..n - 1]\<close> (the empty list when \<open>n \<le> 0\<close>).
\<close>


text \<open>\<^verbatim>\<open>MeshSeg1DStretch\<close>: \<^verbatim>\<open>for(i = 0; i < ms->nsegs+1; i++) ms->xstart[i] *= (1.0 - eps)\<close>.\<close>

definition MeshSeg1DStretch :: "MeshSeg1D \<Rightarrow> PetscScalar \<Rightarrow> MeshSeg1D" where
  "MeshSeg1DStretch ms eps =
     fold (\<lambda>i m. m\<lparr>xstart := (xstart m)(i := xstart m i * (1 - eps))\<rparr>) [0..nsegs ms] ms"







definition MeshSeg1DGetUniStep :: "MeshSeg1D \<Rightarrow> PetscScalar" where
  "MeshSeg1DGetUniStep ms =
     (xstart ms (nsegs ms) - xstart ms 0) / real_of_int (istart ms (nsegs ms))"



















text \<open>The sum of the first \<open>j\<close> entries of an array of integers.\<close>

definition csum :: "(int \<Rightarrow> int) \<Rightarrow> int \<Rightarrow> int" where
  "csum f j = sum_list (map f [0..j - 1])"

section \<open>Discret1D: the decomposition of one axis\<close>

text \<open>
  The fields of \<^verbatim>\<open>Discret1D\<close> that \<^verbatim>\<open>fdstag.c\<close> reads and writes. \<open>ncoor\<close> is the
  pointer \<^verbatim>\<open>ds->ncoor = ds->nbuff + 1\<close>, so \<^verbatim>\<open>nbuff[m]\<close> is \<open>ncoor ds (m - 1)\<close>;
  \<open>ccoor\<close> is \<^verbatim>\<open>ds->ccoor = ds->cbuff + 1\<close>.
\<close>

record Discret1D =
  nproc :: PetscInt
  rank :: PetscInt
  starts :: "int \<Rightarrow> PetscInt"
  pstart :: PetscInt
  tnods :: PetscInt
  tcels :: PetscInt
  nnods :: PetscInt
  ncels :: PetscInt
  bufsz :: PetscInt
  ncoor :: "int \<Rightarrow> PetscScalar"
  ccoor :: "int \<Rightarrow> PetscScalar"
  h_uni :: PetscScalar
  h_min :: PetscScalar
  h_max :: PetscScalar
  color :: PetscInt
  grprev :: PetscInt
  grnext :: PetscInt

subsection \<open>Discret1DCreate\<close>

text \<open>
  \<^verbatim>\<open>Discret1DCreate\<close>. \<open>nnodProc\<close> is the array of the number of nodes of every
  process. The two coordinate buffers come zero-filled from \<^verbatim>\<open>makeScalArray\<close>; the
  step sizes are not assigned here (the caller has cleared the structure).
\<close>

definition Discret1DCreate ::
  "PetscInt \<Rightarrow> PetscInt \<Rightarrow> (int \<Rightarrow> PetscInt) \<Rightarrow> PetscInt \<Rightarrow> PetscInt \<Rightarrow> PetscInt \<Rightarrow> Discret1D"
  where
  "Discret1DCreate np rk nnodProc clr gprev gnext =
     (let (st, cnt) =
            fold (\<lambda>i (st, cnt). (st(i := cnt), cnt + nnodProc i)) [0..np - 1] ((\<lambda>_. 0), 0);
          st' = st(np := cnt - 1);
          nn = nnodProc rk
      in \<lparr>nproc = np, rank = rk, starts = st', pstart = st' rk, tnods = cnt, tcels = cnt - 1,
          nnods = nn,
          ncels = (if gnext \<noteq> - 1 then nn else nn - 1),
          bufsz = (if gnext \<noteq> - 1 then nn + 3 else nn + 2),
          ncoor = (\<lambda>_. 0), ccoor = (\<lambda>_. 0), h_uni = 0, h_min = 0, h_max = 0,
          color = clr, grprev = gprev, grnext = gnext\<rparr>)"

subsection \<open>Cell sizes\<close>

text \<open>
  Modelled from the spec: the macros \<^verbatim>\<open>SIZE_CELL\<close> and \<^verbatim>\<open>SIZE_NODE\<close> of \<^verbatim>\<open>fdstag.h\<close>,
  which is not among the sources. \<^verbatim>\<open>SIZE_CELL(i, s, ds)\<close> is the width of the cell of
  global index \<open>i\<close> on the process whose first index is \<open>s\<close> (the difference of its two
  node coordinates); \<^verbatim>\<open>SIZE_NODE(i, s, ds)\<close> is the distance between the centers of the
  two cells that meet at node \<open>i\<close>.
\<close>

definition SIZE_CELL :: "PetscInt \<Rightarrow> PetscInt \<Rightarrow> Discret1D \<Rightarrow> PetscScalar" where
  "SIZE_CELL i s ds = ncoor ds (i - s + 1) - ncoor ds (i - s)"

definition SIZE_NODE :: "PetscInt \<Rightarrow> PetscInt \<Rightarrow> Discret1D \<Rightarrow> PetscScalar" where
  "SIZE_NODE i s ds = ccoor ds (i - s) - ccoor ds (i - s - 1)"

text \<open>
  The local part of \<^verbatim>\<open>Discret1DGetMinMaxCellSize\<close>: the smallest and the largest size
  of the local cells \<open>0..ncels - 1\<close>. \<open>minmax_step\<close> is the body of the loop, for the cell
  size \<open>sz\<close>.
\<close>

definition minmax_step :: "PetscScalar \<Rightarrow> PetscScalar \<times> PetscScalar \<Rightarrow> PetscScalar \<times> PetscScalar" where
  "minmax_step sz = (\<lambda>(lminsz, lmaxsz).
     (if sz < lminsz then sz else lminsz, if sz > lmaxsz then sz else lmaxsz))"

definition local_minmax :: "Discret1D \<Rightarrow> PetscScalar \<times> PetscScalar" where
  "local_minmax ds =
     fold (\<lambda>i. minmax_step (SIZE_CELL i 0 ds)) [1..ncels ds - 1]
       (SIZE_CELL 0 0 ds, SIZE_CELL 0 0 ds)"

text \<open>
  \<^verbatim>\<open>MPI_Allreduce\<close> with \<^verbatim>\<open>MPI_MIN\<close> and \<^verbatim>\<open>MPI_MAX\<close> over the column communicator:
  the value contributed by this process, combined with the values contributed by the
  other processes of the communicator.
\<close>

definition MPI_Allreduce_MIN :: "PetscScalar \<Rightarrow> PetscScalar list \<Rightarrow> PetscScalar" where
  "MPI_Allreduce_MIN x others = fold min others x"

definition MPI_Allreduce_MAX :: "PetscScalar \<Rightarrow> PetscScalar list \<Rightarrow> PetscScalar" where
  "MPI_Allreduce_MAX x others = fold max others x"

text \<open>
  \<^verbatim>\<open>Discret1DGetMinMaxCellSize(ds, ms)\<close>. \<open>peers\<close> are the \<^verbatim>\<open>Discret1D\<close> objects of the
  other processes of the column communicator, which contribute their local extreme
  sizes to the two reductions (they are not read when \<open>nproc = 1\<close>).
\<close>

definition Discret1DGetMinMaxCellSize ::
  "Discret1D \<Rightarrow> MeshSeg1D \<Rightarrow> Discret1D list \<Rightarrow> Discret1D" where
  "Discret1DGetMinMaxCellSize ds ms peers =
     (let rtol = 1 / 10 ^ 8;
          (lminsz, lmaxsz) = local_minmax ds;
          (gminsz, gmaxsz) =
            (if nproc ds = 1 then (lminsz, lmaxsz)
             else (MPI_Allreduce_MIN lminsz (map (\<lambda>p. fst (local_minmax p)) peers),
                   MPI_Allreduce_MAX lmaxsz (map (\<lambda>p. snd (local_minmax p)) peers)));
          h = MeshSeg1DGetUniStep ms
      in if \<bar>gmaxsz - gminsz\<bar> < rtol * h
         then ds\<lparr>h_uni := h, h_min := h, h_max := h\<rparr>
         else ds\<lparr>h_uni := - 1, h_min := gminsz, h_max := gmaxsz\<rparr>)"

subsection \<open>Discret1DGenCoord\<close>




subsection \<open>Discret1DStretch\<close>

text \<open>
  \<^verbatim>\<open>Discret1DStretch(ds, ms, eps)\<close> changes both objects. The loop over the node buffer
  runs over \<^verbatim>\<open>nbuff[0..bufsz - 1]\<close>, that is \<^verbatim>\<open>ncoor[-1..bufsz - 2]\<close>.
\<close>

definition Discret1DStretch ::
  "Discret1D \<Rightarrow> MeshSeg1D \<Rightarrow> PetscScalar \<Rightarrow> Discret1D \<times> MeshSeg1D" where
  "Discret1DStretch ds ms eps =
     (let ms' = MeshSeg1DStretch ms eps;
          nc = fold (\<lambda>i c. c(i - 1 := c (i - 1) * (1 - eps))) [0..bufsz ds - 1] (ncoor ds);
          cc = fold (\<lambda>i c. c(i := (nc i + nc (i + 1)) / 2)) [- 1..ncels ds] (ccoor ds);
          ds1 = ds\<lparr>ncoor := nc, ccoor := cc\<rparr>;
          ds2 = (if h_uni ds1 < 0
                 then ds1\<lparr>h_min := h_min ds1 * (1 - eps), h_max := h_max ds1 * (1 - eps)\<rparr>
                 else (let h = MeshSeg1DGetUniStep ms'
                       in ds1\<lparr>h_uni := h, h_min := h, h_max := h\<rparr>))
      in (ds2, ms'))"

subsection \<open>Partitions of an axis\<close>





text \<open>The three cell-size statistics of an axis.\<close>

definition ds_stats :: "Discret1D \<Rightarrow> PetscScalar \<times> PetscScalar \<times> PetscScalar" where
  "ds_stats ds = (h_uni ds, h_min ds, h_max ds)"

text \<open>
  The extreme cell sizes after the two reductions of \<open>Discret1DGetMinMaxCellSize\<close>
  (the local ones on a single process).
\<close>

definition global_minmax :: "Discret1D \<Rightarrow> Discret1D list \<Rightarrow> PetscScalar \<times> PetscScalar" where
  "global_minmax ds peers =
     (if nproc ds = 1 then local_minmax ds
      else (MPI_Allreduce_MIN (fst (local_minmax ds)) (map (\<lambda>p. fst (local_minmax p)) peers),
            MPI_Allreduce_MAX (snd (local_minmax ds)) (map (\<lambda>p. snd (local_minmax p)) peers)))"

text \<open>
  A single process with the three nodes \<open>0, 1, 3\<close> (two cells of sizes 1 and 2, ghost
  nodes \<open>-1\<close> and \<open>5\<close>), its segment table of two uniform one-cell segments, and the
  statistics \<open>Discret1DGetMinMaxCellSize\<close> gives it: not uniform, sizes from 1 to 2.
\<close>

definition ms_nonuni :: MeshSeg1D where
  "ms_nonuni =
     \<lparr>nsegs = 2, istart = (\<lambda>i. if i = 1 then 1 else if i = 2 then 2 else 0),
      xstart = (\<lambda>i. if i = 1 then 1 else if i = 2 then 3 else 0), biases = (\<lambda>_. 1)\<rparr>"

definition ds_nonuni :: Discret1D where
  "ds_nonuni =
     \<lparr>nproc = 1, rank = 0, starts = (\<lambda>i. if i = 1 then 2 else 0), pstart = 0, tnods = 3,
      tcels = 2, nnods = 3, ncels = 2, bufsz = 5,
      ncoor = (\<lambda>i. if i = - 1 then - 1 else if i = 1 then 1 else if i = 2 then 3
                    else if i = 3 then 5 else 0),
      ccoor = (\<lambda>i. if i = - 1 then - 1 / 2 else if i = 0 then 1 / 2 else if i = 1 then 2
                    else if i = 2 then 4 else 0),
      h_uni = - 1, h_min = 1, h_max = 2, color = 0, grprev = - 1, grnext = - 1\<rparr>"

text \<open>
  A uniform axis on one process: two cells of width 1 (nodes 0, 1, 2, with the ghost
  nodes \<open>- 1\<close> and 3), one segment.
\<close>

definition ms_uni :: MeshSeg1D where
  "ms_uni =
     \<lparr>nsegs = 1, istart = (\<lambda>i. if i = 1 then 2 else 0),
      xstart = (\<lambda>i. if i = 1 then 2 else 0), biases = (\<lambda>_. 1)\<rparr>"

definition ds_uni :: Discret1D where
  "ds_uni =
     \<lparr>nproc = 1, rank = 0, starts = (\<lambda>i. if i = 1 then 2 else 0), pstart = 0, tnods = 3,
      tcels = 2, nnods = 3, ncels = 2, bufsz = 5,
      ncoor = (\<lambda>i. if i = - 1 then - 1 else if i = 1 then 1 else if i = 2 then 2
                    else if i = 3 then 3 else 0),
      ccoor = (\<lambda>i. if i = - 1 then - 1 / 2 else if i = 0 then 1 / 2 else if i = 1 then 3 / 2
                    else if i = 2 then 5 / 2 else 0),
      h_uni = 1, h_min = 1, h_max = 1, color = 0, grprev = - 1, grnext = - 1\<rparr>"

subsection \<open>Discret1DCheckMG\<close>

text \<open>
  The loop \<^verbatim>\<open>while(!(sz % 2)) { sz /= 2; ncors++; }\<close>. Nothing bounds it: it is a
  partial function, and not returning is the value \<open>None\<close>.
\<close>

partial_function (option) coarsen_loop :: "PetscInt \<Rightarrow> PetscInt \<Rightarrow> (PetscInt \<times> PetscInt) option" where
  "coarsen_loop sz ncors =
     (if sz smod 2 = 0 then coarsen_loop (sz sdiv 2) (ncors + 1) else Some (sz, ncors))"

definition odd_size_msg :: "string \<Rightarrow> string" where
  "odd_size_msg dir = ''Local grid size is an odd number in '' @ dir @ ''-direction''"

definition no_uniform_msg :: "string \<Rightarrow> string" where
  "no_uniform_msg dir = ''Uniform local grid size doesn't exist in '' @ dir @ ''-direction''"

definition not_constant_msg :: "string \<Rightarrow> string" where
  "not_constant_msg dir =
     ''Local grid size is not constant on all processors in '' @ dir @ ''-direction''"

text \<open>
  \<^verbatim>\<open>Discret1DCheckMG(ds, dir, &ncors)\<close>: \<open>Some (Inl e)\<close> is the error return,
  \<open>Some (Inr ncors)\<close> the normal return with the value stored in \<^verbatim>\<open>*_ncors\<close>, and
  \<open>None\<close> means that the call does not return. The remainder \<^verbatim>\<open>tcels % nproc\<close> is
  computed only for a nonzero \<open>nproc\<close> in C; the theorems below assume a positive one.
\<close>

definition Discret1DCheckMG :: "Discret1D \<Rightarrow> string \<Rightarrow> (error + PetscInt) option" where
  "Discret1DCheckMG ds dir =
     (if ncels ds smod 2 \<noteq> 0 then Some (Inl (PETSC_ERR_USER (odd_size_msg dir)))
      else if tcels ds smod nproc ds \<noteq> 0 then Some (Inl (PETSC_ERR_USER (no_uniform_msg dir)))
      else if tcels ds sdiv nproc ds \<noteq> ncels ds
        then Some (Inl (PETSC_ERR_USER (not_constant_msg dir)))
      else (case coarsen_loop (ncels ds) 0 of
              None \<Rightarrow> None
            | Some (sz, ncors) \<Rightarrow> Some (Inr ncors)))"

text \<open>
  Two decompositions of one axis on a single process, used as concrete inputs: an axis of
  12 cells (13 nodes), and the degenerate axis of one node and no cell.
\<close>

definition ds_twelve_cells :: Discret1D where
  "ds_twelve_cells =
     \<lparr>nproc = 1, rank = 0, starts = (\<lambda>i. if i = 1 then 12 else 0), pstart = 0, tnods = 13, tcels = 12,
      nnods = 13, ncels = 12, bufsz = 15, ncoor = (\<lambda>i. real_of_int i),
      ccoor = (\<lambda>i. real_of_int i + 1 / 2), h_uni = 1, h_min = 1, h_max = 1,
      color = 0, grprev = - 1, grnext = - 1\<rparr>"

definition ds_no_cells :: Discret1D where
  "ds_no_cells =
     \<lparr>nproc = 1, rank = 0, starts = (\<lambda>_. 0), pstart = 0, tnods = 1, tcels = 0,
      nnods = 1, ncels = 0, bufsz = 3, ncoor = (\<lambda>i. real_of_int i),
      ccoor = (\<lambda>i. real_of_int i + 1 / 2), h_uni = 1, h_min = 1, h_max = 1,
      color = 0, grprev = - 1, grnext = - 1\<rparr>"

section \<open>FDSTAG: the staggered grid\<close>

text \<open>
  Sequencing of calls that may return an error (\<^verbatim>\<open>ierr = f(...); CHKERRQ(ierr);\<close>): the
  first error is returned, and nothing after it is run.
\<close>

definition ebind :: "error + 'a \<Rightarrow> ('a \<Rightarrow> error + 'b) \<Rightarrow> error + 'b" where
  "ebind r f = (case r of Inl e \<Rightarrow> Inl e | Inr x \<Rightarrow> f x)"

subsection \<open>The library interface\<close>

text \<open>
  \<^verbatim>\<open>fdstag.c\<close> calls PETSc, MPI and two helpers of \<^verbatim>\<open>Utils.c\<close>
  (\<^verbatim>\<open>DMDAGetProcessorRank\<close>, \<^verbatim>\<open>getGlobalRank\<close>), none of which is among the sources.
  They are parameters of the model: a record of functions over an arbitrary type \<open>'dm\<close>
  of distributed arrays and an arbitrary type \<open>'vec\<close> of vectors. \<^verbatim>\<open>DMDACreate3d\<close> takes
  the three boundary types, the stencil type, the global sizes \<open>(M, N, P)\<close>, the
  processor grid \<open>(m, n, p)\<close>, the number of degrees of freedom, the stencil width and
  the three arrays of points per processor (\<open>None\<close> for a null pointer).
\<close>

datatype DMBoundaryType = DM_BOUNDARY_NONE | DM_BOUNDARY_GHOSTED

datatype DMDAStencilType = DMDA_STENCIL_STAR | DMDA_STENCIL_BOX

definition PETSC_DECIDE :: PetscInt where
  "PETSC_DECIDE = - 1"

record ('dm, 'vec) PetscLib =
  DMDACreate3d ::
    "DMBoundaryType \<times> DMBoundaryType \<times> DMBoundaryType \<Rightarrow> DMDAStencilType
       \<Rightarrow> PetscInt \<times> PetscInt \<times> PetscInt \<Rightarrow> PetscInt \<times> PetscInt \<times> PetscInt
       \<Rightarrow> PetscInt \<Rightarrow> PetscInt
       \<Rightarrow> (int \<Rightarrow> PetscInt) option \<times> (int \<Rightarrow> PetscInt) option \<times> (int \<Rightarrow> PetscInt) option
       \<Rightarrow> error + 'dm"
  DMDAGetInfo :: "'dm \<Rightarrow> error + PetscInt \<times> PetscInt \<times> PetscInt"
  DMDAGetOwnershipRanges ::
    "'dm \<Rightarrow> error + (int \<Rightarrow> PetscInt) \<times> (int \<Rightarrow> PetscInt) \<times> (int \<Rightarrow> PetscInt)"
  DMDAGetCorners :: "'dm \<Rightarrow> error + PetscInt \<times> PetscInt \<times> PetscInt \<times> PetscInt \<times> PetscInt \<times> PetscInt"
  DMCreateLocalVector :: "'dm \<Rightarrow> error + 'vec"
  MPI_Scan_SUM :: "PetscInt \<times> PetscInt \<Rightarrow> error + PetscInt \<times> PetscInt"
  DMDAGetProcessorRank :: "'dm \<Rightarrow> error + PetscInt \<times> PetscInt \<times> PetscInt"
  getGlobalRank :: "PetscInt \<Rightarrow> PetscInt \<Rightarrow> PetscInt \<Rightarrow> PetscInt \<Rightarrow> PetscInt \<Rightarrow> PetscInt \<Rightarrow> PetscInt"

subsection \<open>DOFIndexCreate\<close>

datatype idxtype = IDXNONE | IDXCOUPLED | IDXUNCOUPLED

record 'vec DOFIndex =
  idxmod :: idxtype
  lnv :: PetscInt
  lnp :: PetscInt
  stv :: PetscInt
  stp :: PetscInt
  ln :: PetscInt
  st :: PetscInt
  ivx :: 'vec
  ivy :: 'vec
  ivz :: 'vec
  ip :: 'vec

definition DOFIndexCreate ::
  "('dm, 'vec) PetscLib \<Rightarrow> 'dm \<Rightarrow> 'dm \<Rightarrow> 'dm \<Rightarrow> 'dm \<Rightarrow> error + 'vec DOFIndex" where
  "DOFIndexCreate lib DA_CEN' DA_X' DA_Y' DA_Z' =
     ebind (DMDAGetCorners lib DA_X') (\<lambda>(_, _, _, nx, ny, nz).
     let lnv1 = nx * ny * nz in
     ebind (DMDAGetCorners lib DA_Y') (\<lambda>(_, _, _, nx, ny, nz).
     let lnv2 = lnv1 + nx * ny * nz in
     ebind (DMDAGetCorners lib DA_Z') (\<lambda>(_, _, _, nx, ny, nz).
     let lnv3 = lnv2 + nx * ny * nz in
     ebind (DMDAGetCorners lib DA_CEN') (\<lambda>(_, _, _, nx, ny, nz).
     let lnp' = nx * ny * nz in
     ebind (MPI_Scan_SUM lib (lnv3, lnp')) (\<lambda>(SUM0, SUM1).
     let stv' = SUM0 - lnv3; stp' = SUM1 - lnp' in
     ebind (DMCreateLocalVector lib DA_X') (\<lambda>vx.
     ebind (DMCreateLocalVector lib DA_Y') (\<lambda>vy.
     ebind (DMCreateLocalVector lib DA_Z') (\<lambda>vz.
     ebind (DMCreateLocalVector lib DA_CEN') (\<lambda>vp.
     Inr \<lparr>idxmod = IDXNONE, lnv = lnv3, lnp = lnp', stv = stv', stp = stp',
          ln = lnv3 + lnp', st = stv' + stp', ivx = vx, ivy = vy, ivz = vz, ip = vp\<rparr>)))))))))"

subsection \<open>FDSTAGCreate\<close>

text \<open>
  The fields of \<^verbatim>\<open>FDSTAG\<close> that \<^verbatim>\<open>FDSTAGCreate\<close>, \<^verbatim>\<open>FDSTAGGenCoord\<close> and
  \<^verbatim>\<open>FDSTAGStretch\<close> assign. \<open>neighb\<close> is the array of the 27 neighbour ranks.
\<close>

record ('dm, 'vec) FDSTAG =
  DA_CEN :: 'dm
  DA_COR :: 'dm
  DA_XY :: 'dm
  DA_XZ :: 'dm
  DA_YZ :: 'dm
  DA_X :: 'dm
  DA_Y :: 'dm
  DA_Z :: 'dm
  dsx :: Discret1D
  dsy :: Discret1D
  dsz :: Discret1D
  msx :: MeshSeg1D
  msy :: MeshSeg1D
  msz :: MeshSeg1D
  nCells :: PetscInt
  nCorns :: PetscInt
  nXYEdg :: PetscInt
  nXZEdg :: PetscInt
  nYZEdg :: PetscInt
  nXFace :: PetscInt
  nYFace :: PetscInt
  nZFace :: PetscInt
  dof :: "'vec DOFIndex"
  neighb :: "int \<Rightarrow> PetscInt"

text \<open>
  \<^verbatim>\<open>FDSTAGGetNeighbProc\<close>: the three nested loops over \<open>k\<close>, \<open>j\<close>, \<open>i\<close> in \<open>-1..1\<close> with the
  running counter \<open>cnt\<close>; the ranks and processor counts are read from the three
  \<^verbatim>\<open>Discret1D\<close> objects.
\<close>

definition FDSTAGGetNeighbProc ::
  "('dm, 'vec) PetscLib \<Rightarrow> ('dm, 'vec) FDSTAG \<Rightarrow> ('dm, 'vec) FDSTAG" where
  "FDSTAGGetNeighbProc lib fs =
     (let rx = rank (dsx fs); ry = rank (dsy fs); rz = rank (dsz fs);
          Px = nproc (dsx fs); Py = nproc (dsy fs); Pz = nproc (dsz fs);
          (nb, cnt) =
            fold (\<lambda>k. fold (\<lambda>j. fold (\<lambda>i (nb, cnt).
                    (nb(cnt := getGlobalRank lib (rx + i) (ry + j) (rz + k) Px Py Pz), cnt + 1))
                  [- 1..1]) [- 1..1]) [- 1..1] (neighb fs, 0::int)
      in fs\<lparr>neighb := nb\<rparr>)"

text \<open>
  \<^verbatim>\<open>FDSTAGCreate(fs, Nx, Ny, Nz, Px, Py, Pz)\<close>. The first statements assign
  \<^verbatim>\<open>PETSC_DECIDE\<close> to the parameters \<open>Px\<close>, \<open>Py\<close>, \<open>Pz\<close>; \<^verbatim>\<open>DMDAGetInfo\<close> assigns them again.
  The arrays \<open>lx\<close>, \<open>ly\<close>, \<open>lz\<close> are copies of the ownership ranges of \<open>DA_CEN\<close>, and the
  last entry of each is incremented and decremented around the calls as in the source.
\<close>

definition FDSTAGCreate ::
  "('dm, 'vec) PetscLib \<Rightarrow> ('dm, 'vec) FDSTAG \<Rightarrow> PetscInt \<Rightarrow> PetscInt \<Rightarrow> PetscInt
     \<Rightarrow> PetscInt \<Rightarrow> PetscInt \<Rightarrow> PetscInt \<Rightarrow> error + ('dm, 'vec) FDSTAG" where
  "FDSTAGCreate lib fs Nx Ny Nz Px Py Pz =
     (let dof' = 1; nlayer = 1;
          Px = PETSC_DECIDE; Py = PETSC_DECIDE; Pz = PETSC_DECIDE;
          G = (DM_BOUNDARY_GHOSTED, DM_BOUNDARY_GHOSTED, DM_BOUNDARY_GHOSTED);
          B = (DM_BOUNDARY_NONE, DM_BOUNDARY_NONE, DM_BOUNDARY_NONE);
          inc = (\<lambda>l P. l(P - 1 := l (P - 1) + (1::int)));
          dec = (\<lambda>l P. l(P - 1 := l (P - 1) - (1::int)))
      in
     ebind (DMDACreate3d lib G DMDA_STENCIL_BOX (Nx - 1, Ny - 1, Nz - 1) (Px, Py, Pz) dof' 1
              (None, None, None)) (\<lambda>cen.
     ebind (DMDAGetInfo lib cen) (\<lambda>(Px, Py, Pz).
     ebind (DMDAGetOwnershipRanges lib cen) (\<lambda>(plx, ply, plz).
     let lx = inc plx Px; ly = inc ply Py; lz = inc plz Pz in
     ebind (DMDACreate3d lib B DMDA_STENCIL_BOX (Nx, Ny, Nz) (Px, Py, Pz) dof' nlayer
              (Some lx, Some ly, Some lz)) (\<lambda>cor.
     ebind (DMDACreate3d lib B DMDA_STENCIL_BOX (Nx, Ny, Nz - 1) (Px, Py, Pz) dof' nlayer
              (Some lx, Some ly, Some (dec lz Pz))) (\<lambda>xy.
     ebind (DMDACreate3d lib B DMDA_STENCIL_BOX (Nx, Ny - 1, Nz) (Px, Py, Pz) dof' nlayer
              (Some lx, Some (dec ly Py), Some (inc (dec lz Pz) Pz))) (\<lambda>xz.
     let ly1 = inc (dec ly Py) Py; lz1 = inc (dec lz Pz) Pz in
     ebind (DMDACreate3d lib B DMDA_STENCIL_BOX (Nx - 1, Ny, Nz) (Px, Py, Pz) dof' nlayer
              (Some (dec lx Px), Some ly1, Some lz1)) (\<lambda>yz.
     let lx1 = inc (dec lx Px) Px in
     ebind (DMDACreate3d lib G DMDA_STENCIL_BOX (Nx, Ny - 1, Nz - 1) (Px, Py, Pz) dof' nlayer
              (Some lx1, Some (dec ly1 Py), Some (dec lz1 Pz))) (\<lambda>dax.
     let ly2 = inc (dec ly1 Py) Py; lz2 = inc (dec lz1 Pz) Pz in
     ebind (DMDACreate3d lib G DMDA_STENCIL_BOX (Nx - 1, Ny, Nz - 1) (Px, Py, Pz) dof' nlayer
              (Some (dec lx1 Px), Some ly2, Some (dec lz2 Pz))) (\<lambda>day.
     let lx2 = inc (dec lx1 Px) Px; lz3 = inc (dec lz2 Pz) Pz in
     ebind (DMDACreate3d lib G DMDA_STENCIL_BOX (Nx - 1, Ny - 1, Nz) (Px, Py, Pz) dof' nlayer
              (Some (dec lx2 Px), Some (dec ly2 Py), Some lz3)) (\<lambda>daz.
     let lx3 = inc (dec lx2 Px) Px; ly3 = inc (dec ly2 Py) Py in
     ebind (DMDAGetProcessorRank lib cen) (\<lambda>(rx, ry, rz).
     let cx = ry + rz * Py; cy = rx + rz * Px; cz = rx + ry * Px;
         gr = getGlobalRank lib;
         sx = Discret1DCreate Px rx lx3 cx (gr (rx - 1) ry rz Px Py Pz) (gr (rx + 1) ry rz Px Py Pz);
         sy = Discret1DCreate Py ry ly3 cy (gr rx (ry - 1) rz Px Py Pz) (gr rx (ry + 1) rz Px Py Pz);
         sz = Discret1DCreate Pz rz lz3 cz (gr rx ry (rz - 1) Px Py Pz) (gr rx ry (rz + 1) Px Py Pz);
         nnx = nnods sx; ncx = ncels sx;
         nny = nnods sy; ncy = ncels sy;
         nnz = nnods sz; ncz = ncels sz
     in
     ebind (DOFIndexCreate lib cen dax day daz) (\<lambda>id.
     Inr (FDSTAGGetNeighbProc lib
            (fs\<lparr>DA_CEN := cen, DA_COR := cor, DA_XY := xy, DA_XZ := xz, DA_YZ := yz,
                DA_X := dax, DA_Y := day, DA_Z := daz, dsx := sx, dsy := sy, dsz := sz,
                nCells := ncx * ncy * ncz, nCorns := nnx * nny * nnz,
                nXYEdg := nnx * nny * ncz, nXZEdg := nnx * ncy * nnz,
                nYZEdg := ncx * nny * nnz, nXFace := nnx * ncy * ncz,
                nYFace := ncx * nny * ncz, nZFace := ncx * ncy * nnz,
                dof := id\<rparr>)))))))))))))))"

subsection \<open>FDSTAGStretch\<close>

text \<open>
  \<^verbatim>\<open>FDSTAGStretch(fs, Exx, Eyy, dt)\<close>. \<^verbatim>\<open>if(Exx)\<close> tests \<open>Exx \<noteq> 0\<close>.
\<close>

definition FDSTAGStretch ::
  "('dm, 'vec) FDSTAG \<Rightarrow> PetscScalar \<Rightarrow> PetscScalar \<Rightarrow> PetscScalar \<Rightarrow> ('dm, 'vec) FDSTAG" where
  "FDSTAGStretch fs Exx Eyy dt =
     (let Ezz = - (Exx + Eyy);
          fs1 = (if Exx \<noteq> 0
                 then (let (ds, ms) = Discret1DStretch (dsx fs) (msx fs) (Exx * dt)
                       in fs\<lparr>dsx := ds, msx := ms\<rparr>)
                 else fs);
          fs2 = (if Eyy \<noteq> 0
                 then (let (ds, ms) = Discret1DStretch (dsy fs1) (msy fs1) (Eyy * dt)
                       in fs1\<lparr>dsy := ds, msy := ms\<rparr>)
                 else fs1)
      in if Ezz \<noteq> 0
         then (let (ds, ms) = Discret1DStretch (dsz fs2) (msz fs2) (Ezz * dt)
               in fs2\<lparr>dsz := ds, msz := ms\<rparr>)
         else fs2)"

text \<open>A grid whose three axes are the axis \<open>ds_nonuni\<close>; the library objects are trivial.\<close>

definition fs_nonuni :: "(unit, unit) FDSTAG" where
  "fs_nonuni =
     \<lparr>DA_CEN = (), DA_COR = (), DA_XY = (), DA_XZ = (), DA_YZ = (), DA_X = (), DA_Y = (),
      DA_Z = (), dsx = ds_nonuni, dsy = ds_nonuni, dsz = ds_nonuni,
      msx = ms_nonuni, msy = ms_nonuni, msz = ms_nonuni,
      nCells = 8, nCorns = 27, nXYEdg = 18, nXZEdg = 18, nYZEdg = 18,
      nXFace = 12, nYFace = 12, nZFace = 12,
      dof = \<lparr>idxmod = IDXNONE, lnv = 36, lnp = 8, stv = 0, stp = 0, ln = 44, st = 0,
             ivx = (), ivy = (), ivz = (), ip = ()\<rparr>,
      neighb = (\<lambda>i. if i = 13 then 0 else - 1)\<rparr>"

section \<open>JacRes: solution fields and residual assembly\<close>

subsection \<open>Arrays, loops, state variables\<close>

text \<open>
  A three-dimensional array obtained from \<^verbatim>\<open>DMDAVecGetArray\<close> is a function of the
  indices in the order of the source, \<^verbatim>\<open>a[k][j][i]\<close>. A flat array obtained from
  \<^verbatim>\<open>VecGetArray\<close> is a function of the offset.
\<close>

type_synonym arr3 = "int \<Rightarrow> int \<Rightarrow> int \<Rightarrow> PetscScalar"

type_synonym arr1 = "int \<Rightarrow> PetscScalar"

definition upd3 :: "arr3 \<Rightarrow> int \<Rightarrow> int \<Rightarrow> int \<Rightarrow> PetscScalar \<Rightarrow> arr3" where
  "upd3 a k j i v = a(k := (a k)(j := (a k j)(i := v)))"

text \<open>
  Modelled from the spec: the macros \<^verbatim>\<open>GET_CELL_RANGE\<close>, \<^verbatim>\<open>GET_NODE_RANGE\<close>,
  \<^verbatim>\<open>START_STD_LOOP\<close> and \<^verbatim>\<open>END_STD_LOOP\<close> of \<^verbatim>\<open>fdstag.h\<close>, which is not among the
  sources. A range is the number of local cells (nodes) of an axis and the global index
  of the first one; the standard loop runs over \<open>k\<close>, then \<open>j\<close>, then \<open>i\<close> (innermost),
  each from its start \<open>s\<close> to \<open>s + n - 1\<close>. \<open>STD_LOOP\<close> is the list of the index triples
  \<open>(i, j, k)\<close> in the order the loop visits them.
\<close>

definition GET_CELL_RANGE :: "Discret1D \<Rightarrow> PetscInt \<times> PetscInt" where
  "GET_CELL_RANGE ds = (ncels ds, pstart ds)"

definition GET_NODE_RANGE :: "Discret1D \<Rightarrow> PetscInt \<times> PetscInt" where
  "GET_NODE_RANGE ds = (nnods ds, pstart ds)"

definition STD_LOOP ::
  "PetscInt \<times> PetscInt \<Rightarrow> PetscInt \<times> PetscInt \<Rightarrow> PetscInt \<times> PetscInt \<Rightarrow> (int \<times> int \<times> int) list"
  where
  "STD_LOOP rx ry rz =
     (case (rx, ry, rz) of ((nx, sx), (ny, sy), (nz, sz)) \<Rightarrow>
        concat (map (\<lambda>k. concat (map (\<lambda>j. map (\<lambda>i. (i, j, k)) [sx..sx + nx - 1])
                                        [sy..sy + ny - 1]))
                    [sz..sz + nz - 1]))"

text \<open>
  A loop whose body may return an error: the first error ends the loop and is returned.
\<close>

primrec efold :: "('a \<Rightarrow> 's \<Rightarrow> error + 's) \<Rightarrow> 'a list \<Rightarrow> 's \<Rightarrow> error + 's" where
  "efold f [] s = Inr s"
| "efold f (x # xs) s = (case f x s of Inl e \<Rightarrow> Inl e | Inr s' \<Rightarrow> efold f xs s')"

text \<open>
  The state variables the sources read and write. The fields of \<^verbatim>\<open>SolVarEdge\<close> carry the
  prefix \<open>sve_\<close> (in the source: \<^verbatim>\<open>svDev\<close>, \<^verbatim>\<open>s\<close>, \<^verbatim>\<open>h\<close>, \<^verbatim>\<open>d\<close>, \<^verbatim>\<open>phRat\<close>), those of the
  time-stepping context \<^verbatim>\<open>TSSol\<close> the prefix \<open>ts_\<close>, and the fields \<^verbatim>\<open>fs\<close>, \<^verbatim>\<open>bc\<close>, \<^verbatim>\<open>ts\<close>
  of \<^verbatim>\<open>JacRes\<close> the prefix \<open>jr_\<close>. The phase ratios, the phase parameters and the
  material limits are only handed to the constitutive equations: their types are
  parameters (\<open>'ph\<close>, \<open>'phs\<close>, \<open>'lim\<close>).
\<close>

record SolVarBulk =
  theta :: PetscScalar
  rho :: PetscScalar
  IKdt :: PetscScalar
  alpha :: PetscScalar
  pn :: PetscScalar
  Tn :: PetscScalar

record SolVarDev =
  DII :: PetscScalar
  I2Gdt :: PetscScalar

record 'ph SolVarCell =
  svDev :: SolVarDev
  svBulk :: SolVarBulk
  sxx :: PetscScalar
  syy :: PetscScalar
  szz :: PetscScalar
  hxx :: PetscScalar
  hyy :: PetscScalar
  hzz :: PetscScalar
  dxx :: PetscScalar
  dyy :: PetscScalar
  dzz :: PetscScalar
  eta_creep :: PetscScalar
  phRat :: 'ph

record 'ph SolVarEdge =
  sve_svDev :: SolVarDev
  sve_s :: PetscScalar
  sve_h :: PetscScalar
  sve_d :: PetscScalar
  sve_phRat :: 'ph

record TSSol =
  ts_dt :: PetscScalar
  ts_pdt :: PetscScalar
  ts_Cmax :: PetscScalar
  ts_dtmax :: PetscScalar

record BCCtx =
  vNumSPC :: PetscInt
  vSPCList :: "int \<Rightarrow> PetscInt"
  vSPCVals :: arr1
  pNumSPC :: PetscInt
  pSPCList :: "int \<Rightarrow> PetscInt"
  pSPCVals :: arr1
  bcvx :: arr3
  bcvy :: arr3
  bcvz :: arr3
  bcp :: arr3

record ('ph, 'phs, 'lim, 'dm, 'vec) JacRes =
  jr_fs :: "('dm, 'vec) FDSTAG"
  jr_bc :: BCCtx
  jr_ts :: TSSol
  numPhases :: PetscInt
  phases :: 'phs
  matLim :: 'lim
  FSSA :: PetscScalar
  grav :: arr1
  pShift :: PetscScalar
  gvx :: arr1
  gvy :: arr1
  gvz :: arr1
  gp :: arr1
  lvx :: arr3
  lvy :: arr3
  lvz :: arr3
  lp :: arr3
  lT :: arr3
  ldxx :: arr3
  ldyy :: arr3
  ldzz :: arr3
  ldxy :: arr3
  ldxz :: arr3
  ldyz :: arr3
  lfx :: arr3
  lfy :: arr3
  lfz :: arr3
  gfx :: arr1
  gfy :: arr1
  gfz :: arr1
  gc :: arr3
  svCell :: "int \<Rightarrow> 'ph SolVarCell"
  svXYEdge :: "int \<Rightarrow> 'ph SolVarEdge"
  svXZEdge :: "int \<Rightarrow> 'ph SolVarEdge"
  svYZEdge :: "int \<Rightarrow> 'ph SolVarEdge"

text \<open>
  What the assembler takes from outside these sources. The exchanges of the distributed
  arrays (\<^verbatim>\<open>LOCAL_TO_LOCAL\<close>, \<^verbatim>\<open>GLOBAL_TO_LOCAL\<close>, \<^verbatim>\<open>LOCAL_TO_GLOBAL\<close>), the views of a
  global vector (\<^verbatim>\<open>DMDAVecGetArray\<close>, \<^verbatim>\<open>VecGetLocalSize\<close>, and \<^verbatim>\<open>VecGetArray\<close> of the
  continuity residual), the owned index box of a distributed array (\<open>DMDAGetCorners3\<close>,
  which returns \<open>(sx, sy, sz, nx, ny, nz)\<close> as \<^verbatim>\<open>DMDAGetCorners\<close> does), \<^verbatim>\<open>ISParallel\<close> and
  the values the other processes contribute to \<^verbatim>\<open>MPI_Allreduce\<close> are arbitrary
  functions. The two-point constraints of
  \<^verbatim>\<open>JacResCopySol\<close> are written through the macros \<^verbatim>\<open>SET_TPC\<close> and \<^verbatim>\<open>SET_EDGE_CORNER\<close>,
  which are not among the sources: \<open>enforce_TPC\<close> stands for the four loops that apply
  them to a local vector, given its boundary-constraint array.

  Modelled from the spec: the constitutive equations. \<open>DevConstEq\<close> takes the deviatoric
  state, the number of phases, the phase parameters, the phase ratios, the limits, the
  time step, the pressure and the temperature, and returns the updated deviatoric state
  and the creep viscosity. \<open>VolConstEq\<close> takes the same arguments with the bulk state and
  returns the density, the inverse bulk modulus times the time step, the thermal
  expansion, and the pressure and temperature history; it does not change the
  volumetric strain rate. \<open>GetStressCell\<close> and \<open>GetStressEdge\<close> take the state, the limits
  and the strain-rate components and return the stress components and the deviatoric
  state (which carries the plastic strain rate and the shear heating). Each of them may
  fail.
\<close>

record ('ph, 'phs, 'lim, 'dm) JacResLib =
  LOCAL_TO_LOCAL :: "'dm \<Rightarrow> arr3 \<Rightarrow> arr3"
  GLOBAL_TO_LOCAL :: "'dm \<Rightarrow> arr1 \<Rightarrow> arr3"
  LOCAL_TO_GLOBAL :: "'dm \<Rightarrow> arr3 \<Rightarrow> arr1"
  DMDAVecGetArray :: "'dm \<Rightarrow> arr1 \<Rightarrow> arr3"
  DMDAGetCorners3 :: "'dm \<Rightarrow> PetscInt \<times> PetscInt \<times> PetscInt \<times> PetscInt \<times> PetscInt \<times> PetscInt"
  VecGetLocalSize :: "'dm \<Rightarrow> PetscInt"
  VecGetArray_CEN :: "'dm \<Rightarrow> arr3 \<Rightarrow> arr1"
  ISParallel :: bool
  Allreduce_others :: "PetscScalar list"
  enforce_TPC :: "'dm \<Rightarrow> arr3 \<Rightarrow> arr3 \<Rightarrow> arr3"
  DevConstEq ::
    "SolVarDev \<Rightarrow> PetscInt \<Rightarrow> 'phs \<Rightarrow> 'ph \<Rightarrow> 'lim \<Rightarrow> PetscScalar \<Rightarrow> PetscScalar \<Rightarrow> PetscScalar
       \<Rightarrow> error + SolVarDev \<times> PetscScalar"
  VolConstEq ::
    "SolVarBulk \<Rightarrow> PetscInt \<Rightarrow> 'phs \<Rightarrow> 'ph \<Rightarrow> 'lim \<Rightarrow> PetscScalar \<Rightarrow> PetscScalar \<Rightarrow> PetscScalar
       \<Rightarrow> error + PetscScalar \<times> PetscScalar \<times> PetscScalar \<times> PetscScalar \<times> PetscScalar"
  GetStressCell ::
    "'ph SolVarCell \<Rightarrow> 'lim \<Rightarrow> PetscScalar \<Rightarrow> PetscScalar \<Rightarrow> PetscScalar
       \<Rightarrow> error + (PetscScalar \<times> PetscScalar \<times> PetscScalar) \<times> SolVarDev"
  GetStressEdge ::
    "'ph SolVarEdge \<Rightarrow> 'lim \<Rightarrow> PetscScalar \<Rightarrow> error + PetscScalar \<times> SolVarDev"

subsection \<open>JacResGetEffStrainRate\<close>

text \<open>
  The bodies of the four loops of \<^verbatim>\<open>JacResGetEffStrainRate\<close>. The state of a loop is
  the counter \<^verbatim>\<open>iter\<close> and the \<^verbatim>\<open>JacRes\<close> object.
\<close>

definition EffStrainRate_center ::
  "int \<times> int \<times> int \<Rightarrow> int \<times> ('ph, 'phs, 'lim, 'dm, 'vec) JacRes
     \<Rightarrow> int \<times> ('ph, 'phs, 'lim, 'dm, 'vec) JacRes" where
  "EffStrainRate_center = (\<lambda>(i, j, k) (iter, jr).
     (let fs = jr_fs jr;
          sx = snd (GET_CELL_RANGE (dsx fs));
          sy = snd (GET_CELL_RANGE (dsy fs));
          sz = snd (GET_CELL_RANGE (dsz fs));
          svc = svCell jr iter;
          dev = svDev svc;
          dx = SIZE_CELL i sx (dsx fs);
          dy = SIZE_CELL j sy (dsy fs);
          dz = SIZE_CELL k sz (dsz fs);
          xx = (lvx jr k j (i + 1) - lvx jr k j i) / dx;
          yy = (lvy jr k (j + 1) i - lvy jr k j i) / dy;
          zz = (lvz jr (k + 1) j i - lvz jr k j i) / dz;
          th = xx + yy + zz;
          tr = th / 3;
          xx = xx - tr;
          yy = yy - tr;
          zz = zz - tr;
          svc' = svc\<lparr>svBulk := (svBulk svc)\<lparr>theta := th\<rparr>, dxx := xx, dyy := yy, dzz := zz\<rparr>
      in (iter + 1,
          jr\<lparr>svCell := (svCell jr)(iter := svc'),
             ldxx := upd3 (ldxx jr) k j i (xx + hxx svc' * I2Gdt dev),
             ldyy := upd3 (ldyy jr) k j i (yy + hyy svc' * I2Gdt dev),
             ldzz := upd3 (ldzz jr) k j i (zz + hzz svc' * I2Gdt dev)\<rparr>)))"

definition EffStrainRate_xy ::
  "int \<times> int \<times> int \<Rightarrow> int \<times> ('ph, 'phs, 'lim, 'dm, 'vec) JacRes
     \<Rightarrow> int \<times> ('ph, 'phs, 'lim, 'dm, 'vec) JacRes" where
  "EffStrainRate_xy = (\<lambda>(i, j, k) (iter, jr).
     (let fs = jr_fs jr;
          sx = snd (GET_NODE_RANGE (dsx fs));
          sy = snd (GET_NODE_RANGE (dsy fs));
          sve = svXYEdge jr iter;
          dev = sve_svDev sve;
          dx = SIZE_NODE i sx (dsx fs);
          dy = SIZE_NODE j sy (dsy fs);
          dvxdy = (lvx jr k j i - lvx jr k (j - 1) i) / dy;
          dvydx = (lvy jr k j i - lvy jr k j (i - 1)) / dx;
          xy = (1 / 2) * (dvxdy + dvydx);
          sve' = sve\<lparr>sve_d := xy\<rparr>
      in (iter + 1,
          jr\<lparr>svXYEdge := (svXYEdge jr)(iter := sve'),
             ldxy := upd3 (ldxy jr) k j i (xy + sve_h sve' * I2Gdt dev)\<rparr>)))"

definition EffStrainRate_xz ::
  "int \<times> int \<times> int \<Rightarrow> int \<times> ('ph, 'phs, 'lim, 'dm, 'vec) JacRes
     \<Rightarrow> int \<times> ('ph, 'phs, 'lim, 'dm, 'vec) JacRes" where
  "EffStrainRate_xz = (\<lambda>(i, j, k) (iter, jr).
     (let fs = jr_fs jr;
          sx = snd (GET_NODE_RANGE (dsx fs));
          sz = snd (GET_NODE_RANGE (dsz fs));
          sve = svXZEdge jr iter;
          dev = sve_svDev sve;
          dx = SIZE_NODE i sx (dsx fs);
          dz = SIZE_NODE k sz (dsz fs);
          dvxdz = (lvx jr k j i - lvx jr (k - 1) j i) / dz;
          dvzdx = (lvz jr k j i - lvz jr k j (i - 1)) / dx;
          xz = (1 / 2) * (dvxdz + dvzdx);
          sve' = sve\<lparr>sve_d := xz\<rparr>
      in (iter + 1,
          jr\<lparr>svXZEdge := (svXZEdge jr)(iter := sve'),
             ldxz := upd3 (ldxz jr) k j i (xz + sve_h sve' * I2Gdt dev)\<rparr>)))"

definition EffStrainRate_yz ::
  "int \<times> int \<times> int \<Rightarrow> int \<times> ('ph, 'phs, 'lim, 'dm, 'vec) JacRes
     \<Rightarrow> int \<times> ('ph, 'phs, 'lim, 'dm, 'vec) JacRes" where
  "EffStrainRate_yz = (\<lambda>(i, j, k) (iter, jr).
     (let fs = jr_fs jr;
          sy = snd (GET_NODE_RANGE (dsy fs));
          sz = snd (GET_NODE_RANGE (dsz fs));
          sve = svYZEdge jr iter;
          dev = sve_svDev sve;
          dy = SIZE_NODE j sy (dsy fs);
          dz = SIZE_NODE k sz (dsz fs);
          dvydz = (lvy jr k j i - lvy jr (k - 1) j i) / dz;
          dvzdy = (lvz jr k j i - lvz jr k (j - 1) i) / dy;
          yz = (1 / 2) * (dvydz + dvzdy);
          sve' = sve\<lparr>sve_d := yz\<rparr>
      in (iter + 1,
          jr\<lparr>svYZEdge := (svYZEdge jr)(iter := sve'),
             ldyz := upd3 (ldyz jr) k j i (yz + sve_h sve' * I2Gdt dev)\<rparr>)))"

text \<open>The index triples of the four point sets, in loop order.\<close>

definition center_points :: "('dm, 'vec) FDSTAG \<Rightarrow> (int \<times> int \<times> int) list" where
  "center_points fs =
     STD_LOOP (GET_CELL_RANGE (dsx fs)) (GET_CELL_RANGE (dsy fs)) (GET_CELL_RANGE (dsz fs))"

definition xy_points :: "('dm, 'vec) FDSTAG \<Rightarrow> (int \<times> int \<times> int) list" where
  "xy_points fs =
     STD_LOOP (GET_NODE_RANGE (dsx fs)) (GET_NODE_RANGE (dsy fs)) (GET_CELL_RANGE (dsz fs))"

definition xz_points :: "('dm, 'vec) FDSTAG \<Rightarrow> (int \<times> int \<times> int) list" where
  "xz_points fs =
     STD_LOOP (GET_NODE_RANGE (dsx fs)) (GET_CELL_RANGE (dsy fs)) (GET_NODE_RANGE (dsz fs))"

definition yz_points :: "('dm, 'vec) FDSTAG \<Rightarrow> (int \<times> int \<times> int) list" where
  "yz_points fs =
     STD_LOOP (GET_CELL_RANGE (dsx fs)) (GET_NODE_RANGE (dsy fs)) (GET_NODE_RANGE (dsz fs))"

text \<open>
  \<^verbatim>\<open>JacResGetEffStrainRate(jr)\<close>: the four loops, each with \<^verbatim>\<open>iter = 0\<close> at its start,
  then the exchange of the boundary values of the six strain-rate arrays.
\<close>

definition JacResGetEffStrainRate ::
  "('ph, 'phs, 'lim, 'dm) JacResLib \<Rightarrow> ('ph, 'phs, 'lim, 'dm, 'vec) JacRes
     \<Rightarrow> ('ph, 'phs, 'lim, 'dm, 'vec) JacRes" where
  "JacResGetEffStrainRate lib jr =
     (let fs = jr_fs jr;
          jr1 = snd (fold EffStrainRate_center (center_points fs) (0, jr));
          jr2 = snd (fold EffStrainRate_xy (xy_points fs) (0, jr1));
          jr3 = snd (fold EffStrainRate_xz (xz_points fs) (0, jr2));
          jr4 = snd (fold EffStrainRate_yz (yz_points fs) (0, jr3))
      in jr4\<lparr>ldxx := LOCAL_TO_LOCAL lib (DA_CEN fs) (ldxx jr4),
             ldyy := LOCAL_TO_LOCAL lib (DA_CEN fs) (ldyy jr4),
             ldzz := LOCAL_TO_LOCAL lib (DA_CEN fs) (ldzz jr4),
             ldxy := LOCAL_TO_LOCAL lib (DA_XY fs) (ldxy jr4),
             ldxz := LOCAL_TO_LOCAL lib (DA_XZ fs) (ldxz jr4),
             ldyz := LOCAL_TO_LOCAL lib (DA_YZ fs) (ldyz jr4)\<rparr>)"

text \<open>
  The three velocity gradients at the cell center \<open>(i, j, k)\<close>, as the loop over the
  central points computes them from the local velocity arrays.
\<close>

definition grad_xx :: "('ph, 'phs, 'lim, 'dm, 'vec) JacRes \<Rightarrow> int \<times> int \<times> int \<Rightarrow> PetscScalar" where
  "grad_xx jr = (\<lambda>(i, j, k).
     (lvx jr k j (i + 1) - lvx jr k j i) / SIZE_CELL i (pstart (dsx (jr_fs jr))) (dsx (jr_fs jr)))"

definition grad_yy :: "('ph, 'phs, 'lim, 'dm, 'vec) JacRes \<Rightarrow> int \<times> int \<times> int \<Rightarrow> PetscScalar" where
  "grad_yy jr = (\<lambda>(i, j, k).
     (lvy jr k (j + 1) i - lvy jr k j i) / SIZE_CELL j (pstart (dsy (jr_fs jr))) (dsy (jr_fs jr)))"

definition grad_zz :: "('ph, 'phs, 'lim, 'dm, 'vec) JacRes \<Rightarrow> int \<times> int \<times> int \<Rightarrow> PetscScalar" where
  "grad_zz jr = (\<lambda>(i, j, k).
     (lvz jr (k + 1) j i - lvz jr k j i) / SIZE_CELL k (pstart (dsz (jr_fs jr))) (dsz (jr_fs jr)))"


text \<open>
  What the loop over the central points stores in the cell at the point \<open>p\<close>, and the
  fields of \<^verbatim>\<open>JacRes\<close> that \<^verbatim>\<open>JacResGetEffStrainRate\<close> leaves as they are.
\<close>

definition cell_upd ::
  "('ph, 'phs, 'lim, 'dm, 'vec) JacRes \<Rightarrow> int \<times> int \<times> int \<Rightarrow> 'ph SolVarCell \<Rightarrow> 'ph SolVarCell" where
  "cell_upd jr p svc =
     (let th = grad_xx jr p + grad_yy jr p + grad_zz jr p
      in svc\<lparr>svBulk := (svBulk svc)\<lparr>theta := th\<rparr>, dxx := grad_xx jr p - th / 3,
             dyy := grad_yy jr p - th / 3, dzz := grad_zz jr p - th / 3\<rparr>)"

definition same_input ::
  "('ph, 'phs, 'lim, 'dm, 'vec) JacRes \<Rightarrow> ('ph, 'phs, 'lim, 'dm, 'vec) JacRes \<Rightarrow> bool" where
  "same_input jr jr' \<longleftrightarrow> jr_fs jr' = jr_fs jr \<and> lvx jr' = lvx jr \<and> lvy jr' = lvy jr \<and> lvz jr' = lvz jr
     \<and> lp jr' = lp jr \<and> lT jr' = lT jr \<and> jr_ts jr' = jr_ts jr \<and> jr_bc jr' = jr_bc jr
     \<and> gc jr' = gc jr \<and> numPhases jr' = numPhases jr \<and> phases jr' = phases jr
     \<and> matLim jr' = matLim jr"

subsection \<open>Double precision\<close>

text \<open>
  \<^verbatim>\<open>PetscScalar\<close> is a binary64 number. \<open>rnd64 x\<close> is the real \<open>x\<close> rounded to the nearest
  number with a significand of 53 bits, ties to the even significand: \<open>ilog2 x\<close> is the
  exponent \<open>e\<close> with \<open>pow2 e \<le> \<bar>x\<bar> < pow2 (e + 1)\<close>, where \<open>pow2 e\<close> is the power \<open>2 ^ e\<close> for an
  integer \<open>e\<close>, and \<open>pow2 (e - 52)\<close> is the unit in the last place. The
  exponent of \<open>rnd64\<close> is not bounded; \<open>normal64 x\<close> says that \<open>x\<close> is zero or in the normal
  range of binary64, and then \<open>rnd64 x\<close> is what the machine operation returns when its
  exact result is \<open>x\<close>.
\<close>

definition round_even :: "real \<Rightarrow> int" where
  "round_even y =
     (if y - of_int \<lfloor>y\<rfloor> < 1 / 2 then \<lfloor>y\<rfloor>
      else if 1 / 2 < y - of_int \<lfloor>y\<rfloor> then \<lfloor>y\<rfloor> + 1
      else if even \<lfloor>y\<rfloor> then \<lfloor>y\<rfloor> else \<lfloor>y\<rfloor> + 1)"

definition pow2 :: "int \<Rightarrow> real" where
  "pow2 e = (if 0 \<le> e then 2 ^ nat e else 1 / 2 ^ nat (- e))"

definition ilog2 :: "real \<Rightarrow> int" where
  "ilog2 x = (if 1 \<le> \<bar>x\<bar> then bitlen \<lfloor>\<bar>x\<bar>\<rfloor> - 1 else - bitlen (\<lceil>1 / \<bar>x\<bar>\<rceil> - 1))"

definition rnd64 :: "real \<Rightarrow> real" where
  "rnd64 x = (if x = 0 then 0
              else of_int (round_even (x / pow2 (ilog2 x - 52))) * pow2 (ilog2 x - 52))"

definition normal64 :: "real \<Rightarrow> bool" where
  "normal64 x \<longleftrightarrow> x = 0 \<or> (pow2 (- 1022) \<le> \<bar>x\<bar> \<and> \<bar>x\<bar> \<le> (2 ^ 53 - 1) * pow2 971)"

text \<open>
  The loops of \<^verbatim>\<open>JacResGetEffStrainRate\<close> again, with the result of every operation
  rounded by \<open>rnd\<close>, in the order in which the C expressions are evaluated.
\<close>

definition SIZE_CELL_fl :: "(real \<Rightarrow> real) \<Rightarrow> PetscInt \<Rightarrow> PetscInt \<Rightarrow> Discret1D \<Rightarrow> PetscScalar" where
  "SIZE_CELL_fl rnd i s ds = rnd (ncoor ds (i - s + 1) - ncoor ds (i - s))"

definition SIZE_NODE_fl :: "(real \<Rightarrow> real) \<Rightarrow> PetscInt \<Rightarrow> PetscInt \<Rightarrow> Discret1D \<Rightarrow> PetscScalar" where
  "SIZE_NODE_fl rnd i s ds = rnd (ccoor ds (i - s) - ccoor ds (i - s - 1))"

definition EffStrainRate_center_fl ::
  "(real \<Rightarrow> real) \<Rightarrow> int \<times> int \<times> int \<Rightarrow> int \<times> ('ph, 'phs, 'lim, 'dm, 'vec) JacRes
     \<Rightarrow> int \<times> ('ph, 'phs, 'lim, 'dm, 'vec) JacRes" where
  "EffStrainRate_center_fl rnd = (\<lambda>(i, j, k) (iter, jr).
     (let fs = jr_fs jr;
          sx = snd (GET_CELL_RANGE (dsx fs));
          sy = snd (GET_CELL_RANGE (dsy fs));
          sz = snd (GET_CELL_RANGE (dsz fs));
          svc = svCell jr iter;
          dev = svDev svc;
          dx = SIZE_CELL_fl rnd i sx (dsx fs);
          dy = SIZE_CELL_fl rnd j sy (dsy fs);
          dz = SIZE_CELL_fl rnd k sz (dsz fs);
          xx = rnd (rnd (lvx jr k j (i + 1) - lvx jr k j i) / dx);
          yy = rnd (rnd (lvy jr k (j + 1) i - lvy jr k j i) / dy);
          zz = rnd (rnd (lvz jr (k + 1) j i - lvz jr k j i) / dz);
          th = rnd (rnd (xx + yy) + zz);
          tr = rnd (th / 3);
          xx = rnd (xx - tr);
          yy = rnd (yy - tr);
          zz = rnd (zz - tr);
          svc' = svc\<lparr>svBulk := (svBulk svc)\<lparr>theta := th\<rparr>, dxx := xx, dyy := yy, dzz := zz\<rparr>
      in (iter + 1,
          jr\<lparr>svCell := (svCell jr)(iter := svc'),
             ldxx := upd3 (ldxx jr) k j i (rnd (xx + rnd (hxx svc' * I2Gdt dev))),
             ldyy := upd3 (ldyy jr) k j i (rnd (yy + rnd (hyy svc' * I2Gdt dev))),
             ldzz := upd3 (ldzz jr) k j i (rnd (zz + rnd (hzz svc' * I2Gdt dev)))\<rparr>)))"

definition EffStrainRate_xy_fl ::
  "(real \<Rightarrow> real) \<Rightarrow> int \<times> int \<times> int \<Rightarrow> int \<times> ('ph, 'phs, 'lim, 'dm, 'vec) JacRes
     \<Rightarrow> int \<times> ('ph, 'phs, 'lim, 'dm, 'vec) JacRes" where
  "EffStrainRate_xy_fl rnd = (\<lambda>(i, j, k) (iter, jr).
     (let fs = jr_fs jr;
          sx = snd (GET_NODE_RANGE (dsx fs));
          sy = snd (GET_NODE_RANGE (dsy fs));
          sve = svXYEdge jr iter;
          dev = sve_svDev sve;
          dx = SIZE_NODE_fl rnd i sx (dsx fs);
          dy = SIZE_NODE_fl rnd j sy (dsy fs);
          dvxdy = rnd (rnd (lvx jr k j i - lvx jr k (j - 1) i) / dy);
          dvydx = rnd (rnd (lvy jr k j i - lvy jr k j (i - 1)) / dx);
          xy = rnd ((1 / 2) * rnd (dvxdy + dvydx));
          sve' = sve\<lparr>sve_d := xy\<rparr>
      in (iter + 1,
          jr\<lparr>svXYEdge := (svXYEdge jr)(iter := sve'),
             ldxy := upd3 (ldxy jr) k j i (rnd (xy + rnd (sve_h sve' * I2Gdt dev)))\<rparr>)))"

definition EffStrainRate_xz_fl ::
  "(real \<Rightarrow> real) \<Rightarrow> int \<times> int \<times> int \<Rightarrow> int \<times> ('ph, 'phs, 'lim, 'dm, 'vec) JacRes
     \<Rightarrow> int \<times> ('ph, 'phs, 'lim, 'dm, 'vec) JacRes" where
  "EffStrainRate_xz_fl rnd = (\<lambda>(i, j, k) (iter, jr).
     (let fs = jr_fs jr;
          sx = snd (GET_NODE_RANGE (dsx fs));
          sz = snd (GET_NODE_RANGE (dsz fs));
          sve = svXZEdge jr iter;
          dev = sve_svDev sve;
          dx = SIZE_NODE_fl rnd i sx (dsx fs);
          dz = SIZE_NODE_fl rnd k sz (dsz fs);
          dvxdz = rnd (rnd (lvx jr k j i - lvx jr (k - 1) j i) / dz);
          dvzdx = rnd (rnd (lvz jr k j i - lvz jr k j (i - 1)) / dx);
          xz = rnd ((1 / 2) * rnd (dvxdz + dvzdx));
          sve' = sve\<lparr>sve_d := xz\<rparr>
      in (iter + 1,
          jr\<lparr>svXZEdge := (svXZEdge jr)(iter := sve'),
             ldxz := upd3 (ldxz jr) k j i (rnd (xz + rnd (sve_h sve' * I2Gdt dev)))\<rparr>)))"

definition EffStrainRate_yz_fl ::
  "(real \<Rightarrow> real) \<Rightarrow> int \<times> int \<times> int \<Rightarrow> int \<times> ('ph, 'phs, 'lim, 'dm, 'vec) JacRes
     \<Rightarrow> int \<times> ('ph, 'phs, 'lim, 'dm, 'vec) JacRes" where
  "EffStrainRate_yz_fl rnd = (\<lambda>(i, j, k) (iter, jr).
     (let fs = jr_fs jr;
          sy = snd (GET_NODE_RANGE (dsy fs));
          sz = snd (GET_NODE_RANGE (dsz fs));
          sve = svYZEdge jr iter;
          dev = sve_svDev sve;
          dy = SIZE_NODE_fl rnd j sy (dsy fs);
          dz = SIZE_NODE_fl rnd k sz (dsz fs);
          dvydz = rnd (rnd (lvy jr k j i - lvy jr (k - 1) j i) / dz);
          dvzdy = rnd (rnd (lvz jr k j i - lvz jr k (j - 1) i) / dy);
          yz = rnd ((1 / 2) * rnd (dvydz + dvzdy));
          sve' = sve\<lparr>sve_d := yz\<rparr>
      in (iter + 1,
          jr\<lparr>svYZEdge := (svYZEdge jr)(iter := sve'),
             ldyz := upd3 (ldyz jr) k j i (rnd (yz + rnd (sve_h sve' * I2Gdt dev)))\<rparr>)))"

definition JacResGetEffStrainRate_fl ::
  "(real \<Rightarrow> real) \<Rightarrow> ('ph, 'phs, 'lim, 'dm) JacResLib \<Rightarrow> ('ph, 'phs, 'lim, 'dm, 'vec) JacRes
     \<Rightarrow> ('ph, 'phs, 'lim, 'dm, 'vec) JacRes" where
  "JacResGetEffStrainRate_fl rnd lib jr =
     (let fs = jr_fs jr;
          jr1 = snd (fold (EffStrainRate_center_fl rnd) (center_points fs) (0, jr));
          jr2 = snd (fold (EffStrainRate_xy_fl rnd) (xy_points fs) (0, jr1));
          jr3 = snd (fold (EffStrainRate_xz_fl rnd) (xz_points fs) (0, jr2));
          jr4 = snd (fold (EffStrainRate_yz_fl rnd) (yz_points fs) (0, jr3))
      in jr4\<lparr>ldxx := LOCAL_TO_LOCAL lib (DA_CEN fs) (ldxx jr4),
             ldyy := LOCAL_TO_LOCAL lib (DA_CEN fs) (ldyy jr4),
             ldzz := LOCAL_TO_LOCAL lib (DA_CEN fs) (ldzz jr4),
             ldxy := LOCAL_TO_LOCAL lib (DA_XY fs) (ldxy jr4),
             ldxz := LOCAL_TO_LOCAL lib (DA_XZ fs) (ldxz jr4),
             ldyz := LOCAL_TO_LOCAL lib (DA_YZ fs) (ldyz jr4)\<rparr>)"

text \<open>
  The three rounded velocity gradients at the cell center \<open>(i, j, k)\<close>, and what the
  rounded loop over the central points stores in the cell at the point \<open>p\<close>.
\<close>

definition grad_xx_fl ::
  "(real \<Rightarrow> real) \<Rightarrow> ('ph, 'phs, 'lim, 'dm, 'vec) JacRes \<Rightarrow> int \<times> int \<times> int \<Rightarrow> PetscScalar" where
  "grad_xx_fl rnd jr = (\<lambda>(i, j, k).
     rnd (rnd (lvx jr k j (i + 1) - lvx jr k j i)
          / SIZE_CELL_fl rnd i (pstart (dsx (jr_fs jr))) (dsx (jr_fs jr))))"

definition grad_yy_fl ::
  "(real \<Rightarrow> real) \<Rightarrow> ('ph, 'phs, 'lim, 'dm, 'vec) JacRes \<Rightarrow> int \<times> int \<times> int \<Rightarrow> PetscScalar" where
  "grad_yy_fl rnd jr = (\<lambda>(i, j, k).
     rnd (rnd (lvy jr k (j + 1) i - lvy jr k j i)
          / SIZE_CELL_fl rnd j (pstart (dsy (jr_fs jr))) (dsy (jr_fs jr))))"

definition grad_zz_fl ::
  "(real \<Rightarrow> real) \<Rightarrow> ('ph, 'phs, 'lim, 'dm, 'vec) JacRes \<Rightarrow> int \<times> int \<times> int \<Rightarrow> PetscScalar" where
  "grad_zz_fl rnd jr = (\<lambda>(i, j, k).
     rnd (rnd (lvz jr (k + 1) j i - lvz jr k j i)
          / SIZE_CELL_fl rnd k (pstart (dsz (jr_fs jr))) (dsz (jr_fs jr))))"

definition theta_fl ::
  "(real \<Rightarrow> real) \<Rightarrow> ('ph, 'phs, 'lim, 'dm, 'vec) JacRes \<Rightarrow> int \<times> int \<times> int \<Rightarrow> PetscScalar" where
  "theta_fl rnd jr p = rnd (rnd (grad_xx_fl rnd jr p + grad_yy_fl rnd jr p) + grad_zz_fl rnd jr p)"

definition cell_upd_fl ::
  "(real \<Rightarrow> real) \<Rightarrow> ('ph, 'phs, 'lim, 'dm, 'vec) JacRes \<Rightarrow> int \<times> int \<times> int
     \<Rightarrow> 'ph SolVarCell \<Rightarrow> 'ph SolVarCell" where
  "cell_upd_fl rnd jr p svc =
     (let th = theta_fl rnd jr p; tr = rnd (th / 3)
      in svc\<lparr>svBulk := (svBulk svc)\<lparr>theta := th\<rparr>, dxx := rnd (grad_xx_fl rnd jr p - tr),
             dyy := rnd (grad_yy_fl rnd jr p - tr), dzz := rnd (grad_zz_fl rnd jr p - tr)\<rparr>)"

text \<open>
  The exact results of the operations that produce \<open>dxx\<close>, \<open>dyy\<close> and \<open>dzz\<close> at the cell
  center \<open>(i, j, k)\<close>, in the order of the loop body: the three cell sizes, the three
  velocity differences, the three quotients, the two sums of \<open>theta\<close>, its third, and
  the three differences. \<open>center_ok\<close> says that no cell size is zero and that each of
  these results is zero or in the normal range, so that the rounded model computes at
  this cell what the machine computes: no infinity or NaN arises, and nothing underflows.
\<close>

definition center_ops ::
  "(real \<Rightarrow> real) \<Rightarrow> ('ph, 'phs, 'lim, 'dm, 'vec) JacRes \<Rightarrow> int \<times> int \<times> int \<Rightarrow> real list" where
  "center_ops rnd jr = (\<lambda>(i, j, k).
     (let fs = jr_fs jr;
          ex = ncoor (dsx fs) (i - pstart (dsx fs) + 1) - ncoor (dsx fs) (i - pstart (dsx fs));
          ey = ncoor (dsy fs) (j - pstart (dsy fs) + 1) - ncoor (dsy fs) (j - pstart (dsy fs));
          ez = ncoor (dsz fs) (k - pstart (dsz fs) + 1) - ncoor (dsz fs) (k - pstart (dsz fs));
          vx = lvx jr k j (i + 1) - lvx jr k j i;
          vy = lvy jr k (j + 1) i - lvy jr k j i;
          vz = lvz jr (k + 1) j i - lvz jr k j i;
          qx = rnd vx / rnd ex;
          qy = rnd vy / rnd ey;
          qz = rnd vz / rnd ez;
          s1 = rnd qx + rnd qy;
          s2 = rnd s1 + rnd qz;
          t3 = rnd s2 / 3
      in [ex, ey, ez, vx, vy, vz, qx, qy, qz, s1, s2, t3,
          rnd qx - rnd t3, rnd qy - rnd t3, rnd qz - rnd t3]))"

definition center_ok ::
  "(real \<Rightarrow> real) \<Rightarrow> ('ph, 'phs, 'lim, 'dm, 'vec) JacRes \<Rightarrow> int \<times> int \<times> int \<Rightarrow> bool" where
  "center_ok rnd jr = (\<lambda>(i, j, k).
     SIZE_CELL_fl rnd i (pstart (dsx (jr_fs jr))) (dsx (jr_fs jr)) \<noteq> 0
     \<and> SIZE_CELL_fl rnd j (pstart (dsy (jr_fs jr))) (dsy (jr_fs jr)) \<noteq> 0
     \<and> SIZE_CELL_fl rnd k (pstart (dsz (jr_fs jr))) (dsz (jr_fs jr)) \<noteq> 0
     \<and> list_all normal64 (center_ops rnd jr (i, j, k)))"

subsection \<open>JacResGetResidual\<close>

text \<open>
  The second invariant of the effective strain rate at a central point and at the three
  kinds of edge points, as \<^verbatim>\<open>JacResGetResidual\<close> computes it from the six strain-rate
  arrays. \<open>mx\<close>, \<open>my\<close>, \<open>mz\<close> are the maximal node indices; at an edge point the indices
  \<open>I1\<close>, \<open>I2\<close> (\<open>J1\<close>, \<open>J2\<close>, \<open>K1\<close>, \<open>K2\<close>) are the index and its predecessor, moved back
  into the range at the boundary: \<^verbatim>\<open>I1 = i; if(I1 == mx) I1--; I2 = i-1; if(I2 == -1) I2++;\<close>
\<close>

definition bound_hi :: "int \<Rightarrow> int \<Rightarrow> int" where
  "bound_hi i m = (if i = m then i - 1 else i)"

definition bound_lo :: "int \<Rightarrow> int" where
  "bound_lo i = (if i - 1 = - 1 then i - 1 + 1 else i - 1)"

definition J2Inv_center ::
  "arr3 \<Rightarrow> arr3 \<Rightarrow> arr3 \<Rightarrow> arr3 \<Rightarrow> arr3 \<Rightarrow> arr3 \<Rightarrow> int \<Rightarrow> int \<Rightarrow> int \<Rightarrow> PetscScalar" where
  "J2Inv_center axx ayy azz axy axz ayz i j k =
     (let XX = axx k j i; YY = ayy k j i; ZZ = azz k j i;
          XY1 = axy k j i; XY2 = axy k (j + 1) i; XY3 = axy k j (i + 1); XY4 = axy k (j + 1) (i + 1);
          XZ1 = axz k j i; XZ2 = axz (k + 1) j i; XZ3 = axz k j (i + 1); XZ4 = axz (k + 1) j (i + 1);
          YZ1 = ayz k j i; YZ2 = ayz (k + 1) j i; YZ3 = ayz k (j + 1) i; YZ4 = ayz (k + 1) (j + 1) i
      in (1 / 2) * (XX * XX + YY * YY + ZZ * ZZ) +
         (1 / 4) * (XY1 * XY1 + XY2 * XY2 + XY3 * XY3 + XY4 * XY4) +
         (1 / 4) * (XZ1 * XZ1 + XZ2 * XZ2 + XZ3 * XZ3 + XZ4 * XZ4) +
         (1 / 4) * (YZ1 * YZ1 + YZ2 * YZ2 + YZ3 * YZ3 + YZ4 * YZ4))"

definition J2Inv_xy ::
  "arr3 \<Rightarrow> arr3 \<Rightarrow> arr3 \<Rightarrow> arr3 \<Rightarrow> arr3 \<Rightarrow> arr3 \<Rightarrow> int \<Rightarrow> int \<Rightarrow> int \<Rightarrow> int \<Rightarrow> int \<Rightarrow> PetscScalar" where
  "J2Inv_xy axx ayy azz axy axz ayz mx my i j k =
     (let I1 = bound_hi i mx; I2 = bound_lo i; J1 = bound_hi j my; J2 = bound_lo j;
          XY = axy k j i;
          XX1 = axx k J1 I1; XX2 = axx k J1 I2; XX3 = axx k J2 I1; XX4 = axx k J2 I2;
          YY1 = ayy k J1 I1; YY2 = ayy k J1 I2; YY3 = ayy k J2 I1; YY4 = ayy k J2 I2;
          ZZ1 = azz k J1 I1; ZZ2 = azz k J1 I2; ZZ3 = azz k J2 I1; ZZ4 = azz k J2 I2;
          XZ1 = axz k J1 i; XZ2 = axz (k + 1) J1 i; XZ3 = axz k J2 i; XZ4 = axz (k + 1) J2 i;
          YZ1 = ayz k j I1; YZ2 = ayz (k + 1) j I1; YZ3 = ayz k j I2; YZ4 = ayz (k + 1) j I2
      in XY * XY +
         (1 / 8) * (XX1 * XX1 + XX2 * XX2 + XX3 * XX3 + XX4 * XX4) +
         (1 / 8) * (YY1 * YY1 + YY2 * YY2 + YY3 * YY3 + YY4 * YY4) +
         (1 / 8) * (ZZ1 * ZZ1 + ZZ2 * ZZ2 + ZZ3 * ZZ3 + ZZ4 * ZZ4) +
         (1 / 4) * (XZ1 * XZ1 + XZ2 * XZ2 + XZ3 * XZ3 + XZ4 * XZ4) +
         (1 / 4) * (YZ1 * YZ1 + YZ2 * YZ2 + YZ3 * YZ3 + YZ4 * YZ4))"

definition J2Inv_xz ::
  "arr3 \<Rightarrow> arr3 \<Rightarrow> arr3 \<Rightarrow> arr3 \<Rightarrow> arr3 \<Rightarrow> arr3 \<Rightarrow> int \<Rightarrow> int \<Rightarrow> int \<Rightarrow> int \<Rightarrow> int \<Rightarrow> PetscScalar" where
  "J2Inv_xz axx ayy azz axy axz ayz mx mz i j k =
     (let I1 = bound_hi i mx; I2 = bound_lo i; K1 = bound_hi k mz; K2 = bound_lo k;
          XZ = axz k j i;
          XX1 = axx K1 j I1; XX2 = axx K1 j I2; XX3 = axx K2 j I1; XX4 = axx K2 j I2;
          YY1 = ayy K1 j I1; YY2 = ayy K1 j I2; YY3 = ayy K2 j I1; YY4 = ayy K2 j I2;
          ZZ1 = azz K1 j I1; ZZ2 = azz K1 j I2; ZZ3 = azz K2 j I1; ZZ4 = azz K2 j I2;
          XY1 = axy K1 j i; XY2 = axy K1 (j + 1) i; XY3 = axy K2 j i; XY4 = axy K2 (j + 1) i;
          YZ1 = ayz k j I1; YZ2 = ayz k (j + 1) I1; YZ3 = ayz k j I2; YZ4 = ayz k (j + 1) I2
      in XZ * XZ +
         (1 / 8) * (XX1 * XX1 + XX2 * XX2 + XX3 * XX3 + XX4 * XX4) +
         (1 / 8) * (YY1 * YY1 + YY2 * YY2 + YY3 * YY3 + YY4 * YY4) +
         (1 / 8) * (ZZ1 * ZZ1 + ZZ2 * ZZ2 + ZZ3 * ZZ3 + ZZ4 * ZZ4) +
         (1 / 4) * (XY1 * XY1 + XY2 * XY2 + XY3 * XY3 + XY4 * XY4) +
         (1 / 4) * (YZ1 * YZ1 + YZ2 * YZ2 + YZ3 * YZ3 + YZ4 * YZ4))"

definition J2Inv_yz ::
  "arr3 \<Rightarrow> arr3 \<Rightarrow> arr3 \<Rightarrow> arr3 \<Rightarrow> arr3 \<Rightarrow> arr3 \<Rightarrow> int \<Rightarrow> int \<Rightarrow> int \<Rightarrow> int \<Rightarrow> int \<Rightarrow> PetscScalar" where
  "J2Inv_yz axx ayy azz axy axz ayz my mz i j k =
     (let J1 = bound_hi j my; J2 = bound_lo j; K1 = bound_hi k mz; K2 = bound_lo k;
          YZ = ayz k j i;
          XX1 = axx K1 J1 i; XX2 = axx K1 J2 i; XX3 = axx K2 J1 i; XX4 = axx K2 J2 i;
          YY1 = ayy K1 J1 i; YY2 = ayy K1 J2 i; YY3 = ayy K2 J1 i; YY4 = ayy K2 J2 i;
          ZZ1 = azz K1 J1 i; ZZ2 = azz K1 J2 i; ZZ3 = azz K2 J1 i; ZZ4 = azz K2 J2 i;
          XY1 = axy K1 j i; XY2 = axy K1 j (i + 1); XY3 = axy K2 j i; XY4 = axy K2 j (i + 1);
          XZ1 = axz k J1 i; XZ2 = axz k J1 (i + 1); XZ3 = axz k J2 i; XZ4 = axz k J2 (i + 1)
      in YZ * YZ +
         (1 / 8) * (XX1 * XX1 + XX2 * XX2 + XX3 * XX3 + XX4 * XX4) +
         (1 / 8) * (YY1 * YY1 + YY2 * YY2 + YY3 * YY3 + YY4 * YY4) +
         (1 / 8) * (ZZ1 * ZZ1 + ZZ2 * ZZ2 + ZZ3 * ZZ3 + ZZ4 * ZZ4) +
         (1 / 4) * (XY1 * XY1 + XY2 * XY2 + XY3 * XY3 + XY4 * XY4) +
         (1 / 4) * (XZ1 * XZ1 + XZ2 * XZ2 + XZ3 * XZ3 + XZ4 * XZ4))"

text \<open>
  The body of the loop over the central points. The three calls of the constitutive
  equations are followed by \<^verbatim>\<open>CHKERRQ\<close>. The continuity residual is the last assignment.
\<close>

definition Residual_center ::
  "('ph, 'phs, 'lim, 'dm) JacResLib \<Rightarrow> int \<times> int \<times> int
     \<Rightarrow> int \<times> ('ph, 'phs, 'lim, 'dm, 'vec) JacRes
     \<Rightarrow> error + int \<times> ('ph, 'phs, 'lim, 'dm, 'vec) JacRes" where
  "Residual_center lib = (\<lambda>(i, j, k) (iter, jr).
     (let fs = jr_fs jr;
          sx = snd (GET_CELL_RANGE (dsx fs));
          sy = snd (GET_CELL_RANGE (dsy fs));
          sz = snd (GET_CELL_RANGE (dsz fs));
          dt = ts_dt (jr_ts jr);
          fssa = FSSA jr;
          svc = svCell jr iter;
          XX = ldxx jr k j i; YY = ldyy jr k j i; ZZ = ldzz jr k j i;
          J2Inv = J2Inv_center (ldxx jr) (ldyy jr) (ldzz jr) (ldxy jr) (ldxz jr) (ldyz jr) i j k;
          dev1 = (svDev svc)\<lparr>DII := sqrt J2Inv\<rparr>;
          pc = lp jr k j i;
          Tc = lT jr k j i
      in
      ebind (DevConstEq lib dev1 (numPhases jr) (phases jr) (phRat svc) (matLim jr) dt
               (pc - pShift jr) Tc) (\<lambda>(dev2, eta).
      let svc1 = svc\<lparr>svDev := dev2, eta_creep := eta\<rparr> in
      ebind (GetStressCell lib svc1 (matLim jr) XX YY ZZ) (\<lambda>((s1, s2, s3), dev3).
      let svc2 = svc1\<lparr>svDev := dev3, sxx := s1, syy := s2, szz := s3\<rparr>;
          txx = sxx svc2 - pc;
          tyy = syy svc2 - pc;
          tzz = szz svc2 - pc
      in
      ebind (VolConstEq lib (svBulk svc2) (numPhases jr) (phases jr) (phRat svc2) (matLim jr)
               dt pc Tc) (\<lambda>(r, ik, al, ph, Th).
      let svc3 = svc2\<lparr>svBulk := (svBulk svc2)\<lparr>rho := r, IKdt := ik, alpha := al, pn := ph, Tn := Th\<rparr>\<rparr>;
          bulk = svBulk svc3;
          gx = rho bulk * grav jr 0;
          gy = rho bulk * grav jr 1;
          gz = rho bulk * grav jr 2;
          tx = fssa * dt * gx;
          ty = fssa * dt * gy;
          tz = fssa * dt * gz;
          bdx = SIZE_NODE i sx (dsx fs); fdx = SIZE_NODE (i + 1) sx (dsx fs);
          bdy = SIZE_NODE j sy (dsy fs); fdy = SIZE_NODE (j + 1) sy (dsy fs);
          bdz = SIZE_NODE k sz (dsz fs); fdz = SIZE_NODE (k + 1) sz (dsz fs);
          fx1 = upd3 (lfx jr) k j i (lfx jr k j i - ((txx + lvx jr k j i * tx) / bdx + gx / 2));
          fx2 = upd3 fx1 k j (i + 1) (fx1 k j (i + 1) + ((txx + lvx jr k j (i + 1) * tx) / fdx - gx / 2));
          fy1 = upd3 (lfy jr) k j i (lfy jr k j i - ((tyy + lvy jr k j i * ty) / bdy + gy / 2));
          fy2 = upd3 fy1 k (j + 1) i (fy1 k (j + 1) i + ((tyy + lvy jr k (j + 1) i * ty) / fdy - gy / 2));
          fz1 = upd3 (lfz jr) k j i (lfz jr k j i - ((tzz + lvz jr k j i * tz) / bdz + gz / 2));
          fz2 = upd3 fz1 (k + 1) j i (fz1 (k + 1) j i + ((tzz + lvz jr (k + 1) j i * tz) / fdz - gz / 2));
          gc' = upd3 (gc jr) k j i
                  (- IKdt bulk * (pc - pn bulk) - theta bulk + alpha bulk * (Tc - Tn bulk) / dt)
      in Inr (iter + 1,
              jr\<lparr>svCell := (svCell jr)(iter := svc3), lfx := fx2, lfy := fy2, lfz := fz2,
                 gc := gc'\<rparr>))))))"

text \<open>
  The bodies of the loops over the three kinds of edge points.
\<close>

definition Residual_xy ::
  "('ph, 'phs, 'lim, 'dm) JacResLib \<Rightarrow> int \<times> int \<times> int
     \<Rightarrow> int \<times> ('ph, 'phs, 'lim, 'dm, 'vec) JacRes
     \<Rightarrow> error + int \<times> ('ph, 'phs, 'lim, 'dm, 'vec) JacRes" where
  "Residual_xy lib = (\<lambda>(i, j, k) (iter, jr).
     (let fs = jr_fs jr;
          mx = tnods (dsx fs) - 1;
          my = tnods (dsy fs) - 1;
          sx = snd (GET_NODE_RANGE (dsx fs));
          sy = snd (GET_NODE_RANGE (dsy fs));
          dt = ts_dt (jr_ts jr);
          sve = svXYEdge jr iter;
          XY = ldxy jr k j i;
          J2Inv = J2Inv_xy (ldxx jr) (ldyy jr) (ldzz jr) (ldxy jr) (ldxz jr) (ldyz jr) mx my i j k;
          dev1 = (sve_svDev sve)\<lparr>DII := sqrt J2Inv\<rparr>;
          pc = (1 / 4) * (lp jr k j i + lp jr k j (i - 1) + lp jr k (j - 1) i + lp jr k (j - 1) (i - 1));
          Tc = (1 / 4) * (lT jr k j i + lT jr k j (i - 1) + lT jr k (j - 1) i + lT jr k (j - 1) (i - 1))
      in
      ebind (DevConstEq lib dev1 (numPhases jr) (phases jr) (sve_phRat sve) (matLim jr) dt
               (pc - pShift jr) Tc) (\<lambda>(dev2, eta).
      let sve1 = sve\<lparr>sve_svDev := dev2\<rparr> in
      ebind (GetStressEdge lib sve1 (matLim jr) XY) (\<lambda>(s1, dev3).
      let sve2 = sve1\<lparr>sve_svDev := dev3, sve_s := s1\<rparr>;
          sxy = sve_s sve2;
          bdx = SIZE_CELL (i - 1) sx (dsx fs); fdx = SIZE_CELL i sx (dsx fs);
          bdy = SIZE_CELL (j - 1) sy (dsy fs); fdy = SIZE_CELL j sy (dsy fs);
          fx1 = upd3 (lfx jr) k (j - 1) i (lfx jr k (j - 1) i - sxy / bdy);
          fx2 = upd3 fx1 k j i (fx1 k j i + sxy / fdy);
          fy1 = upd3 (lfy jr) k j (i - 1) (lfy jr k j (i - 1) - sxy / bdx);
          fy2 = upd3 fy1 k j i (fy1 k j i + sxy / fdx)
      in Inr (iter + 1, jr\<lparr>svXYEdge := (svXYEdge jr)(iter := sve2), lfx := fx2, lfy := fy2\<rparr>)))))"

definition Residual_xz ::
  "('ph, 'phs, 'lim, 'dm) JacResLib \<Rightarrow> int \<times> int \<times> int
     \<Rightarrow> int \<times> ('ph, 'phs, 'lim, 'dm, 'vec) JacRes
     \<Rightarrow> error + int \<times> ('ph, 'phs, 'lim, 'dm, 'vec) JacRes" where
  "Residual_xz lib = (\<lambda>(i, j, k) (iter, jr).
     (let fs = jr_fs jr;
          mx = tnods (dsx fs) - 1;
          mz = tnods (dsz fs) - 1;
          sx = snd (GET_NODE_RANGE (dsx fs));
          sz = snd (GET_NODE_RANGE (dsz fs));
          dt = ts_dt (jr_ts jr);
          sve = svXZEdge jr iter;
          XZ = ldxz jr k j i;
          J2Inv = J2Inv_xz (ldxx jr) (ldyy jr) (ldzz jr) (ldxy jr) (ldxz jr) (ldyz jr) mx mz i j k;
          dev1 = (sve_svDev sve)\<lparr>DII := sqrt J2Inv\<rparr>;
          pc = (1 / 4) * (lp jr k j i + lp jr k j (i - 1) + lp jr (k - 1) j i + lp jr (k - 1) j (i - 1));
          Tc = (1 / 4) * (lT jr k j i + lT jr k j (i - 1) + lT jr (k - 1) j i + lT jr (k - 1) j (i - 1))
      in
      ebind (DevConstEq lib dev1 (numPhases jr) (phases jr) (sve_phRat sve) (matLim jr) dt
               (pc - pShift jr) Tc) (\<lambda>(dev2, eta).
      let sve1 = sve\<lparr>sve_svDev := dev2\<rparr> in
      ebind (GetStressEdge lib sve1 (matLim jr) XZ) (\<lambda>(s1, dev3).
      let sve2 = sve1\<lparr>sve_svDev := dev3, sve_s := s1\<rparr>;
          sxz = sve_s sve2;
          bdx = SIZE_CELL (i - 1) sx (dsx fs); fdx = SIZE_CELL i sx (dsx fs);
          bdz = SIZE_CELL (k - 1) sz (dsz fs); fdz = SIZE_CELL k sz (dsz fs);
          fx1 = upd3 (lfx jr) (k - 1) j i (lfx jr (k - 1) j i - sxz / bdz);
          fx2 = upd3 fx1 k j i (fx1 k j i + sxz / fdz);
          fz1 = upd3 (lfz jr) k j (i - 1) (lfz jr k j (i - 1) - sxz / bdx);
          fz2 = upd3 fz1 k j i (fz1 k j i + sxz / fdx)
      in Inr (iter + 1, jr\<lparr>svXZEdge := (svXZEdge jr)(iter := sve2), lfx := fx2, lfz := fz2\<rparr>)))))"

definition Residual_yz ::
  "('ph, 'phs, 'lim, 'dm) JacResLib \<Rightarrow> int \<times> int \<times> int
     \<Rightarrow> int \<times> ('ph, 'phs, 'lim, 'dm, 'vec) JacRes
     \<Rightarrow> error + int \<times> ('ph, 'phs, 'lim, 'dm, 'vec) JacRes" where
  "Residual_yz lib = (\<lambda>(i, j, k) (iter, jr).
     (let fs = jr_fs jr;
          my = tnods (dsy fs) - 1;
          mz = tnods (dsz fs) - 1;
          sy = snd (GET_NODE_RANGE (dsy fs));
          sz = snd (GET_NODE_RANGE (dsz fs));
          dt = ts_dt (jr_ts jr);
          sve = svYZEdge jr iter;
          YZ = ldyz jr k j i;
          J2Inv = J2Inv_yz (ldxx jr) (ldyy jr) (ldzz jr) (ldxy jr) (ldxz jr) (ldyz jr) my mz i j k;
          dev1 = (sve_svDev sve)\<lparr>DII := sqrt J2Inv\<rparr>;
          pc = (1 / 4) * (lp jr k j i + lp jr k (j - 1) i + lp jr (k - 1) j i + lp jr (k - 1) (j - 1) i);
          Tc = (1 / 4) * (lT jr k j i + lT jr k (j - 1) i + lT jr (k - 1) j i + lT jr (k - 1) (j - 1) i)
      in
      ebind (DevConstEq lib dev1 (numPhases jr) (phases jr) (sve_phRat sve) (matLim jr) dt
               (pc - pShift jr) Tc) (\<lambda>(dev2, eta).
      let sve1 = sve\<lparr>sve_svDev := dev2\<rparr> in
      ebind (GetStressEdge lib sve1 (matLim jr) YZ) (\<lambda>(s1, dev3).
      let sve2 = sve1\<lparr>sve_svDev := dev3, sve_s := s1\<rparr>;
          syz = sve_s sve2;
          bdy = SIZE_CELL (j - 1) sy (dsy fs); fdy = SIZE_CELL j sy (dsy fs);
          bdz = SIZE_CELL (k - 1) sz (dsz fs); fdz = SIZE_CELL k sz (dsz fs);
          fy1 = upd3 (lfy jr) (k - 1) j i (lfy jr (k - 1) j i - syz / bdz);
          fy2 = upd3 fy1 k j i (fy1 k j i + syz / fdz);
          fz1 = upd3 (lfz jr) k (j - 1) i (lfz jr k (j - 1) i - syz / bdy);
          fz2 = upd3 fz1 k j i (fz1 k j i + syz / fdy)
      in Inr (iter + 1, jr\<lparr>svYZEdge := (svYZEdge jr)(iter := sve2), lfy := fy2, lfz := fz2\<rparr>)))))"

text \<open>
  \<^verbatim>\<open>JacResGetResidual(jr)\<close>: the local residual vectors are cleared, the four loops run
  (each with \<^verbatim>\<open>iter = 0\<close> at its start), and the local momentum residuals are assembled
  into the global ones.
\<close>

definition JacResGetResidual ::
  "('ph, 'phs, 'lim, 'dm) JacResLib \<Rightarrow> ('ph, 'phs, 'lim, 'dm, 'vec) JacRes
     \<Rightarrow> error + ('ph, 'phs, 'lim, 'dm, 'vec) JacRes" where
  "JacResGetResidual lib jr =
     (let fs = jr_fs jr;
          jr0 = jr\<lparr>lfx := (\<lambda>_ _ _. 0), lfy := (\<lambda>_ _ _. 0), lfz := (\<lambda>_ _ _. 0)\<rparr>
      in
      ebind (efold (Residual_center lib) (center_points fs) (0, jr0)) (\<lambda>(_, jr1).
      ebind (efold (Residual_xy lib) (xy_points fs) (0, jr1)) (\<lambda>(_, jr2).
      ebind (efold (Residual_xz lib) (xz_points fs) (0, jr2)) (\<lambda>(_, jr3).
      ebind (efold (Residual_yz lib) (yz_points fs) (0, jr3)) (\<lambda>(_, jr4).
      Inr (jr4\<lparr>gfx := LOCAL_TO_GLOBAL lib (DA_X fs) (lfx jr4),
               gfy := LOCAL_TO_GLOBAL lib (DA_Y fs) (lfy jr4),
               gfz := LOCAL_TO_GLOBAL lib (DA_Z fs) (lfz jr4)\<rparr>))))))"

text \<open>
  For the proofs: the fields of \<^verbatim>\<open>JacRes\<close> that \<^verbatim>\<open>JacResGetResidual\<close> only reads; the
  assumption that no constitutive equation returns an error; that the bulk state \<open>b\<close>
  carries what \<open>VolConstEq\<close> returned at the point \<open>p\<close>; the value the loop over the
  central points assigns to the continuity residual; and the continuity residual at a
  point.
\<close>

definition res_frame ::
  "('ph, 'phs, 'lim, 'dm, 'vec) JacRes \<Rightarrow> ('ph, 'phs, 'lim, 'dm, 'vec) JacRes \<Rightarrow> bool" where
  "res_frame jr jr' \<longleftrightarrow> jr_fs jr' = jr_fs jr \<and> lp jr' = lp jr \<and> lT jr' = lT jr
     \<and> jr_ts jr' = jr_ts jr \<and> numPhases jr' = numPhases jr \<and> phases jr' = phases jr
     \<and> matLim jr' = matLim jr"

definition never_fails :: "('ph, 'phs, 'lim, 'dm) JacResLib \<Rightarrow> bool" where
  "never_fails lib \<longleftrightarrow>
     (\<forall>a b c d e f g h. \<exists>r. DevConstEq lib a b c d e f g h = Inr r) \<and>
     (\<forall>a b c d e f g h. \<exists>r. VolConstEq lib a b c d e f g h = Inr r) \<and>
     (\<forall>a b c d e. \<exists>r. GetStressCell lib a b c d e = Inr r) \<and>
     (\<forall>a b c. \<exists>r. GetStressEdge lib a b c = Inr r)"

definition vol_of ::
  "('ph, 'phs, 'lim, 'dm) JacResLib \<Rightarrow> ('ph, 'phs, 'lim, 'dm, 'vec) JacRes \<Rightarrow> int \<times> int \<times> int
     \<Rightarrow> SolVarBulk \<Rightarrow> bool" where
  "vol_of lib jr p b = (case p of (i, j, k) \<Rightarrow>
     \<exists>sb ph. VolConstEq lib sb (numPhases jr) (phases jr) ph (matLim jr) (ts_dt (jr_ts jr))
                (lp jr k j i) (lT jr k j i)
              = Inr (rho b, IKdt b, alpha b, pn b, Tn b))"

definition cont_res ::
  "('ph, 'phs, 'lim, 'dm, 'vec) JacRes \<Rightarrow> int \<times> int \<times> int \<Rightarrow> SolVarBulk \<Rightarrow> PetscScalar" where
  "cont_res jr p b = (case p of (i, j, k) \<Rightarrow>
     - IKdt b * (lp jr k j i - pn b) - theta b + alpha b * (lT jr k j i - Tn b) / ts_dt (jr_ts jr))"

definition gc_at :: "('ph, 'phs, 'lim, 'dm, 'vec) JacRes \<Rightarrow> int \<times> int \<times> int \<Rightarrow> PetscScalar" where
  "gc_at jr p = (case p of (i, j, k) \<Rightarrow> gc jr k j i)"

subsection \<open>JacResCopySol and JacResCopyRes\<close>

text \<open>
  The two loops over a list of single-point constraints: \<^verbatim>\<open>sol[list[i]] = vals[i]\<close> and
  \<^verbatim>\<open>res[list[i]] = 0.0\<close>, for \<open>i\<close> from 0 to \<open>num - 1\<close>. \<open>PetscMemcpy dst doff src soff n\<close> copies
  \<open>n\<close> scalars from \<open>src + soff\<close> to \<open>dst + doff\<close> (nothing when \<open>n \<le> 0\<close>; the source and the
  destination are different arrays in both functions).
\<close>

definition set_SPC :: "PetscInt \<Rightarrow> (int \<Rightarrow> PetscInt) \<Rightarrow> arr1 \<Rightarrow> arr1 \<Rightarrow> arr1" where
  "set_SPC num list vals sol = fold (\<lambda>i s. s(list i := vals i)) [0..num - 1] sol"

definition zero_SPC :: "PetscInt \<Rightarrow> (int \<Rightarrow> PetscInt) \<Rightarrow> arr1 \<Rightarrow> arr1" where
  "zero_SPC num list res = fold (\<lambda>i r. r(list i := 0)) [0..num - 1] res"

definition PetscMemcpy :: "arr1 \<Rightarrow> int \<Rightarrow> arr1 \<Rightarrow> int \<Rightarrow> int \<Rightarrow> arr1" where
  "PetscMemcpy dst doff src soff n =
     (\<lambda>m. if doff \<le> m \<and> m < doff + n then src (soff + (m - doff)) else dst m)"

text \<open>
  \<^verbatim>\<open>JacResCopySol(jr, x)\<close>: the single-point constraints are written into the array of
  \<open>x\<close>, the array is split into the four global vectors, the local vectors are filled
  from them, and the two-point constraints are applied to the local vectors. The result
  is the new \<^verbatim>\<open>JacRes\<close> and the new content of \<open>x\<close>.
\<close>

definition JacResCopySol ::
  "('ph, 'phs, 'lim, 'dm) JacResLib \<Rightarrow> ('ph, 'phs, 'lim, 'dm, 'vec) JacRes \<Rightarrow> arr1
     \<Rightarrow> ('ph, 'phs, 'lim, 'dm, 'vec) JacRes \<times> arr1" where
  "JacResCopySol lib jr x =
     (let fs = jr_fs jr; bc = jr_bc jr;
          sol = set_SPC (vNumSPC bc) (vSPCList bc) (vSPCVals bc) x;
          sol = set_SPC (pNumSPC bc) (pSPCList bc) (pSPCVals bc) sol;
          iter = 0;
          vx = PetscMemcpy (gvx jr) 0 sol iter (nXFace fs);
          iter = iter + nXFace fs;
          vy = PetscMemcpy (gvy jr) 0 sol iter (nYFace fs);
          iter = iter + nYFace fs;
          vz = PetscMemcpy (gvz jr) 0 sol iter (nZFace fs);
          iter = iter + nZFace fs;
          p = PetscMemcpy (gp jr) 0 sol iter (nCells fs)
      in (jr\<lparr>gvx := vx, gvy := vy, gvz := vz, gp := p,
             lvx := enforce_TPC lib (DA_X fs) (bcvx bc) (GLOBAL_TO_LOCAL lib (DA_X fs) vx),
             lvy := enforce_TPC lib (DA_Y fs) (bcvy bc) (GLOBAL_TO_LOCAL lib (DA_Y fs) vy),
             lvz := enforce_TPC lib (DA_Z fs) (bcvz bc) (GLOBAL_TO_LOCAL lib (DA_Z fs) vz),
             lp := enforce_TPC lib (DA_CEN fs) (bcp bc) (GLOBAL_TO_LOCAL lib (DA_CEN fs) p)\<rparr>,
          sol))"

text \<open>
  \<^verbatim>\<open>JacResCopyRes(jr, f)\<close>: the three momentum residuals and the continuity residual are
  copied one after the other into the array of \<open>f\<close>, then the constrained entries are set
  to zero. The result is the new content of \<open>f\<close>.
\<close>

definition JacResCopyRes ::
  "('ph, 'phs, 'lim, 'dm) JacResLib \<Rightarrow> ('ph, 'phs, 'lim, 'dm, 'vec) JacRes \<Rightarrow> arr1 \<Rightarrow> arr1" where
  "JacResCopyRes lib jr f =
     (let fs = jr_fs jr; bc = jr_bc jr;
          c = VecGetArray_CEN lib (DA_CEN fs) (gc jr);
          iter = 0;
          res = PetscMemcpy f iter (gfx jr) 0 (nXFace fs);
          iter = iter + nXFace fs;
          res = PetscMemcpy res iter (gfy jr) 0 (nYFace fs);
          iter = iter + nYFace fs;
          res = PetscMemcpy res iter (gfz jr) 0 (nZFace fs);
          iter = iter + nZFace fs;
          res = PetscMemcpy res iter c 0 (nCells fs);
          res = zero_SPC (vNumSPC bc) (vSPCList bc) res
      in zero_SPC (pNumSPC bc) (pSPCList bc) res)"

subsection \<open>JacResGetCourantStep\<close>

text \<open>
  \<^verbatim>\<open>getMaxInvStep1DLocal(ds, da, gv, dir, _idtmax)\<close>; the result is the new value of
  \<^verbatim>\<open>*_idtmax\<close>. On an axis with variable spacing (\<^verbatim>\<open>h_uni < 0\<close>) the loop runs over the
  owned points of \<open>da\<close>; \<open>courant_point\<close> is its body. \<^verbatim>\<open>ijk[dir]\<close> is read for \<open>dir\<close> 0, 1
  or 2. On an axis with uniform spacing the largest absolute value of the local entries
  of \<open>gv\<close> is divided by \<^verbatim>\<open>h_uni\<close>.
\<close>

definition courant_point ::
  "Discret1D \<Rightarrow> arr3 \<Rightarrow> PetscInt \<Rightarrow> PetscInt \<Rightarrow> PetscInt \<Rightarrow> PetscInt
     \<Rightarrow> int \<times> int \<times> int \<Rightarrow> PetscScalar \<Rightarrow> PetscScalar" where
  "courant_point ds va dir sx sy sz = (\<lambda>(i, j, k) idtmax.
     (let v = va k j i;
          ijk = (\<lambda>d::int. if d = 0 then i - sx else if d = 1 then j - sy else k - sz);
          idx = (if v \<ge> 0 then ijk dir else ijk dir - 1);
          h = ncoor ds (idx + 1) - ncoor ds idx;
          idt = v / h
      in if idt > idtmax then idt else idtmax))"

definition getMaxInvStep1DLocal ::
  "('ph, 'phs, 'lim, 'dm) JacResLib \<Rightarrow> Discret1D \<Rightarrow> 'dm \<Rightarrow> arr1 \<Rightarrow> PetscInt \<Rightarrow> PetscScalar
     \<Rightarrow> PetscScalar" where
  "getMaxInvStep1DLocal lib ds da gv dir idtmax0 =
     (if h_uni ds < 0
      then (case DMDAGetCorners3 lib da of (sx, sy, sz, nx, ny, nz) \<Rightarrow>
              fold (courant_point ds (DMDAVecGetArray lib da gv) dir sx sy sz)
                   (STD_LOOP (nx, sx) (ny, sy) (nz, sz)) idtmax0)
      else (let ln = VecGetLocalSize lib da;
                vmax = fold (\<lambda>jj vmax. let v = \<bar>gv jj\<bar> in if v > vmax then v else vmax)
                            [0..ln - 1] 0;
                idt = vmax / h_uni ds
            in if idt > idtmax0 then idt else idtmax0))"

text \<open>
  \<^verbatim>\<open>JacResGetCourantStep(jr)\<close>. All three calls of \<^verbatim>\<open>getMaxInvStep1DLocal\<close> pass 0 for
  \<open>dir\<close>, as in the source. \<^verbatim>\<open>1.0/gidtmax\<close> with \<^verbatim>\<open>gidtmax\<close> zero is the floating-point
  infinity, which no \<open>dt\<close> exceeds: the model leaves \<open>dt\<close> as it is then. The model is that
  of the source for \<open>Cmax > 0\<close> and mesh steps that are not zero.
\<close>

definition JacResGetCourantStep ::
  "('ph, 'phs, 'lim, 'dm) JacResLib \<Rightarrow> ('ph, 'phs, 'lim, 'dm, 'vec) JacRes
     \<Rightarrow> ('ph, 'phs, 'lim, 'dm, 'vec) JacRes" where
  "JacResGetCourantStep lib jr =
     (let fs = jr_fs jr; ts = jr_ts jr;
          lidtmax = 0;
          lidtmax = getMaxInvStep1DLocal lib (dsx fs) (DA_X fs) (gvx jr) 0 lidtmax;
          lidtmax = getMaxInvStep1DLocal lib (dsy fs) (DA_Y fs) (gvy jr) 0 lidtmax;
          lidtmax = getMaxInvStep1DLocal lib (dsz fs) (DA_Z fs) (gvz jr) 0 lidtmax;
          gidtmax = (if ISParallel lib then MPI_Allreduce_MAX lidtmax (Allreduce_others lib)
                     else lidtmax);
          gidtmax = gidtmax / ts_Cmax ts;
          dt = ts_dt ts * (11 / 10);
          dt = (if gidtmax \<noteq> 0 \<and> dt > 1 / gidtmax then 1 / gidtmax else dt);
          dt = (if dt > ts_dtmax ts then ts_dtmax ts else dt)
      in jr\<lparr>jr_ts := ts\<lparr>ts_pdt := ts_dt ts, ts_dt := dt\<rparr>\<rparr>)"

text \<open>
  The time step as the specification words it: the inverse step at a velocity point is
  \<open>\<bar>v\<bar> / h\<close>, with \<open>h\<close> the width of the cell next to the point along the axis of the
  velocity component (the cell after the point for \<open>v \<ge> 0\<close>, the cell before it otherwise)
  or \<^verbatim>\<open>h_uni\<close> on a uniform axis; \<open>idtmax\<close> is the largest of them over the three axes, the
  owned points and the processes, and the new step is
  \<open>min (1.1 * dt) (Cmax / idtmax) dtmax\<close>, without the middle term when \<open>idtmax\<close> is zero.
  \<open>axis\<close> is 0, 1 or 2 for x, y or z.
\<close>

definition spec_point ::
  "Discret1D \<Rightarrow> arr3 \<Rightarrow> PetscInt \<Rightarrow> PetscInt \<Rightarrow> PetscInt \<Rightarrow> PetscInt
     \<Rightarrow> int \<times> int \<times> int \<Rightarrow> PetscScalar" where
  "spec_point ds va axis sx sy sz = (\<lambda>(i, j, k).
     (let v = va k j i;
          n = (if axis = 0 then i - sx else if axis = 1 then j - sy else k - sz);
          h = (if h_uni ds < 0
               then (if v \<ge> 0 then ncoor ds (n + 1) - ncoor ds n
                     else ncoor ds n - ncoor ds (n - 1))
               else h_uni ds)
      in \<bar>v\<bar> / h))"

definition spec_axis ::
  "('ph, 'phs, 'lim, 'dm) JacResLib \<Rightarrow> Discret1D \<Rightarrow> 'dm \<Rightarrow> arr1 \<Rightarrow> PetscInt \<Rightarrow> PetscScalar" where
  "spec_axis lib ds da gv axis =
     (case DMDAGetCorners3 lib da of (sx, sy, sz, nx, ny, nz) \<Rightarrow>
        fold max (map (spec_point ds (DMDAVecGetArray lib da gv) axis sx sy sz)
                      (STD_LOOP (nx, sx) (ny, sy) (nz, sz))) 0)"

definition spec_CourantStep ::
  "('ph, 'phs, 'lim, 'dm) JacResLib \<Rightarrow> ('ph, 'phs, 'lim, 'dm, 'vec) JacRes \<Rightarrow> PetscScalar" where
  "spec_CourantStep lib jr =
     (let fs = jr_fs jr; ts = jr_ts jr;
          lidtmax = max (spec_axis lib (dsx fs) (DA_X fs) (gvx jr) 0)
                     (max (spec_axis lib (dsy fs) (DA_Y fs) (gvy jr) 1)
                          (spec_axis lib (dsz fs) (DA_Z fs) (gvz jr) 2));
          idtmax = (if ISParallel lib then MPI_Allreduce_MAX lidtmax (Allreduce_others lib)
                    else lidtmax)
      in if idtmax = 0 then min (ts_dt ts * (11 / 10)) (ts_dtmax ts)
         else min (min (ts_dt ts * (11 / 10)) (ts_Cmax ts / idtmax)) (ts_dtmax ts))"

subsection \<open>A small residual context\<close>

text \<open>
  A context on the grid \<open>fs_nonuni\<close> (two cells per axis, nodes at 0, 1 and 3): the
  velocity is \<open>(x index, 2 * y index, 0)\<close>, the pressure is 5 and the temperature 7
  everywhere, the time step is 2. The constitutive equations of \<open>lib_const\<close> return
  fixed values: density 1, inverse bulk modulus times time step 2, thermal expansion 4,
  pressure history 3, temperature history 1. The exchanges between local arrays are
  identities.
\<close>

definition sv_zero :: "unit SolVarCell" where
  "sv_zero =
     \<lparr>svDev = \<lparr>DII = 0, I2Gdt = 0\<rparr>,
      svBulk = \<lparr>theta = 0, rho = 0, IKdt = 0, alpha = 0, pn = 0, Tn = 0\<rparr>,
      sxx = 0, syy = 0, szz = 0, hxx = 0, hyy = 0, hzz = 0, dxx = 0, dyy = 0, dzz = 0,
      eta_creep = 0, phRat = ()\<rparr>"

definition sve_zero :: "unit SolVarEdge" where
  "sve_zero = \<lparr>sve_svDev = \<lparr>DII = 0, I2Gdt = 0\<rparr>, sve_s = 0, sve_h = 0, sve_d = 0, sve_phRat = ()\<rparr>"

definition bc_none :: BCCtx where
  "bc_none =
     \<lparr>vNumSPC = 0, vSPCList = (\<lambda>_. 0), vSPCVals = (\<lambda>_. 0),
      pNumSPC = 0, pSPCList = (\<lambda>_. 0), pSPCVals = (\<lambda>_. 0),
      bcvx = (\<lambda>_ _ _. 0), bcvy = (\<lambda>_ _ _. 0), bcvz = (\<lambda>_ _ _. 0), bcp = (\<lambda>_ _ _. 0)\<rparr>"

definition jr_small :: "(unit, unit, unit, unit, unit) JacRes" where
  "jr_small =
     \<lparr>jr_fs = fs_nonuni, jr_bc = bc_none,
      jr_ts = \<lparr>ts_dt = 2, ts_pdt = 2, ts_Cmax = 1 / 2, ts_dtmax = 10\<rparr>,
      numPhases = 1, phases = (), matLim = (), FSSA = 0, grav = (\<lambda>_. 0), pShift = 0,
      gvx = (\<lambda>_. 0), gvy = (\<lambda>_. 0), gvz = (\<lambda>_. 0), gp = (\<lambda>_. 0),
      lvx = (\<lambda>k j i. real_of_int i), lvy = (\<lambda>k j i. 2 * real_of_int j), lvz = (\<lambda>_ _ _. 0),
      lp = (\<lambda>_ _ _. 5), lT = (\<lambda>_ _ _. 7),
      ldxx = (\<lambda>_ _ _. 0), ldyy = (\<lambda>_ _ _. 0), ldzz = (\<lambda>_ _ _. 0),
      ldxy = (\<lambda>_ _ _. 0), ldxz = (\<lambda>_ _ _. 0), ldyz = (\<lambda>_ _ _. 0),
      lfx = (\<lambda>_ _ _. 0), lfy = (\<lambda>_ _ _. 0), lfz = (\<lambda>_ _ _. 0),
      gfx = (\<lambda>_. 0), gfy = (\<lambda>_. 0), gfz = (\<lambda>_. 0), gc = (\<lambda>_ _ _. 0),
      svCell = (\<lambda>_. sv_zero), svXYEdge = (\<lambda>_. sve_zero), svXZEdge = (\<lambda>_. sve_zero),
      svYZEdge = (\<lambda>_. sve_zero)\<rparr>"

definition lib_const :: "(unit, unit, unit, unit) JacResLib" where
  "lib_const =
     \<lparr>LOCAL_TO_LOCAL = (\<lambda>_ a. a),
      GLOBAL_TO_LOCAL = (\<lambda>_ a k j i. a (i + 3 * j + 9 * k)),
      LOCAL_TO_GLOBAL = (\<lambda>_ a n. a (n div 9) (n mod 9 div 3) (n mod 3)),
      DMDAVecGetArray = (\<lambda>_ a k j i. a (i + 3 * j + 9 * k)),
      DMDAGetCorners3 = (\<lambda>_. (0, 0, 0, 2, 2, 2)),
      VecGetLocalSize = (\<lambda>_. 8),
      VecGetArray_CEN = (\<lambda>_ a n. a (n div 4) (n mod 4 div 2) (n mod 2)),
      ISParallel = False,
      Allreduce_others = [],
      enforce_TPC = (\<lambda>_ _ a. a),
      DevConstEq = (\<lambda>dev _ _ _ _ _ _ _. Inr (dev, 1)),
      VolConstEq = (\<lambda>_ _ _ _ _ _ _ _. Inr (1, 2, 4, 3, 1)),
      GetStressCell = (\<lambda>svc _ XX YY ZZ. Inr ((2 * XX, 2 * YY, 2 * ZZ), svDev svc)),
      GetStressEdge = (\<lambda>sve _ XY. Inr (2 * XY, sve_svDev sve))\<rparr>"

text \<open>
  Two constraint contexts for \<open>jr_small\<close> (12 faces per direction, 8 cells, so the
  velocities are the positions 0 to 35 of the solution and the pressures 36 to 43).
  \<open>bc_two\<close> prescribes 3/2 at position 0 (an x velocity), 5/2 at position 13 (a y
  velocity) and 9 at position 36 (the first pressure). \<open>bc_dup\<close> names position 0 twice
  in the velocity list, with the values 1 and 2.
\<close>

definition bc_two :: BCCtx where
  "bc_two = bc_none
     \<lparr>vNumSPC := 2, vSPCList := (\<lambda>i. if i = 0 then 0 else 13),
      vSPCVals := (\<lambda>i. if i = 0 then 3 / 2 else 5 / 2),
      pNumSPC := 1, pSPCList := (\<lambda>_. 36), pSPCVals := (\<lambda>_. 9)\<rparr>"

definition bc_dup :: BCCtx where
  "bc_dup = bc_none
     \<lparr>vNumSPC := 2, vSPCList := (\<lambda>_. 0), vSPCVals := (\<lambda>i. if i = 0 then 1 else 2)\<rparr>"

text \<open>
  A context for the time step, on the same three axes (two cells each, nodes at 0, 1
  and 3, so \<^verbatim>\<open>h_uni < 0\<close>), with the distributed arrays told apart by a number: 5, 6 and
  7 are the arrays of the x, y and z faces, which own \<open>3 * 2 * 2\<close>, \<open>2 * 3 * 2\<close> and
  \<open>2 * 2 * 3\<close> points, laid out with \<open>i\<close> running fastest. The previous step is 2, \<open>Cmax\<close>
  is 1/2, \<open>dtmax\<close> is 10. In \<open>jr_courant_y\<close> the only velocity is \<open>vy = 1\<close> at the point
  \<open>(i, j, k) = (1, 0, 0)\<close>; in \<open>jr_courant_x\<close> it is \<open>vx = - 1\<close> at \<open>(1, 0, 0)\<close>.
\<close>

definition fs_courant :: "(nat, unit) FDSTAG" where
  "fs_courant =
     \<lparr>DA_CEN = 0, DA_COR = 1, DA_XY = 2, DA_XZ = 3, DA_YZ = 4, DA_X = 5, DA_Y = 6,
      DA_Z = 7, dsx = ds_nonuni, dsy = ds_nonuni, dsz = ds_nonuni,
      msx = ms_nonuni, msy = ms_nonuni, msz = ms_nonuni,
      nCells = 8, nCorns = 27, nXYEdg = 18, nXZEdg = 18, nYZEdg = 18,
      nXFace = 12, nYFace = 12, nZFace = 12,
      dof = \<lparr>idxmod = IDXNONE, lnv = 36, lnp = 8, stv = 0, stp = 0, ln = 44, st = 0,
             ivx = (), ivy = (), ivz = (), ip = ()\<rparr>,
      neighb = (\<lambda>i. if i = 13 then 0 else - 1)\<rparr>"

definition dims_courant :: "nat \<Rightarrow> PetscInt \<times> PetscInt \<times> PetscInt" where
  "dims_courant da = (if da = 5 then (3, 2, 2) else if da = 6 then (2, 3, 2)
                      else if da = 7 then (2, 2, 3) else (2, 2, 2))"

definition lib_courant :: "(unit, unit, unit, nat) JacResLib" where
  "lib_courant =
     \<lparr>LOCAL_TO_LOCAL = (\<lambda>_ a. a),
      GLOBAL_TO_LOCAL = (\<lambda>da a k j i. case dims_courant da of (nx, ny, nz) \<Rightarrow> a (i + nx * (j + ny * k))),
      LOCAL_TO_GLOBAL = (\<lambda>da a n. case dims_courant da of (nx, ny, nz) \<Rightarrow>
                           a (n div (nx * ny)) (n mod (nx * ny) div nx) (n mod nx)),
      DMDAVecGetArray = (\<lambda>da a k j i. case dims_courant da of (nx, ny, nz) \<Rightarrow> a (i + nx * (j + ny * k))),
      DMDAGetCorners3 = (\<lambda>da. case dims_courant da of (nx, ny, nz) \<Rightarrow> (0, 0, 0, nx, ny, nz)),
      VecGetLocalSize = (\<lambda>da. case dims_courant da of (nx, ny, nz) \<Rightarrow> nx * ny * nz),
      VecGetArray_CEN = (\<lambda>_ a n. a (n div 4) (n mod 4 div 2) (n mod 2)),
      ISParallel = False,
      Allreduce_others = [],
      enforce_TPC = (\<lambda>_ _ a. a),
      DevConstEq = (\<lambda>dev _ _ _ _ _ _ _. Inr (dev, 1)),
      VolConstEq = (\<lambda>_ _ _ _ _ _ _ _. Inr (1, 2, 4, 3, 1)),
      GetStressCell = (\<lambda>svc _ XX YY ZZ. Inr ((2 * XX, 2 * YY, 2 * ZZ), svDev svc)),
      GetStressEdge = (\<lambda>sve _ XY. Inr (2 * XY, sve_svDev sve))\<rparr>"

definition jr_courant :: "arr1 \<Rightarrow> arr1 \<Rightarrow> arr1 \<Rightarrow> (unit, unit, unit, nat, unit) JacRes" where
  "jr_courant vx vy vz =
     \<lparr>jr_fs = fs_courant, jr_bc = bc_none,
      jr_ts = \<lparr>ts_dt = 2, ts_pdt = 2, ts_Cmax = 1 / 2, ts_dtmax = 10\<rparr>,
      numPhases = 1, phases = (), matLim = (), FSSA = 0, grav = (\<lambda>_. 0), pShift = 0,
      gvx = vx, gvy = vy, gvz = vz, gp = (\<lambda>_. 0),
      lvx = (\<lambda>_ _ _. 0), lvy = (\<lambda>_ _ _. 0), lvz = (\<lambda>_ _ _. 0),
      lp = (\<lambda>_ _ _. 0), lT = (\<lambda>_ _ _. 0),
      ldxx = (\<lambda>_ _ _. 0), ldyy = (\<lambda>_ _ _. 0), ldzz = (\<lambda>_ _ _. 0),
      ldxy = (\<lambda>_ _ _. 0), ldxz = (\<lambda>_ _ _. 0), ldyz = (\<lambda>_ _ _. 0),
      lfx = (\<lambda>_ _ _. 0), lfy = (\<lambda>_ _ _. 0), lfz = (\<lambda>_ _ _. 0),
      gfx = (\<lambda>_. 0), gfy = (\<lambda>_. 0), gfz = (\<lambda>_. 0), gc = (\<lambda>_ _ _. 0),
      svCell = (\<lambda>_. sv_zero), svXYEdge = (\<lambda>_. sve_zero), svXZEdge = (\<lambda>_. sve_zero),
      svYZEdge = (\<lambda>_. sve_zero)\<rparr>"

definition jr_courant_y :: "(unit, unit, unit, nat, unit) JacRes" where
  "jr_courant_y = jr_courant (\<lambda>_. 0) (\<lambda>n. if n = 1 then 1 else 0) (\<lambda>_. 0)"

definition jr_courant_x :: "(unit, unit, unit, nat, unit) JacRes" where
  "jr_courant_x = jr_courant (\<lambda>n. if n = 1 then - 1 else 0) (\<lambda>_. 0) (\<lambda>_. 0)"

section \<open>Properties of MeshSeg1DGenCoord\<close>

lemma fold_upd_upto:
  "fold (\<lambda>i c. c(i := g i)) [a..b] c = (\<lambda>j. if a \<le> j \<and> j \<le> b then g j else c j)"
proof (induction "nat (b - a + 1)" arbitrary: b)
  case 0
  then have "b < a" by simp
  then show ?case by (auto simp: fun_eq_iff)
next
  case (Suc n)
  then have ab: "a \<le> b" and n: "n = nat (b - 1 - a + 1)" by auto
  have "fold (\<lambda>i c. c(i := g i)) [a..b] c
      = (fold (\<lambda>i c. c(i := g i)) [a..b - 1] c)(b := g b)"
    by (simp add: upto_rec2[OF ab])
  also have "\<dots> = (\<lambda>j. if a \<le> j \<and> j \<le> b then g j else c j)"
    using ab by (auto simp: Suc.hyps(1)[OF n] fun_eq_iff)
  finally show ?case .
qed



















section \<open>Properties of Discret1DGenCoord\<close>













lemma ncoor_GetMinMax [simp]: "ncoor (Discret1DGetMinMaxCellSize ds ms peers) = ncoor ds"
  by (simp add: Discret1DGetMinMaxCellSize_def Let_def split: prod.splits)

lemma pstart_GetMinMax [simp]: "pstart (Discret1DGetMinMaxCellSize ds ms peers) = pstart ds"
  by (simp add: Discret1DGetMinMaxCellSize_def Let_def split: prod.splits)

lemma nnods_GetMinMax [simp]: "nnods (Discret1DGetMinMaxCellSize ds ms peers) = nnods ds"
  by (simp add: Discret1DGetMinMaxCellSize_def Let_def split: prod.splits)


lemma csum_0 [simp]: "csum f 0 = 0"
  by (simp add: csum_def)

















section \<open>The effective strain rate\<close>

lemma fold_invariant:
  "(\<And>x s. x \<in> set xs \<Longrightarrow> P s \<Longrightarrow> P (f x s)) \<Longrightarrow> P s \<Longrightarrow> P (fold f xs s)"
  by (induction xs arbitrary: s) auto

lemma same_input_grad:
  "same_input jr jr' \<Longrightarrow> grad_xx jr' = grad_xx jr \<and> grad_yy jr' = grad_yy jr \<and> grad_zz jr' = grad_zz jr"
  by (simp add: same_input_def grad_xx_def grad_yy_def grad_zz_def)

lemma center_step:
  "EffStrainRate_center p (it, jr) = (it', jr') \<Longrightarrow>
     it' = it + 1 \<and> same_input jr jr' \<and> svCell jr' = (svCell jr)(it := cell_upd jr p (svCell jr it))"
  by (cases p)
     (auto simp: EffStrainRate_center_def Let_def same_input_def cell_upd_def grad_xx_def
        grad_yy_def grad_zz_def GET_CELL_RANGE_def)

lemma center_loop:
  "fold EffStrainRate_center xs (it, jr) = (it', jr') \<Longrightarrow>
     it' = it + int (length xs) \<and> same_input jr jr' \<and>
     (\<forall>n. svCell jr' n = (if it \<le> n \<and> n < it + int (length xs)
                           then cell_upd jr (xs ! nat (n - it)) (svCell jr n) else svCell jr n))"
proof (induction xs arbitrary: it jr)
  case Nil
  then show ?case by (auto simp: same_input_def)
next
  case (Cons x xs)
  obtain it1 jr1 where s1: "EffStrainRate_center x (it, jr) = (it1, jr1)"
    by (cases "EffStrainRate_center x (it, jr)")
  note c = center_step[OF s1]
  from Cons.prems s1 have "fold EffStrainRate_center xs (it1, jr1) = (it', jr')" by simp
  note ih = Cons.IH[OF this]
  have g: "cell_upd jr1 = cell_upd jr"
    using same_input_grad[of jr jr1] c by (simp add: cell_upd_def fun_eq_iff)
  have si: "same_input jr jr'" using c ih by (simp add: same_input_def)
  have "svCell jr' n = (if it \<le> n \<and> n < it + int (length (x # xs))
                           then cell_upd jr ((x # xs) ! nat (n - it)) (svCell jr n) else svCell jr n)"
    for n
  proof (cases "n = it")
    case True
    then show ?thesis using ih c by (simp add: g)
  next
    case False
    have "nat (n - it) = Suc (nat (n - (it + 1)))" if "it < n" using that by simp
    then show ?thesis using ih c False by (auto simp: g)
  qed
  with si ih c show ?case by simp
qed


lemma edge_steps:
  "svCell (snd (EffStrainRate_xy p s)) = svCell (snd s) \<and> same_input (snd s) (snd (EffStrainRate_xy p s))"
  "svCell (snd (EffStrainRate_xz p s)) = svCell (snd s) \<and> same_input (snd s) (snd (EffStrainRate_xz p s))"
  "svCell (snd (EffStrainRate_yz p s)) = svCell (snd s) \<and> same_input (snd s) (snd (EffStrainRate_yz p s))"
  by (cases p; cases s;
      simp add: EffStrainRate_xy_def EffStrainRate_xz_def EffStrainRate_yz_def Let_def
        same_input_def)+

lemma edge_loops:
  "svCell (snd (fold EffStrainRate_xy xs s)) = svCell (snd s) \<and> same_input (snd s) (snd (fold EffStrainRate_xy xs s))"
  "svCell (snd (fold EffStrainRate_xz xs s)) = svCell (snd s) \<and> same_input (snd s) (snd (fold EffStrainRate_xz xs s))"
  "svCell (snd (fold EffStrainRate_yz xs s)) = svCell (snd s) \<and> same_input (snd s) (snd (fold EffStrainRate_yz xs s))"
proof -
  have r: "same_input a a" for a :: "('ph, 'phs, 'lim, 'dm, 'vec) JacRes"
    by (simp add: same_input_def)
  have t: "same_input a b \<Longrightarrow> same_input b c \<Longrightarrow> same_input a c"
    for a b c :: "('ph, 'phs, 'lim, 'dm, 'vec) JacRes"
    by (simp add: same_input_def)
  show "svCell (snd (fold EffStrainRate_xy xs s)) = svCell (snd s) \<and> same_input (snd s) (snd (fold EffStrainRate_xy xs s))"
    by (rule fold_invariant[where P = "\<lambda>u. svCell (snd u) = svCell (snd s) \<and> same_input (snd s) (snd u)"])
       (use edge_steps(1) r t in \<open>metis+\<close>)
  show "svCell (snd (fold EffStrainRate_xz xs s)) = svCell (snd s) \<and> same_input (snd s) (snd (fold EffStrainRate_xz xs s))"
    by (rule fold_invariant[where P = "\<lambda>u. svCell (snd u) = svCell (snd s) \<and> same_input (snd s) (snd u)"])
       (use edge_steps(2) r t in \<open>metis+\<close>)
  show "svCell (snd (fold EffStrainRate_yz xs s)) = svCell (snd s) \<and> same_input (snd s) (snd (fold EffStrainRate_yz xs s))"
    by (rule fold_invariant[where P = "\<lambda>u. svCell (snd u) = svCell (snd s) \<and> same_input (snd s) (snd u)"])
       (use edge_steps(3) r t in \<open>metis+\<close>)
qed

lemma JacResGetEffStrainRate_cells:
  "same_input jr (JacResGetEffStrainRate lib jr) \<and>
   (\<forall>n. svCell (JacResGetEffStrainRate lib jr) n =
      (if 0 \<le> n \<and> n < int (length (center_points (jr_fs jr)))
       then cell_upd jr (center_points (jr_fs jr) ! nat n) (svCell jr n) else svCell jr n))"
proof -
  define fs where "fs = jr_fs jr"
  obtain it1 jr1 where s1: "fold EffStrainRate_center (center_points fs) (0, jr) = (it1, jr1)"
    by (cases "fold EffStrainRate_center (center_points fs) (0, jr)")
  note c = center_loop[OF s1]
  define jr2 where "jr2 = snd (fold EffStrainRate_xy (xy_points fs) (0, jr1))"
  define jr3 where "jr3 = snd (fold EffStrainRate_xz (xz_points fs) (0, jr2))"
  define jr4 where "jr4 = snd (fold EffStrainRate_yz (yz_points fs) (0, jr3))"
  have e2: "svCell jr2 = svCell jr1" "same_input jr1 jr2"
    using edge_loops(1)[of "xy_points fs" "(0, jr1)"] by (simp_all add: jr2_def)
  have e3: "svCell jr3 = svCell jr2" "same_input jr2 jr3"
    using edge_loops(2)[of "xz_points fs" "(0, jr2)"] by (simp_all add: jr3_def)
  have e4: "svCell jr4 = svCell jr3" "same_input jr3 jr4"
    using edge_loops(3)[of "yz_points fs" "(0, jr3)"] by (simp_all add: jr4_def)
  have r: "JacResGetEffStrainRate lib jr =
     jr4\<lparr>ldxx := LOCAL_TO_LOCAL lib (DA_CEN fs) (ldxx jr4),
         ldyy := LOCAL_TO_LOCAL lib (DA_CEN fs) (ldyy jr4),
         ldzz := LOCAL_TO_LOCAL lib (DA_CEN fs) (ldzz jr4),
         ldxy := LOCAL_TO_LOCAL lib (DA_XY fs) (ldxy jr4),
         ldxz := LOCAL_TO_LOCAL lib (DA_XZ fs) (ldxz jr4),
         ldyz := LOCAL_TO_LOCAL lib (DA_YZ fs) (ldyz jr4)\<rparr>"
    by (simp add: JacResGetEffStrainRate_def Let_def fs_def[symmetric] s1 jr2_def jr3_def jr4_def)
  have "same_input jr jr4" using c e2 e3 e4 by (simp add: same_input_def)
  then have "same_input jr (JacResGetEffStrainRate lib jr)" by (simp add: r same_input_def)
  moreover have "svCell (JacResGetEffStrainRate lib jr) = svCell jr1"
    by (simp add: r e4 e3 e2)
  ultimately show ?thesis using c by (simp add: fs_def)
qed

text \<open>In exact arithmetic the three stored components add up to zero.\<close>

lemma JacResGetEffStrainRate_trace_exact:
  assumes "0 \<le> n" "n < int (length (center_points (jr_fs jr)))"
  shows "dxx (svCell (JacResGetEffStrainRate lib jr) n)
       + dyy (svCell (JacResGetEffStrainRate lib jr) n)
       + dzz (svCell (JacResGetEffStrainRate lib jr) n) = 0"
proof -
  define p where "p = center_points (jr_fs jr) ! nat n"
  have c: "svCell (JacResGetEffStrainRate lib jr) n = cell_upd jr p (svCell jr n)"
    using JacResGetEffStrainRate_cells[of jr lib] assms by (simp add: p_def)
  have "grad_xx jr p - (grad_xx jr p + grad_yy jr p + grad_zz jr p) / 3
      + (grad_yy jr p - (grad_xx jr p + grad_yy jr p + grad_zz jr p) / 3)
      + (grad_zz jr p - (grad_xx jr p + grad_yy jr p + grad_zz jr p) / 3) = 0"
    by (simp add: field_simps)
  then show ?thesis unfolding c by (simp add: cell_upd_def Let_def)
qed

subsection \<open>The rounded model\<close>

lemma same_input_grad_fl:
  "same_input jr jr' \<Longrightarrow> grad_xx_fl rnd jr' = grad_xx_fl rnd jr \<and> grad_yy_fl rnd jr' = grad_yy_fl rnd jr
     \<and> grad_zz_fl rnd jr' = grad_zz_fl rnd jr"
  by (simp add: same_input_def grad_xx_fl_def grad_yy_fl_def grad_zz_fl_def)

text \<open>
  The values the rounded loop body computes and stores are the roundings of the entries
  of \<open>center_ops\<close>.
\<close>

lemma center_ops_values:
  "length (center_ops rnd jr p) = 15"
  "grad_xx_fl rnd jr p = rnd (center_ops rnd jr p ! 6)"
  "grad_yy_fl rnd jr p = rnd (center_ops rnd jr p ! 7)"
  "grad_zz_fl rnd jr p = rnd (center_ops rnd jr p ! 8)"
  "theta_fl rnd jr p = rnd (center_ops rnd jr p ! 10)"
  "dxx (cell_upd_fl rnd jr p svc) = rnd (center_ops rnd jr p ! 12)"
  "dyy (cell_upd_fl rnd jr p svc) = rnd (center_ops rnd jr p ! 13)"
  "dzz (cell_upd_fl rnd jr p svc) = rnd (center_ops rnd jr p ! 14)"
  by (cases p; simp add: center_ops_def Let_def grad_xx_fl_def grad_yy_fl_def grad_zz_fl_def
        theta_fl_def cell_upd_fl_def SIZE_CELL_fl_def)+

lemma center_step_fl:
  "EffStrainRate_center_fl rnd p (it, jr) = (it', jr') \<Longrightarrow>
     it' = it + 1 \<and> same_input jr jr' \<and> svCell jr' = (svCell jr)(it := cell_upd_fl rnd jr p (svCell jr it))"
  by (cases p)
     (auto simp: EffStrainRate_center_fl_def Let_def same_input_def cell_upd_fl_def theta_fl_def
        grad_xx_fl_def grad_yy_fl_def grad_zz_fl_def GET_CELL_RANGE_def)

lemma center_loop_fl:
  "fold (EffStrainRate_center_fl rnd) xs (it, jr) = (it', jr') \<Longrightarrow>
     it' = it + int (length xs) \<and> same_input jr jr' \<and>
     (\<forall>n. svCell jr' n = (if it \<le> n \<and> n < it + int (length xs)
                           then cell_upd_fl rnd jr (xs ! nat (n - it)) (svCell jr n) else svCell jr n))"
proof (induction xs arbitrary: it jr)
  case Nil
  then show ?case by (auto simp: same_input_def)
next
  case (Cons x xs)
  obtain it1 jr1 where s1: "EffStrainRate_center_fl rnd x (it, jr) = (it1, jr1)"
    by (cases "EffStrainRate_center_fl rnd x (it, jr)")
  note c = center_step_fl[OF s1]
  from Cons.prems s1 have "fold (EffStrainRate_center_fl rnd) xs (it1, jr1) = (it', jr')" by simp
  note ih = Cons.IH[OF this]
  have g: "cell_upd_fl rnd jr1 = cell_upd_fl rnd jr"
    using same_input_grad_fl[of jr jr1 rnd] c by (simp add: cell_upd_fl_def theta_fl_def fun_eq_iff)
  have si: "same_input jr jr'" using c ih by (simp add: same_input_def)
  have "svCell jr' n = (if it \<le> n \<and> n < it + int (length (x # xs))
                           then cell_upd_fl rnd jr ((x # xs) ! nat (n - it)) (svCell jr n) else svCell jr n)"
    for n
  proof (cases "n = it")
    case True
    then show ?thesis using ih c by (simp add: g)
  next
    case False
    have "nat (n - it) = Suc (nat (n - (it + 1)))" if "it < n" using that by simp
    then show ?thesis using ih c False by (auto simp: g)
  qed
  with si ih c show ?case by simp
qed


lemma edge_steps_fl:
  "svCell (snd (EffStrainRate_xy_fl rnd p s)) = svCell (snd s) \<and> same_input (snd s) (snd (EffStrainRate_xy_fl rnd p s))"
  "svCell (snd (EffStrainRate_xz_fl rnd p s)) = svCell (snd s) \<and> same_input (snd s) (snd (EffStrainRate_xz_fl rnd p s))"
  "svCell (snd (EffStrainRate_yz_fl rnd p s)) = svCell (snd s) \<and> same_input (snd s) (snd (EffStrainRate_yz_fl rnd p s))"
  by (cases p; cases s;
      simp add: EffStrainRate_xy_fl_def EffStrainRate_xz_fl_def EffStrainRate_yz_fl_def Let_def
        same_input_def)+

lemma edge_loops_fl:
  "svCell (snd (fold (EffStrainRate_xy_fl rnd) xs s)) = svCell (snd s) \<and> same_input (snd s) (snd (fold (EffStrainRate_xy_fl rnd) xs s))"
  "svCell (snd (fold (EffStrainRate_xz_fl rnd) xs s)) = svCell (snd s) \<and> same_input (snd s) (snd (fold (EffStrainRate_xz_fl rnd) xs s))"
  "svCell (snd (fold (EffStrainRate_yz_fl rnd) xs s)) = svCell (snd s) \<and> same_input (snd s) (snd (fold (EffStrainRate_yz_fl rnd) xs s))"
proof -
  have r: "same_input a a" for a :: "('ph, 'phs, 'lim, 'dm, 'vec) JacRes"
    by (simp add: same_input_def)
  have t: "same_input a b \<Longrightarrow> same_input b c \<Longrightarrow> same_input a c"
    for a b c :: "('ph, 'phs, 'lim, 'dm, 'vec) JacRes"
    by (simp add: same_input_def)
  show "svCell (snd (fold (EffStrainRate_xy_fl rnd) xs s)) = svCell (snd s) \<and> same_input (snd s) (snd (fold (EffStrainRate_xy_fl rnd) xs s))"
    by (rule fold_invariant[where P = "\<lambda>u. svCell (snd u) = svCell (snd s) \<and> same_input (snd s) (snd u)"])
       (use edge_steps_fl(1) r t in \<open>metis+\<close>)
  show "svCell (snd (fold (EffStrainRate_xz_fl rnd) xs s)) = svCell (snd s) \<and> same_input (snd s) (snd (fold (EffStrainRate_xz_fl rnd) xs s))"
    by (rule fold_invariant[where P = "\<lambda>u. svCell (snd u) = svCell (snd s) \<and> same_input (snd s) (snd u)"])
       (use edge_steps_fl(2) r t in \<open>metis+\<close>)
  show "svCell (snd (fold (EffStrainRate_yz_fl rnd) xs s)) = svCell (snd s) \<and> same_input (snd s) (snd (fold (EffStrainRate_yz_fl rnd) xs s))"
    by (rule fold_invariant[where P = "\<lambda>u. svCell (snd u) = svCell (snd s) \<and> same_input (snd s) (snd u)"])
       (use edge_steps_fl(3) r t in \<open>metis+\<close>)
qed

lemma JacResGetEffStrainRate_fl_cells:
  "same_input jr (JacResGetEffStrainRate_fl rnd lib jr) \<and>
   (\<forall>n. svCell (JacResGetEffStrainRate_fl rnd lib jr) n =
      (if 0 \<le> n \<and> n < int (length (center_points (jr_fs jr)))
       then cell_upd_fl rnd jr (center_points (jr_fs jr) ! nat n) (svCell jr n) else svCell jr n))"
proof -
  define fs where "fs = jr_fs jr"
  obtain it1 jr1 where s1: "fold (EffStrainRate_center_fl rnd) (center_points fs) (0, jr) = (it1, jr1)"
    by (cases "fold (EffStrainRate_center_fl rnd) (center_points fs) (0, jr)")
  note c = center_loop_fl[OF s1]
  define jr2 where "jr2 = snd (fold (EffStrainRate_xy_fl rnd) (xy_points fs) (0, jr1))"
  define jr3 where "jr3 = snd (fold (EffStrainRate_xz_fl rnd) (xz_points fs) (0, jr2))"
  define jr4 where "jr4 = snd (fold (EffStrainRate_yz_fl rnd) (yz_points fs) (0, jr3))"
  have e2: "svCell jr2 = svCell jr1" "same_input jr1 jr2"
    using edge_loops_fl(1)[of rnd "xy_points fs" "(0, jr1)"] by (simp_all add: jr2_def)
  have e3: "svCell jr3 = svCell jr2" "same_input jr2 jr3"
    using edge_loops_fl(2)[of rnd "xz_points fs" "(0, jr2)"] by (simp_all add: jr3_def)
  have e4: "svCell jr4 = svCell jr3" "same_input jr3 jr4"
    using edge_loops_fl(3)[of rnd "yz_points fs" "(0, jr3)"] by (simp_all add: jr4_def)
  have r: "JacResGetEffStrainRate_fl rnd lib jr =
     jr4\<lparr>ldxx := LOCAL_TO_LOCAL lib (DA_CEN fs) (ldxx jr4),
         ldyy := LOCAL_TO_LOCAL lib (DA_CEN fs) (ldyy jr4),
         ldzz := LOCAL_TO_LOCAL lib (DA_CEN fs) (ldzz jr4),
         ldxy := LOCAL_TO_LOCAL lib (DA_XY fs) (ldxy jr4),
         ldxz := LOCAL_TO_LOCAL lib (DA_XZ fs) (ldxz jr4),
         ldyz := LOCAL_TO_LOCAL lib (DA_YZ fs) (ldyz jr4)\<rparr>"
    by (simp add: JacResGetEffStrainRate_fl_def Let_def fs_def[symmetric] s1 jr2_def jr3_def jr4_def)
  have "same_input jr jr4" using c e2 e3 e4 by (simp add: same_input_def)
  then have "same_input jr (JacResGetEffStrainRate_fl rnd lib jr)" by (simp add: r same_input_def)
  moreover have "svCell (JacResGetEffStrainRate_fl rnd lib jr) = svCell jr1"
    by (simp add: r e4 e3 e2)
  ultimately show ?thesis using c by (simp add: fs_def)
qed

lemma EffStrainRate_fl_exact:
  "EffStrainRate_center_fl (\<lambda>x. x) = EffStrainRate_center"
  "EffStrainRate_xy_fl (\<lambda>x. x) = EffStrainRate_xy"
  "EffStrainRate_xz_fl (\<lambda>x. x) = EffStrainRate_xz"
  "EffStrainRate_yz_fl (\<lambda>x. x) = EffStrainRate_yz"
  unfolding EffStrainRate_center_fl_def EffStrainRate_center_def EffStrainRate_xy_fl_def
    EffStrainRate_xy_def EffStrainRate_xz_fl_def EffStrainRate_xz_def EffStrainRate_yz_fl_def
    EffStrainRate_yz_def SIZE_CELL_fl_def SIZE_CELL_def SIZE_NODE_fl_def SIZE_NODE_def
  by (rule refl)+

text \<open>With no rounding the rounded model is the model in exact arithmetic.\<close>

lemma JacResGetEffStrainRate_fl_exact:
  "JacResGetEffStrainRate_fl (\<lambda>x. x) lib jr = JacResGetEffStrainRate lib jr"
  unfolding JacResGetEffStrainRate_fl_def JacResGetEffStrainRate_def EffStrainRate_fl_exact
  by (rule refl)

subsection \<open>Rounding to binary64\<close>

lemma pow2_powr: "pow2 e = 2 powr (real_of_int e)"
proof (cases "0 \<le> e")
  case True
  then have "2 powr (real_of_int e) = 2 powr (real (nat e))" by simp
  also have "\<dots> = 2 ^ nat e" by (subst powr_realpow) simp_all
  finally show ?thesis using True by (simp add: pow2_def)
next
  case False
  then have "2 powr (real_of_int e) = 2 powr (- real (nat (- e)))" by simp
  also have "\<dots> = 1 / 2 powr (real (nat (- e)))" by (simp add: powr_minus_divide)
  also have "\<dots> = 1 / 2 ^ nat (- e)" by (subst powr_realpow) simp_all
  finally show ?thesis using False by (simp add: pow2_def)
qed

lemma pow2_pos: "0 < pow2 e"
  by (simp add: pow2_powr)

lemma pow2_add: "pow2 (a + b) = pow2 a * pow2 b"
  by (simp add: pow2_powr powr_add)

lemma pow2_mono: "a \<le> b \<Longrightarrow> pow2 a \<le> pow2 b"
  by (simp add: pow2_powr)

lemma pow2_nat: "0 \<le> e \<Longrightarrow> pow2 e = of_int (2 ^ nat e)"
  by (simp add: pow2_def)

lemma ilog2_bounds:
  assumes "x \<noteq> 0"
  shows "pow2 (ilog2 x) \<le> \<bar>x\<bar> \<and> \<bar>x\<bar> < pow2 (ilog2 x + 1)"
proof (cases "1 \<le> \<bar>x\<bar>")
  case True
  define a where "a = \<lfloor>\<bar>x\<bar>\<rfloor>"
  have a: "0 < a" using True by (simp add: a_def)
  have b1: "1 \<le> bitlen a" using a by (auto simp: bitlen_alt_def)
  from bitlen_bounds[OF a] have lo: "2 ^ nat (bitlen a - 1) \<le> a" and hi: "a < 2 ^ nat (bitlen a)"
    by auto
  have "real_of_int (2 ^ nat (bitlen a - 1)) \<le> real_of_int a" using lo by linarith
  also have "\<dots> \<le> \<bar>x\<bar>" by (simp add: a_def)
  finally have l: "pow2 (bitlen a - 1) \<le> \<bar>x\<bar>" using b1 by (simp add: pow2_def)
  have "a + 1 \<le> 2 ^ nat (bitlen a)" using hi by simp
  then have "real_of_int (a + 1) \<le> real_of_int (2 ^ nat (bitlen a))" by linarith
  moreover have "\<bar>x\<bar> < real_of_int (a + 1)" unfolding a_def by linarith
  ultimately have h: "\<bar>x\<bar> < pow2 (bitlen a)" using b1 by (simp add: pow2_def)
  show ?thesis using l h True by (simp add: ilog2_def a_def[symmetric])
next
  case False
  then have x1: "\<bar>x\<bar> < 1" and x0: "0 < \<bar>x\<bar>" using assms by auto
  define y where "y = 1 / \<bar>x\<bar>"
  have y1: "1 < y" using x1 x0 by (simp add: y_def)
  define c where "c = \<lceil>y\<rceil> - 1"
  have c: "0 < c" using y1 by (simp add: c_def)
  have cy: "real_of_int c < y" "y \<le> real_of_int c + 1" unfolding c_def by linarith+
  have b1: "1 \<le> bitlen c" using c by (auto simp: bitlen_alt_def)
  from bitlen_bounds[OF c] have lo: "2 ^ nat (bitlen c - 1) \<le> c" and hi: "c < 2 ^ nat (bitlen c)"
    by auto
  have "real_of_int (2 ^ nat (bitlen c - 1)) \<le> real_of_int c" using lo by linarith
  then have "(2::real) ^ nat (bitlen c - 1) \<le> real_of_int c" by simp
  then have l: "2 ^ nat (bitlen c - 1) < y" using cy by linarith
  have "c + 1 \<le> 2 ^ nat (bitlen c)" using hi by simp
  then have "real_of_int (c + 1) \<le> real_of_int (2 ^ nat (bitlen c))" by linarith
  then have "real_of_int c + 1 \<le> (2::real) ^ nat (bitlen c)" by simp
  then have h: "y \<le> 2 ^ nat (bitlen c)" using cy by linarith
  have xy: "\<bar>x\<bar> = 1 / y" using x0 by (simp add: y_def)
  have p1: "pow2 (- bitlen c) = 1 / 2 ^ nat (bitlen c)" using b1 by (simp add: pow2_def)
  have p2: "pow2 (- bitlen c + 1) = 1 / 2 ^ nat (bitlen c - 1)"
  proof (cases "bitlen c = 1")
    case True
    then show ?thesis by (simp add: pow2_def)
  next
    case False
    with b1 have "- bitlen c + 1 < 0" "- (- bitlen c + 1) = bitlen c - 1" by auto
    then show ?thesis by (simp add: pow2_def)
  qed
  have "pow2 (- bitlen c) \<le> \<bar>x\<bar>" unfolding p1 xy using h y1 by (simp add: frac_le)
  moreover have "\<bar>x\<bar> < pow2 (- bitlen c + 1)" unfolding p2 xy using l y1
    by (simp add: frac_less2)
  ultimately show ?thesis using False by (simp add: ilog2_def y_def[symmetric] c_def[symmetric])
qed

lemma ilog2_unique:
  assumes "pow2 e \<le> \<bar>x\<bar>" "\<bar>x\<bar> < pow2 (e + 1)"
  shows "ilog2 x = e"
proof -
  have x0: "x \<noteq> 0" using assms(1) pow2_pos[of e] by auto
  note b = ilog2_bounds[OF x0]
  have "\<not> ilog2 x < e"
  proof
    assume "ilog2 x < e"
    then have "pow2 (ilog2 x + 1) \<le> pow2 e" by (intro pow2_mono) simp
    with b assms show False by linarith
  qed
  moreover have "\<not> e < ilog2 x"
  proof
    assume "e < ilog2 x"
    then have "pow2 (e + 1) \<le> pow2 (ilog2 x)" by (intro pow2_mono) simp
    with b assms show False by linarith
  qed
  ultimately show ?thesis by simp
qed

lemma rnd64_binade:
  assumes "pow2 e \<le> \<bar>x\<bar>" "\<bar>x\<bar> < pow2 (e + 1)"
  shows "rnd64 x = of_int (round_even (x / pow2 (e - 52))) * pow2 (e - 52)"
proof -
  have "x \<noteq> 0" using assms(1) pow2_pos[of e] by auto
  then show ?thesis by (simp add: rnd64_def ilog2_unique[OF assms])
qed

lemma round_even_int: "round_even (of_int m) = m"
  by (simp add: round_even_def)

lemma round_even_err: "\<bar>of_int (round_even y) - y\<bar> \<le> 1 / 2"
  unfolding round_even_def by (auto split: if_splits)

lemma rnd64_error: "\<bar>rnd64 x - x\<bar> \<le> 1 / 2 ^ 53 * \<bar>x\<bar>"
proof (cases "x = 0")
  case True
  then show ?thesis by (simp add: rnd64_def)
next
  case False
  define e where "e = ilog2 x"
  define q where "q = pow2 (e - 52)"
  have q: "0 < q" by (simp add: q_def pow2_pos)
  note b = ilog2_bounds[OF False, folded e_def]
  have r: "rnd64 x = of_int (round_even (x / q)) * q"
    using False by (simp add: rnd64_def e_def q_def)
  have "rnd64 x - x = (of_int (round_even (x / q)) - x / q) * q"
    using q by (simp add: r field_simps)
  then have "\<bar>rnd64 x - x\<bar> = \<bar>of_int (round_even (x / q)) - x / q\<bar> * q"
    using q by (simp add: abs_mult)
  also have "\<dots> \<le> 1 / 2 * q" using round_even_err[of "x / q"] q by (intro mult_right_mono) auto
  also have "\<dots> = 1 / 2 ^ 53 * pow2 e"
  proof -
    have "pow2 e = pow2 (e - 52) * pow2 52" using pow2_add[of "e - 52" 52] by simp
    then show ?thesis by (simp add: q_def pow2_def)
  qed
  also have "\<dots> \<le> 1 / 2 ^ 53 * \<bar>x\<bar>" using b by (intro mult_left_mono) auto
  finally show ?thesis .
qed

lemma rnd64_exact:
  assumes m: "\<bar>m\<bar> < 2 ^ 53"
  shows "rnd64 (of_int m * pow2 k) = of_int m * pow2 k"
proof (cases "m = 0")
  case True
  then show ?thesis by (simp add: rnd64_def)
next
  case False
  define x where "x = real_of_int m * pow2 k"
  have x0: "x \<noteq> 0" using False pow2_pos[of k] by (simp add: x_def)
  define e where "e = ilog2 x"
  note b = ilog2_bounds[OF x0, folded e_def]
  have "\<bar>x\<bar> = real_of_int \<bar>m\<bar> * pow2 k" using pow2_pos[of k] by (simp add: x_def abs_mult)
  also have "\<dots> < 2 ^ 53 * pow2 k"
  proof -
    have "real_of_int \<bar>m\<bar> < real_of_int (2 ^ 53)" using m by linarith
    then show ?thesis using pow2_pos[of k] by simp
  qed
  also have "\<dots> = pow2 (53 + k)" using pow2_add[of 53 k] by (simp add: pow2_def)
  finally have "pow2 e < pow2 (53 + k)" using b by linarith
  then have "e < 53 + k" using pow2_mono[of "53 + k" e] by (cases "e < 53 + k") auto
  then have d: "0 \<le> k - (e - 52)" by simp
  have "pow2 k = pow2 (k - (e - 52)) * pow2 (e - 52)" using pow2_add[of "k - (e - 52)" "e - 52"] by simp
  then have "x / pow2 (e - 52) = real_of_int m * pow2 (k - (e - 52))"
    using pow2_pos[of "e - 52"] by (simp add: x_def)
  also have "\<dots> = real_of_int (m * 2 ^ nat (k - (e - 52)))" using d by (simp add: pow2_def)
  finally have "round_even (x / pow2 (e - 52)) = m * 2 ^ nat (k - (e - 52))"
    by (simp only: round_even_int)
  then have "rnd64 x = real_of_int (m * 2 ^ nat (k - (e - 52))) * pow2 (e - 52)"
    using x0 by (simp add: rnd64_def e_def)
  also have "\<dots> = real_of_int m * (pow2 (k - (e - 52)) * pow2 (e - 52))" using d by (simp add: pow2_def)
  also have "\<dots> = x" using pow2_add[of "k - (e - 52)" "e - 52"] by (simp add: x_def)
  finally show ?thesis by (simp add: x_def)
qed

lemma rnd64_5_6: "rnd64 (5 / 6) = 7505999378950827 / 2 ^ 53"
proof -
  have "rnd64 (5 / 6) = of_int (round_even ((5 / 6) / pow2 (- 1 - 52))) * pow2 (- 1 - 52)"
    by (rule rnd64_binade) (simp_all add: pow2_def)
  also have "(5 / 6) / pow2 (- 1 - 52) = 22517998136852480 / (3::real)" by (simp add: pow2_def)
  also have "round_even (22517998136852480 / 3) = 7505999378950827"
  proof -
    have f: "\<lfloor>22517998136852480 / (3::real)\<rfloor> = 7505999378950826" by (simp add: floor_eq_iff)
    show ?thesis unfolding round_even_def f by simp
  qed
  finally show ?thesis by (simp add: pow2_def)
qed

lemma trace_bound:
  fixes rnd :: "real \<Rightarrow> real"
  assumes r: "\<And>x. \<bar>rnd x - x\<bar> \<le> u * \<bar>x\<bar>" and u: "0 \<le> u" "u \<le> 1 / 8"
  shows "\<bar>rnd (xx - rnd (rnd (rnd (xx + yy) + zz) / 3))
          + rnd (yy - rnd (rnd (rnd (xx + yy) + zz) / 3))
          + rnd (zz - rnd (rnd (rnd (xx + yy) + zz) / 3))\<bar>
         \<le> 6 * u * (\<bar>xx\<bar> + \<bar>yy\<bar> + \<bar>zz\<bar>)"
proof -
  define A where "A = \<bar>xx\<bar> + \<bar>yy\<bar> + \<bar>zz\<bar>"
  define T where "T = u * A"
  define s1 where "s1 = rnd (xx + yy)"
  define th where "th = rnd (s1 + zz)"
  define tr where "tr = rnd (th / 3)"
  define e1 where "e1 = s1 - (xx + yy)"
  define e2 where "e2 = th - (s1 + zz)"
  define e3 where "e3 = tr - th / 3"
  define f1 where "f1 = rnd (xx - tr) - (xx - tr)"
  define f2 where "f2 = rnd (yy - tr) - (yy - tr)"
  define f3 where "f3 = rnd (zz - tr) - (zz - tr)"
  have A0: "0 \<le> A" by (simp add: A_def)
  have T0: "0 \<le> T" using u A0 by (simp add: T_def)
  have uT: "u * T \<le> T / 8"
  proof -
    have "u * T \<le> (1 / 8) * T" using u T0 by (intro mult_right_mono) auto
    then show ?thesis by simp
  qed
  have b1: "\<bar>e1\<bar> \<le> T"
  proof -
    have "\<bar>e1\<bar> \<le> u * \<bar>xx + yy\<bar>" unfolding e1_def s1_def by (rule r)
    also have "\<dots> \<le> u * A" using u by (intro mult_left_mono) (auto simp: A_def)
    finally show ?thesis by (simp add: T_def)
  qed
  have c1: "\<bar>s1 + zz\<bar> \<le> A + T"
  proof -
    have "s1 + zz = xx + yy + zz + e1" by (simp add: e1_def)
    then have "\<bar>s1 + zz\<bar> \<le> A + \<bar>e1\<bar>" by (simp add: A_def)
    with b1 show ?thesis by simp
  qed
  have b2: "\<bar>e2\<bar> \<le> T + T / 8"
  proof -
    have "\<bar>e2\<bar> \<le> u * \<bar>s1 + zz\<bar>" unfolding e2_def th_def by (rule r)
    also have "\<dots> \<le> u * (A + T)" using u c1 by (intro mult_left_mono) auto
    also have "\<dots> = T + u * T" by (simp add: T_def algebra_simps)
    finally have "\<bar>e2\<bar> \<le> T + u * T" .
    then show ?thesis using uT by linarith
  qed
  have c2: "\<bar>th\<bar> \<le> A + T + (T + T / 8)"
  proof -
    have "th = s1 + zz + e2" by (simp add: e2_def)
    then have "\<bar>th\<bar> \<le> \<bar>s1 + zz\<bar> + \<bar>e2\<bar>" by simp
    with c1 b2 show ?thesis by simp
  qed
  have uth: "u * \<bar>th\<bar> \<le> T + T / 8 + (T / 8 + T / 64)"
  proof -
    have "u * \<bar>th\<bar> \<le> u * (A + T + (T + T / 8))" using u c2 by (intro mult_left_mono) auto
    also have "\<dots> = T + u * T + (u * T + u * T / 8)" by (simp add: T_def algebra_simps)
    finally have "u * \<bar>th\<bar> \<le> T + u * T + (u * T + u * T / 8)" .
    then show ?thesis using uT by linarith
  qed
  have b3: "3 * \<bar>e3\<bar> \<le> u * \<bar>th\<bar>"
  proof -
    have "\<bar>e3\<bar> \<le> u * \<bar>th / 3\<bar>" unfolding e3_def tr_def by (rule r)
    then show ?thesis by simp
  qed
  have c3: "3 * \<bar>tr\<bar> \<le> \<bar>th\<bar> + u * \<bar>th\<bar>"
  proof -
    have "tr = th / 3 + e3" by (simp add: e3_def)
    then have "\<bar>tr\<bar> \<le> \<bar>th\<bar> / 3 + \<bar>e3\<bar>" by simp
    with b3 show ?thesis by simp
  qed
  have utr: "u * (3 * \<bar>tr\<bar>) \<le> u * \<bar>th\<bar> + u * \<bar>th\<bar> / 8"
  proof -
    have "u * (3 * \<bar>tr\<bar>) \<le> u * (\<bar>th\<bar> + u * \<bar>th\<bar>)" using u c3 by (intro mult_left_mono) auto
    also have "\<dots> = u * \<bar>th\<bar> + u * (u * \<bar>th\<bar>)" by (simp add: algebra_simps)
    finally have a: "u * (3 * \<bar>tr\<bar>) \<le> u * \<bar>th\<bar> + u * (u * \<bar>th\<bar>)" .
    have "u * (u * \<bar>th\<bar>) \<le> (1 / 8) * (u * \<bar>th\<bar>)" using u by (intro mult_right_mono) auto
    with a show ?thesis by linarith
  qed
  have g: "\<bar>f1\<bar> \<le> u * (\<bar>xx\<bar> + \<bar>tr\<bar>)" "\<bar>f2\<bar> \<le> u * (\<bar>yy\<bar> + \<bar>tr\<bar>)" "\<bar>f3\<bar> \<le> u * (\<bar>zz\<bar> + \<bar>tr\<bar>)"
  proof -
    have h: "\<bar>rnd (w - tr) - (w - tr)\<bar> \<le> u * (\<bar>w\<bar> + \<bar>tr\<bar>)" for w
    proof -
      have "\<bar>rnd (w - tr) - (w - tr)\<bar> \<le> u * \<bar>w - tr\<bar>" by (rule r)
      also have "\<dots> \<le> u * (\<bar>w\<bar> + \<bar>tr\<bar>)" using u by (intro mult_left_mono) auto
      finally show ?thesis .
    qed
    show "\<bar>f1\<bar> \<le> u * (\<bar>xx\<bar> + \<bar>tr\<bar>)" "\<bar>f2\<bar> \<le> u * (\<bar>yy\<bar> + \<bar>tr\<bar>)" "\<bar>f3\<bar> \<le> u * (\<bar>zz\<bar> + \<bar>tr\<bar>)"
      unfolding f1_def f2_def f3_def by (rule h)+
  qed
  have fs: "\<bar>f1\<bar> + \<bar>f2\<bar> + \<bar>f3\<bar> \<le> T + u * (3 * \<bar>tr\<bar>)"
  proof -
    have "\<bar>f1\<bar> + \<bar>f2\<bar> + \<bar>f3\<bar> \<le> u * (\<bar>xx\<bar> + \<bar>tr\<bar>) + u * (\<bar>yy\<bar> + \<bar>tr\<bar>) + u * (\<bar>zz\<bar> + \<bar>tr\<bar>)"
      using g by linarith
    also have "\<dots> = T + u * (3 * \<bar>tr\<bar>)" by (simp add: T_def A_def algebra_simps)
    finally show ?thesis .
  qed
  have "rnd (xx - tr) + rnd (yy - tr) + rnd (zz - tr) = - e1 - e2 - 3 * e3 + f1 + f2 + f3"
    by (simp add: e1_def e2_def e3_def f1_def f2_def f3_def)
  then have "\<bar>rnd (xx - tr) + rnd (yy - tr) + rnd (zz - tr)\<bar>
      \<le> \<bar>e1\<bar> + \<bar>e2\<bar> + 3 * \<bar>e3\<bar> + (\<bar>f1\<bar> + \<bar>f2\<bar> + \<bar>f3\<bar>)"
    by linarith
  also have "\<dots> \<le> 6 * T" using b1 b2 b3 fs utr uth T0 by linarith
  finally show ?thesis by (simp add: tr_def th_def s1_def T_def A_def)
qed

lemma rnd64_small:
  "rnd64 0 = 0" "rnd64 1 = 1" "rnd64 2 = 2" "rnd64 (1 / 2) = 1 / 2" "rnd64 (5 / 2) = 5 / 2"
proof -
  show "rnd64 0 = 0" by (simp add: rnd64_def)
  show "rnd64 1 = 1" using rnd64_exact[of 1 0] by (simp add: pow2_def)
  show "rnd64 2 = 2" using rnd64_exact[of 2 0] by (simp add: pow2_def)
  show "rnd64 (1 / 2) = 1 / 2" using rnd64_exact[of 1 "- 1"] by (simp add: pow2_def)
  show "rnd64 (5 / 2) = 5 / 2" using rnd64_exact[of 5 "- 1"] by (simp add: pow2_def)
qed

lemma rnd64_dxx:
  "rnd64 (1 / 2 - 7505999378950827 / 2 ^ 53) = - (3002399751580331 / 2 ^ 53)"
proof -
  have "(1 / 2 - 7505999378950827 / 2 ^ 53 :: real) = of_int (- 3002399751580331) * pow2 (- 53)"
    by (simp add: pow2_def)
  moreover have "rnd64 (of_int (- 3002399751580331) * pow2 (- 53))
      = of_int (- 3002399751580331) * pow2 (- 53)"
    by (rule rnd64_exact) simp
  ultimately show ?thesis by (simp add: pow2_def)
qed

lemma rnd64_dzz:
  "rnd64 (0 - 7505999378950827 / 2 ^ 53) = - (7505999378950827 / 2 ^ 53)"
proof -
  have "(0 - 7505999378950827 / 2 ^ 53 :: real) = of_int (- 7505999378950827) * pow2 (- 53)"
    by (simp add: pow2_def)
  moreover have "rnd64 (of_int (- 7505999378950827) * pow2 (- 53))
      = of_int (- 7505999378950827) * pow2 (- 53)"
    by (rule rnd64_exact) simp
  ultimately show ?thesis by (simp add: pow2_def)
qed

text \<open>
  \<open>2 - 7505999378950827 / 2 ^ 53\<close> lies half-way between two neighbouring binary64
  numbers; the tie goes to the even significand.
\<close>

lemma rnd64_dyy:
  "rnd64 (2 - 7505999378950827 / 2 ^ 53) = 5254199565265578 / 2 ^ 52"
proof -
  have "rnd64 (2 - 7505999378950827 / 2 ^ 53)
      = of_int (round_even ((2 - 7505999378950827 / 2 ^ 53) / pow2 (0 - 52))) * pow2 (0 - 52)"
    by (rule rnd64_binade) (simp_all add: pow2_def)
  also have "(2 - 7505999378950827 / 2 ^ 53) / pow2 (0 - 52) = 10508399130531157 / (2::real)"
    by (simp add: pow2_def)
  also have "round_even (10508399130531157 / 2) = 5254199565265578"
  proof -
    have f: "\<lfloor>10508399130531157 / (2::real)\<rfloor> = 5254199565265578" by (simp add: floor_eq_iff)
    show ?thesis unfolding round_even_def f by simp
  qed
  finally show ?thesis by (simp add: pow2_def)
qed

lemma normal64_mid: "1 / 4 \<le> \<bar>x\<bar> \<Longrightarrow> \<bar>x\<bar> \<le> 4 \<Longrightarrow> normal64 x"
proof -
  assume a: "1 / 4 \<le> \<bar>x\<bar>" "\<bar>x\<bar> \<le> 4"
  have "pow2 (- 1022) \<le> pow2 (- 2)" by (rule pow2_mono) simp
  moreover have "pow2 (- 2) = 1 / 4" by (simp add: pow2_def)
  moreover have "pow2 2 \<le> pow2 971" by (rule pow2_mono) simp
  moreover have "pow2 2 = 4" by (simp add: pow2_def)
  moreover have "1 * pow2 971 \<le> (2 ^ 53 - 1) * pow2 971"
    using pow2_pos[of 971] by (intro mult_right_mono) auto
  ultimately show ?thesis using a by (simp add: normal64_def)
qed

text \<open>
  The second central point of \<open>jr_small\<close>, \<open>(i, j, k) = (1, 0, 0)\<close>: the cell is 2 wide in
  \<open>x\<close> and 1 wide in \<open>y\<close> and \<open>z\<close>, the velocity differences are 1, 2 and 0, so the gradients
  are 1/2, 2 and 0 and \<open>theta\<close> is 5/2, all exact; \<open>theta / 3\<close> is not a binary64 number.
\<close>

lemma jr_small_points:
  "center_points (jr_fs jr_small)
     = [(0,0,0),(1,0,0),(0,1,0),(1,1,0),(0,0,1),(1,0,1),(0,1,1),(1,1,1)]"
  by (simp add: center_points_def jr_small_def fs_nonuni_def ds_nonuni_def STD_LOOP_def
        GET_CELL_RANGE_def upto_rec1)

lemma jr_small_grad_fl:
  "grad_xx_fl rnd64 jr_small (1, 0, 0) = 1 / 2"
  "grad_yy_fl rnd64 jr_small (1, 0, 0) = 2"
  "grad_zz_fl rnd64 jr_small (1, 0, 0) = 0"
  "theta_fl rnd64 jr_small (1, 0, 0) = 5 / 2"
proof -
  show g: "grad_xx_fl rnd64 jr_small (1, 0, 0) = 1 / 2"
    "grad_yy_fl rnd64 jr_small (1, 0, 0) = 2"
    "grad_zz_fl rnd64 jr_small (1, 0, 0) = 0"
    by (simp_all add: grad_xx_fl_def grad_yy_fl_def grad_zz_fl_def jr_small_def fs_nonuni_def
          ds_nonuni_def SIZE_CELL_fl_def rnd64_small)
  show "theta_fl rnd64 jr_small (1, 0, 0) = 5 / 2"
    by (simp add: theta_fl_def g rnd64_small)
qed

lemma jr_small_ok: "center_ok rnd64 jr_small (1, 0, 0)"
proof -
  have o: "center_ops rnd64 jr_small (1, 0, 0)
      = [2, 1, 1, 1, 2, 0, 1 / 2, 2, 0, 5 / 2, 5 / 2, 5 / 6,
         1 / 2 - 7505999378950827 / 2 ^ 53, 2 - 7505999378950827 / 2 ^ 53,
         0 - 7505999378950827 / 2 ^ 53]"
    by (simp add: center_ops_def Let_def jr_small_def fs_nonuni_def ds_nonuni_def rnd64_small
          rnd64_5_6)
  have n: "list_all normal64 [2, 1, 1, 1, 2, 0, 1 / 2, 2, 0, 5 / 2, 5 / 2, 5 / 6,
         1 / 2 - 7505999378950827 / 2 ^ 53, 2 - 7505999378950827 / 2 ^ 53,
         0 - 7505999378950827 / 2 ^ 53]"
    by (simp add: normal64_mid) (simp add: normal64_def)
  have s: "SIZE_CELL_fl rnd64 1 (pstart (dsx (jr_fs jr_small))) (dsx (jr_fs jr_small)) = 2"
    "SIZE_CELL_fl rnd64 0 (pstart (dsy (jr_fs jr_small))) (dsy (jr_fs jr_small)) = 1"
    "SIZE_CELL_fl rnd64 0 (pstart (dsz (jr_fs jr_small))) (dsz (jr_fs jr_small)) = 1"
    by (simp_all add: SIZE_CELL_fl_def jr_small_def fs_nonuni_def ds_nonuni_def rnd64_small)
  show ?thesis unfolding center_ok_def prod.case o s using n by simp
qed

lemma jr_small_cell_fl:
  "dxx (cell_upd_fl rnd64 jr_small (1, 0, 0) svc) = - (3002399751580331 / 2 ^ 53)"
  "dyy (cell_upd_fl rnd64 jr_small (1, 0, 0) svc) = 5254199565265578 / 2 ^ 52"
  "dzz (cell_upd_fl rnd64 jr_small (1, 0, 0) svc) = - (7505999378950827 / 2 ^ 53)"
proof -
  have t: "rnd64 (5 / 2 / 3) = 7505999378950827 / 2 ^ 53" using rnd64_5_6 by simp
  have "dxx (cell_upd_fl rnd64 jr_small (1, 0, 0) svc) = rnd64 (1 / 2 - rnd64 (5 / 2 / 3))"
    by (simp add: cell_upd_fl_def Let_def jr_small_grad_fl)
  also have "\<dots> = rnd64 (1 / 2 - 7505999378950827 / 2 ^ 53)" by (simp only: t)
  also have "\<dots> = - (3002399751580331 / 2 ^ 53)" by (rule rnd64_dxx)
  finally show "dxx (cell_upd_fl rnd64 jr_small (1, 0, 0) svc) = - (3002399751580331 / 2 ^ 53)" .
  have "dyy (cell_upd_fl rnd64 jr_small (1, 0, 0) svc) = rnd64 (2 - rnd64 (5 / 2 / 3))"
    by (simp add: cell_upd_fl_def Let_def jr_small_grad_fl)
  also have "\<dots> = rnd64 (2 - 7505999378950827 / 2 ^ 53)" by (simp only: t)
  also have "\<dots> = 5254199565265578 / 2 ^ 52" by (rule rnd64_dyy)
  finally show "dyy (cell_upd_fl rnd64 jr_small (1, 0, 0) svc) = 5254199565265578 / 2 ^ 52" .
  have "dzz (cell_upd_fl rnd64 jr_small (1, 0, 0) svc) = rnd64 (0 - rnd64 (5 / 2 / 3))"
    by (simp add: cell_upd_fl_def Let_def jr_small_grad_fl)
  also have "\<dots> = rnd64 (0 - 7505999378950827 / 2 ^ 53)" by (simp only: t)
  also have "\<dots> = - (7505999378950827 / 2 ^ 53)" by (rule rnd64_dzz)
  finally show "dzz (cell_upd_fl rnd64 jr_small (1, 0, 0) svc) = - (7505999378950827 / 2 ^ 53)" .
qed

text \<open>
  C7, as corrected. In binary64 arithmetic, for every velocity field and at every cell
  center (the \<open>n\<close>-th point of the loop over the central points) where no cell size is
  zero and no operation overflows or underflows (\<open>center_ok\<close>),
  \<^verbatim>\<open>JacResGetEffStrainRate\<close> stores in \<^verbatim>\<open>svCell[n]\<close> the volumetric strain rate \<open>theta\<close>, the
  rounded sum of the three rounded diagonal velocity gradients, and the components
  \<open>dxx\<close>, \<open>dyy\<close>, \<open>dzz\<close>, each gradient minus the rounded \<open>theta / 3\<close>, rounded; their sum
  is zero up to rounding only: its magnitude is at most \<open>6 / 2 ^ 53\<close> times the sum of the
  magnitudes of the three gradients.
\<close>

theorem JacResGetEffStrainRate_trace_rounded:
  "\<forall>n. 0 \<le> n \<and> n < int (length (center_points (jr_fs jr)))
       \<and> center_ok rnd64 jr (center_points (jr_fs jr) ! nat n) \<longrightarrow>
     theta (svBulk (svCell (JacResGetEffStrainRate_fl rnd64 lib jr) n))
        = theta_fl rnd64 jr (center_points (jr_fs jr) ! nat n)
   \<and> dxx (svCell (JacResGetEffStrainRate_fl rnd64 lib jr) n)
        = rnd64 (grad_xx_fl rnd64 jr (center_points (jr_fs jr) ! nat n)
            - rnd64 (theta (svBulk (svCell (JacResGetEffStrainRate_fl rnd64 lib jr) n)) / 3))
   \<and> dyy (svCell (JacResGetEffStrainRate_fl rnd64 lib jr) n)
        = rnd64 (grad_yy_fl rnd64 jr (center_points (jr_fs jr) ! nat n)
            - rnd64 (theta (svBulk (svCell (JacResGetEffStrainRate_fl rnd64 lib jr) n)) / 3))
   \<and> dzz (svCell (JacResGetEffStrainRate_fl rnd64 lib jr) n)
        = rnd64 (grad_zz_fl rnd64 jr (center_points (jr_fs jr) ! nat n)
            - rnd64 (theta (svBulk (svCell (JacResGetEffStrainRate_fl rnd64 lib jr) n)) / 3))
   \<and> \<bar>dxx (svCell (JacResGetEffStrainRate_fl rnd64 lib jr) n)
       + dyy (svCell (JacResGetEffStrainRate_fl rnd64 lib jr) n)
       + dzz (svCell (JacResGetEffStrainRate_fl rnd64 lib jr) n)\<bar>
      \<le> 6 / 2 ^ 53 * (\<bar>grad_xx_fl rnd64 jr (center_points (jr_fs jr) ! nat n)\<bar>
                       + \<bar>grad_yy_fl rnd64 jr (center_points (jr_fs jr) ! nat n)\<bar>
                       + \<bar>grad_zz_fl rnd64 jr (center_points (jr_fs jr) ! nat n)\<bar>)"
proof (intro allI impI)
  fix n assume n: "0 \<le> n \<and> n < int (length (center_points (jr_fs jr)))
       \<and> center_ok rnd64 jr (center_points (jr_fs jr) ! nat n)"
  define p where "p = center_points (jr_fs jr) ! nat n"
  define xx where "xx = grad_xx_fl rnd64 jr p"
  define yy where "yy = grad_yy_fl rnd64 jr p"
  define zz where "zz = grad_zz_fl rnd64 jr p"
  have c: "svCell (JacResGetEffStrainRate_fl rnd64 lib jr) n = cell_upd_fl rnd64 jr p (svCell jr n)"
    using JacResGetEffStrainRate_fl_cells[of jr rnd64 lib] n by (simp add: p_def)
  have r: "\<bar>rnd64 x - x\<bar> \<le> 1 / 2 ^ 53 * \<bar>x\<bar>" for x by (rule rnd64_error)
  have b: "\<bar>rnd64 (xx - rnd64 (rnd64 (rnd64 (xx + yy) + zz) / 3))
          + rnd64 (yy - rnd64 (rnd64 (rnd64 (xx + yy) + zz) / 3))
          + rnd64 (zz - rnd64 (rnd64 (rnd64 (xx + yy) + zz) / 3))\<bar>
         \<le> 6 * (1 / 2 ^ 53) * (\<bar>xx\<bar> + \<bar>yy\<bar> + \<bar>zz\<bar>)"
    by (rule trace_bound[OF r]) simp_all
  show "theta (svBulk (svCell (JacResGetEffStrainRate_fl rnd64 lib jr) n))
        = theta_fl rnd64 jr (center_points (jr_fs jr) ! nat n)
   \<and> dxx (svCell (JacResGetEffStrainRate_fl rnd64 lib jr) n)
        = rnd64 (grad_xx_fl rnd64 jr (center_points (jr_fs jr) ! nat n)
            - rnd64 (theta (svBulk (svCell (JacResGetEffStrainRate_fl rnd64 lib jr) n)) / 3))
   \<and> dyy (svCell (JacResGetEffStrainRate_fl rnd64 lib jr) n)
        = rnd64 (grad_yy_fl rnd64 jr (center_points (jr_fs jr) ! nat n)
            - rnd64 (theta (svBulk (svCell (JacResGetEffStrainRate_fl rnd64 lib jr) n)) / 3))
   \<and> dzz (svCell (JacResGetEffStrainRate_fl rnd64 lib jr) n)
        = rnd64 (grad_zz_fl rnd64 jr (center_points (jr_fs jr) ! nat n)
            - rnd64 (theta (svBulk (svCell (JacResGetEffStrainRate_fl rnd64 lib jr) n)) / 3))
   \<and> \<bar>dxx (svCell (JacResGetEffStrainRate_fl rnd64 lib jr) n)
       + dyy (svCell (JacResGetEffStrainRate_fl rnd64 lib jr) n)
       + dzz (svCell (JacResGetEffStrainRate_fl rnd64 lib jr) n)\<bar>
      \<le> 6 / 2 ^ 53 * (\<bar>grad_xx_fl rnd64 jr (center_points (jr_fs jr) ! nat n)\<bar>
                       + \<bar>grad_yy_fl rnd64 jr (center_points (jr_fs jr) ! nat n)\<bar>
                       + \<bar>grad_zz_fl rnd64 jr (center_points (jr_fs jr) ! nat n)\<bar>)"
    unfolding c p_def[symmetric] using b
    by (simp add: cell_upd_fl_def Let_def theta_fl_def xx_def yy_def zz_def)
qed

text \<open>
  The sum is not zero at the second central point of \<open>jr_small\<close>, where the gradients
  are 1/2, 2 and 0: the three stored components add up to \<open>- 1 / 2 ^ 52\<close>, whether the
  sum is taken exactly or in binary64.
\<close>

theorem JacResGetEffStrainRate_trace_counterexample:
  "center_points (jr_fs jr_small) ! 1 = (1, 0, 0) \<and> center_ok rnd64 jr_small (1, 0, 0)
   \<and> dxx (svCell (JacResGetEffStrainRate_fl rnd64 lib_const jr_small) 1)
        = - (3002399751580331 / 2 ^ 53)
   \<and> dyy (svCell (JacResGetEffStrainRate_fl rnd64 lib_const jr_small) 1)
        = 5254199565265578 / 2 ^ 52
   \<and> dzz (svCell (JacResGetEffStrainRate_fl rnd64 lib_const jr_small) 1)
        = - (7505999378950827 / 2 ^ 53)
   \<and> dxx (svCell (JacResGetEffStrainRate_fl rnd64 lib_const jr_small) 1)
       + dyy (svCell (JacResGetEffStrainRate_fl rnd64 lib_const jr_small) 1)
       + dzz (svCell (JacResGetEffStrainRate_fl rnd64 lib_const jr_small) 1) = - (1 / 2 ^ 52)
   \<and> rnd64 (rnd64 (dxx (svCell (JacResGetEffStrainRate_fl rnd64 lib_const jr_small) 1)
                    + dyy (svCell (JacResGetEffStrainRate_fl rnd64 lib_const jr_small) 1))
             + dzz (svCell (JacResGetEffStrainRate_fl rnd64 lib_const jr_small) 1))
       = - (1 / 2 ^ 52)"
proof -
  have c: "svCell (JacResGetEffStrainRate_fl rnd64 lib_const jr_small) 1
      = cell_upd_fl rnd64 jr_small (1, 0, 0) (svCell jr_small 1)"
    using JacResGetEffStrainRate_fl_cells[of jr_small rnd64 lib_const]
    by (simp add: jr_small_points)
  have a: "rnd64 (- (3002399751580331 / 2 ^ 53) + 5254199565265578 / 2 ^ 52)
      = 7505999378950825 / 2 ^ 53"
  proof -
    have "(- (3002399751580331 / 2 ^ 53) + 5254199565265578 / 2 ^ 52 :: real)
        = of_int 7505999378950825 * pow2 (- 53)"
      by (simp add: pow2_def)
    moreover have "rnd64 (of_int 7505999378950825 * pow2 (- 53))
        = of_int 7505999378950825 * pow2 (- 53)"
      by (rule rnd64_exact) simp
    ultimately show ?thesis by (simp add: pow2_def)
  qed
  have b: "rnd64 (7505999378950825 / 2 ^ 53 + - (7505999378950827 / 2 ^ 53)) = - (1 / 2 ^ 52)"
  proof -
    have "(7505999378950825 / 2 ^ 53 + - (7505999378950827 / 2 ^ 53) :: real)
        = of_int (- 1) * pow2 (- 52)"
      by (simp add: pow2_def)
    moreover have "rnd64 (of_int (- 1) * pow2 (- 52)) = of_int (- 1) * pow2 (- 52)"
      by (rule rnd64_exact) simp
    ultimately show ?thesis by (simp add: pow2_def)
  qed
  show ?thesis
    unfolding c jr_small_cell_fl a b using jr_small_ok by (simp add: jr_small_points)
qed

theorem JacResGetEffStrainRate_trace_rounded_witness:
  "(0::int) \<le> 1 \<and> 1 < int (length (center_points (jr_fs jr_small)))
   \<and> center_ok rnd64 jr_small (center_points (jr_fs jr_small) ! nat 1)
   \<and> theta (svBulk (svCell (JacResGetEffStrainRate_fl rnd64 lib_const jr_small) 1)) = 5 / 2
   \<and> \<bar>dxx (svCell (JacResGetEffStrainRate_fl rnd64 lib_const jr_small) 1)
       + dyy (svCell (JacResGetEffStrainRate_fl rnd64 lib_const jr_small) 1)
       + dzz (svCell (JacResGetEffStrainRate_fl rnd64 lib_const jr_small) 1)\<bar>
      \<le> 6 / 2 ^ 53 * (5 / 2)"
proof -
  have p: "center_points (jr_fs jr_small) ! nat 1 = (1, 0, 0)" by (simp add: jr_small_points)
  have h: "(0::int) \<le> 1 \<and> 1 < int (length (center_points (jr_fs jr_small)))
       \<and> center_ok rnd64 jr_small (center_points (jr_fs jr_small) ! nat 1)"
    unfolding p using jr_small_ok by (simp add: jr_small_points)
  note t = JacResGetEffStrainRate_trace_rounded[of jr_small lib_const, rule_format, OF h]
  have a: "theta (svBulk (svCell (JacResGetEffStrainRate_fl rnd64 lib_const jr_small) 1)) = 5 / 2"
    using t[THEN conjunct1] unfolding p jr_small_grad_fl .
  have b: "\<bar>dxx (svCell (JacResGetEffStrainRate_fl rnd64 lib_const jr_small) 1)
       + dyy (svCell (JacResGetEffStrainRate_fl rnd64 lib_const jr_small) 1)
       + dzz (svCell (JacResGetEffStrainRate_fl rnd64 lib_const jr_small) 1)\<bar>
      \<le> 6 / 2 ^ 53 * (5 / 2)"
    using t[THEN conjunct2, THEN conjunct2, THEN conjunct2, THEN conjunct2]
    unfolding p jr_small_grad_fl by simp
  show ?thesis using h a b by blast
qed
section \<open>Properties of Discret1DStretch and FDSTAGStretch\<close>

lemma MeshSeg1DStretch_fold:
  "xstart (fold (\<lambda>i m. m\<lparr>xstart := (xstart m)(i := xstart m i * k)\<rparr>) [a..b] ms)
     = (\<lambda>j. if a \<le> j \<and> j \<le> b then xstart ms j * k else xstart ms j)
   \<and> nsegs (fold (\<lambda>i m. m\<lparr>xstart := (xstart m)(i := xstart m i * k)\<rparr>) [a..b] ms) = nsegs ms
   \<and> istart (fold (\<lambda>i m. m\<lparr>xstart := (xstart m)(i := xstart m i * k)\<rparr>) [a..b] ms) = istart ms
   \<and> biases (fold (\<lambda>i m. m\<lparr>xstart := (xstart m)(i := xstart m i * k)\<rparr>) [a..b] ms) = biases ms"
proof (induction "nat (b - a + 1)" arbitrary: b)
  case 0
  then have "b < a" by simp
  then show ?case by (auto simp: fun_eq_iff)
next
  case (Suc n)
  then have ab: "a \<le> b" and n: "n = nat (b - 1 - a + 1)" by auto
  show ?case using Suc.hyps(1)[OF n] ab
    by (auto simp: upto_rec2[OF ab] fun_eq_iff)
qed

lemma MeshSeg1DStretch_fields:
  "xstart (MeshSeg1DStretch ms eps)
     = (\<lambda>j. if 0 \<le> j \<and> j \<le> nsegs ms then xstart ms j * (1 - eps) else xstart ms j)
   \<and> nsegs (MeshSeg1DStretch ms eps) = nsegs ms
   \<and> istart (MeshSeg1DStretch ms eps) = istart ms
   \<and> biases (MeshSeg1DStretch ms eps) = biases ms"
  unfolding MeshSeg1DStretch_def by (rule MeshSeg1DStretch_fold)

lemma nbuff_fold:
  "fold (\<lambda>i c. c(i - 1 := c (i - 1) * k)) [a..b] (c :: int \<Rightarrow> real)
     = (\<lambda>j. if a - 1 \<le> j \<and> j \<le> b - 1 then c j * k else c j)"
proof (induction "nat (b - a + 1)" arbitrary: b)
  case 0
  then have "b < a" by simp
  then show ?case by (auto simp: fun_eq_iff)
next
  case (Suc n)
  then have ab: "a \<le> b" and n: "n = nat (b - 1 - a + 1)" by auto
  show ?case using ab
    by (auto simp: upto_rec2[OF ab] Suc.hyps(1)[OF n] fun_eq_iff)
qed

lemma Discret1DStretch_fields:
  assumes "Discret1DStretch ds ms eps = (ds', ms')"
  shows "ms' = MeshSeg1DStretch ms eps"
    and "ncoor ds' = (\<lambda>j. if - 1 \<le> j \<and> j \<le> bufsz ds - 2 then ncoor ds j * (1 - eps) else ncoor ds j)"
    and "ccoor ds' = (\<lambda>j. if - 1 \<le> j \<and> j \<le> ncels ds then (ncoor ds' j + ncoor ds' (j + 1)) / 2
                        else ccoor ds j)"
    and "ncels ds' = ncels ds" and "bufsz ds' = bufsz ds" and "nproc ds' = nproc ds"
    and "ds_stats ds' = (if h_uni ds < 0 then (h_uni ds, h_min ds * (1 - eps), h_max ds * (1 - eps))
           else (MeshSeg1DGetUniStep ms', MeshSeg1DGetUniStep ms', MeshSeg1DGetUniStep ms'))"
  using assms
  by (auto simp: Discret1DStretch_def Let_def nbuff_fold fold_upd_upto ds_stats_def fun_eq_iff
      split: if_splits)

lemma GetUniStep_scale:
  "0 \<le> nsegs ms \<Longrightarrow>
   MeshSeg1DGetUniStep (MeshSeg1DStretch ms eps) = (1 - eps) * MeshSeg1DGetUniStep ms"
proof -
  assume ns: "0 \<le> nsegs ms"
  have "xstart (MeshSeg1DStretch ms eps) (nsegs ms) - xstart (MeshSeg1DStretch ms eps) 0
      = (1 - eps) * (xstart ms (nsegs ms) - xstart ms 0)"
    using ns by (simp add: MeshSeg1DStretch_fields algebra_simps)
  then show ?thesis
    by (simp add: MeshSeg1DGetUniStep_def MeshSeg1DStretch_fields)
qed

lemma stats_GetMinMax:
  "ds_stats (Discret1DGetMinMaxCellSize ds ms peers) =
     (if \<bar>snd (global_minmax ds peers) - fst (global_minmax ds peers)\<bar>
           < 1 / 10 ^ 8 * MeshSeg1DGetUniStep ms
      then (MeshSeg1DGetUniStep ms, MeshSeg1DGetUniStep ms, MeshSeg1DGetUniStep ms)
      else (- 1, fst (global_minmax ds peers), snd (global_minmax ds peers)))"
  by (simp add: Discret1DGetMinMaxCellSize_def ds_stats_def global_minmax_def Let_def
      split: prod.splits)

lemma FDSTAGStretch_axes:
  "(dsx (FDSTAGStretch fs Exx Eyy dt), msx (FDSTAGStretch fs Exx Eyy dt))
      = (if Exx \<noteq> 0 then Discret1DStretch (dsx fs) (msx fs) (Exx * dt) else (dsx fs, msx fs))
   \<and> (dsy (FDSTAGStretch fs Exx Eyy dt), msy (FDSTAGStretch fs Exx Eyy dt))
      = (if Eyy \<noteq> 0 then Discret1DStretch (dsy fs) (msy fs) (Eyy * dt) else (dsy fs, msy fs))
   \<and> (dsz (FDSTAGStretch fs Exx Eyy dt), msz (FDSTAGStretch fs Exx Eyy dt))
      = (if - (Exx + Eyy) \<noteq> 0 then Discret1DStretch (dsz fs) (msz fs) (- (Exx + Eyy) * dt)
         else (dsz fs, msz fs))"
  by (simp add: FDSTAGStretch_def Let_def split: prod.splits)

text \<open>
  C8, as corrected. \<open>FDSTAGStretch fs Exx Eyy dt\<close> takes \<open>Ezz = - (Exx + Eyy)\<close> and replaces
  each axis whose rate \<open>E\<close> is not zero by the result of \<open>Discret1DStretch\<close> with
  \<open>eps = E * dt\<close>; an axis whose rate is zero keeps its \<open>Discret1D\<close> and its \<open>MeshSeg1D\<close>
  unchanged. \<open>Discret1DStretch ds ms eps\<close> multiplies every segment breakpoint
  \<open>xstart 0..nsegs\<close> and every stored node coordinate (the whole buffer
  \<open>ncoor (- 1)..ncoor (bufsz - 2)\<close>, ghosts included) by \<open>1 - eps\<close>, and makes every
  cell-center coordinate \<open>ccoor (- 1)..ccoor ncels\<close> the midpoint of its two adjacent node
  coordinates. It does not compute the cell-size statistics of the scaled mesh: when the
  stored \<open>h_uni\<close> is negative (a non-uniform axis) it multiplies the stored \<open>h_min\<close> and
  \<open>h_max\<close> by \<open>1 - eps\<close> and keeps \<open>h_uni\<close>; otherwise it sets \<open>h_uni\<close>, \<open>h_min\<close> and \<open>h_max\<close>
  to the uniform step \<open>MeshSeg1DGetUniStep\<close> of the stretched segment table. Every
  equation below is one assignment of the code, with the operation the code performs.
\<close>

theorem FDSTAGStretch_corrected:
  "(dsx (FDSTAGStretch fs Exx Eyy dt), msx (FDSTAGStretch fs Exx Eyy dt))
      = (if Exx \<noteq> 0 then Discret1DStretch (dsx fs) (msx fs) (Exx * dt) else (dsx fs, msx fs))
   \<and> (dsy (FDSTAGStretch fs Exx Eyy dt), msy (FDSTAGStretch fs Exx Eyy dt))
      = (if Eyy \<noteq> 0 then Discret1DStretch (dsy fs) (msy fs) (Eyy * dt) else (dsy fs, msy fs))
   \<and> (dsz (FDSTAGStretch fs Exx Eyy dt), msz (FDSTAGStretch fs Exx Eyy dt))
      = (if - (Exx + Eyy) \<noteq> 0 then Discret1DStretch (dsz fs) (msz fs) (- (Exx + Eyy) * dt)
         else (dsz fs, msz fs))
   \<and> (\<forall>ds' ms'. Discret1DStretch ds ms eps = (ds', ms') \<longrightarrow>
         (\<forall>i. 0 \<le> i \<and> i \<le> nsegs ms \<longrightarrow> xstart ms' i = xstart ms i * (1 - eps))
       \<and> (\<forall>i. - 1 \<le> i \<and> i \<le> bufsz ds - 2 \<longrightarrow> ncoor ds' i = ncoor ds i * (1 - eps))
       \<and> (\<forall>i. - 1 \<le> i \<and> i \<le> ncels ds \<longrightarrow> ccoor ds' i = (ncoor ds' i + ncoor ds' (i + 1)) / 2)
       \<and> (h_uni ds < 0 \<longrightarrow>
            h_uni ds' = h_uni ds \<and> h_min ds' = h_min ds * (1 - eps)
            \<and> h_max ds' = h_max ds * (1 - eps))
       \<and> (\<not> h_uni ds < 0 \<longrightarrow>
            h_uni ds' = MeshSeg1DGetUniStep ms' \<and> h_min ds' = MeshSeg1DGetUniStep ms'
            \<and> h_max ds' = MeshSeg1DGetUniStep ms'))"
proof -
  have "(\<forall>i. 0 \<le> i \<and> i \<le> nsegs ms \<longrightarrow> xstart ms' i = xstart ms i * (1 - eps))
       \<and> (\<forall>i. - 1 \<le> i \<and> i \<le> bufsz ds - 2 \<longrightarrow> ncoor ds' i = ncoor ds i * (1 - eps))
       \<and> (\<forall>i. - 1 \<le> i \<and> i \<le> ncels ds \<longrightarrow> ccoor ds' i = (ncoor ds' i + ncoor ds' (i + 1)) / 2)
       \<and> (h_uni ds < 0 \<longrightarrow>
            h_uni ds' = h_uni ds \<and> h_min ds' = h_min ds * (1 - eps)
            \<and> h_max ds' = h_max ds * (1 - eps))
       \<and> (\<not> h_uni ds < 0 \<longrightarrow>
            h_uni ds' = MeshSeg1DGetUniStep ms' \<and> h_min ds' = MeshSeg1DGetUniStep ms'
            \<and> h_max ds' = MeshSeg1DGetUniStep ms')"
    if st: "Discret1DStretch ds ms eps = (ds', ms')" for ds' ms'
  proof (intro conjI allI impI)
    fix i assume "0 \<le> i \<and> i \<le> nsegs ms"
    then show "xstart ms' i = xstart ms i * (1 - eps)"
      by (simp add: Discret1DStretch_fields(1)[OF st] MeshSeg1DStretch_fields)
  next
    fix i assume "- 1 \<le> i \<and> i \<le> bufsz ds - 2"
    then show "ncoor ds' i = ncoor ds i * (1 - eps)"
      by (simp add: Discret1DStretch_fields(2)[OF st])
  next
    fix i assume "- 1 \<le> i \<and> i \<le> ncels ds"
    then show "ccoor ds' i = (ncoor ds' i + ncoor ds' (i + 1)) / 2"
      by (simp add: Discret1DStretch_fields(3)[OF st])
  next
    assume "h_uni ds < 0"
    with Discret1DStretch_fields(7)[OF st]
    show "h_uni ds' = h_uni ds" "h_min ds' = h_min ds * (1 - eps)"
      "h_max ds' = h_max ds * (1 - eps)"
      by (simp_all add: ds_stats_def)
  next
    assume "\<not> h_uni ds < 0"
    with Discret1DStretch_fields(7)[OF st]
    show "h_uni ds' = MeshSeg1DGetUniStep ms'" "h_min ds' = MeshSeg1DGetUniStep ms'"
      "h_max ds' = MeshSeg1DGetUniStep ms'"
      by (simp_all add: ds_stats_def)
  qed
  with FDSTAGStretch_axes[of fs Exx Eyy dt] show ?thesis by blast
qed

lemma local_minmax_nonuni: "local_minmax ds_nonuni = (1, 2)"
  by (simp add: local_minmax_def ds_nonuni_def SIZE_CELL_def minmax_step_def upto_rec1)

lemma GetUniStep_nonuni: "MeshSeg1DGetUniStep ms_nonuni = 3 / 2"
  by (simp add: MeshSeg1DGetUniStep_def ms_nonuni_def)

lemma stats_nonuni:
  "ds_stats ds_nonuni = (- 1, 1, 2)"
  "ds_stats (Discret1DGetMinMaxCellSize ds_nonuni ms_nonuni []) = (- 1, 1, 2)"
proof -
  show "ds_stats ds_nonuni = (- 1, 1, 2)" by (simp add: ds_stats_def ds_nonuni_def)
  have np: "nproc ds_nonuni = 1" by (simp add: ds_nonuni_def)
  have "global_minmax ds_nonuni [] = (1, 2)"
    by (simp add: global_minmax_def local_minmax_nonuni np)
  then show "ds_stats (Discret1DGetMinMaxCellSize ds_nonuni ms_nonuni []) = (- 1, 1, 2)"
    by (simp add: stats_GetMinMax GetUniStep_nonuni)
qed


lemma Stretch_nonuni_two:
  "ncoor (fst (Discret1DStretch ds_nonuni ms_nonuni 2)) 0 = 0"
  "ncoor (fst (Discret1DStretch ds_nonuni ms_nonuni 2)) 1 = - 1"
  "ncoor (fst (Discret1DStretch ds_nonuni ms_nonuni 2)) 2 = - 3"
  "ncels (fst (Discret1DStretch ds_nonuni ms_nonuni 2)) = 2"
  "nproc (fst (Discret1DStretch ds_nonuni ms_nonuni 2)) = 1"
  "ds_stats (fst (Discret1DStretch ds_nonuni ms_nonuni 2)) = (- 1, - 1, - 2)"
  "MeshSeg1DGetUniStep (snd (Discret1DStretch ds_nonuni ms_nonuni 2)) = - (3 / 2)"
proof -
  obtain ds' ms' where st: "Discret1DStretch ds_nonuni ms_nonuni 2 = (ds', ms')"
    by (cases "Discret1DStretch ds_nonuni ms_nonuni 2")
  note f = Discret1DStretch_fields[OF st]
  have b: "bufsz ds_nonuni = 5" "ncels ds_nonuni = 2" "nproc ds_nonuni = 1"
    "h_uni ds_nonuni = - 1" "h_min ds_nonuni = 1" "h_max ds_nonuni = 2"
    "ncoor ds_nonuni 0 = 0" "ncoor ds_nonuni 1 = 1" "ncoor ds_nonuni 2 = 3"
    by (simp_all add: ds_nonuni_def)
  show "ncoor (fst (Discret1DStretch ds_nonuni ms_nonuni 2)) 0 = 0"
    "ncoor (fst (Discret1DStretch ds_nonuni ms_nonuni 2)) 1 = - 1"
    "ncoor (fst (Discret1DStretch ds_nonuni ms_nonuni 2)) 2 = - 3"
    "ncels (fst (Discret1DStretch ds_nonuni ms_nonuni 2)) = 2"
    "nproc (fst (Discret1DStretch ds_nonuni ms_nonuni 2)) = 1"
    "ds_stats (fst (Discret1DStretch ds_nonuni ms_nonuni 2)) = (- 1, - 1, - 2)"
    by (simp_all add: st f b)
  have "0 \<le> nsegs ms_nonuni" by (simp add: ms_nonuni_def)
  from GetUniStep_scale[OF this, of 2] show
    "MeshSeg1DGetUniStep (snd (Discret1DStretch ds_nonuni ms_nonuni 2)) = - (3 / 2)"
    by (simp add: st f(1) GetUniStep_nonuni)
qed

text \<open>
  The stored statistics are not those of the scaled mesh for \<open>eps > 1\<close>, which turns the
  axis around: with \<open>Exx = 2\<close> and \<open>dt = 1\<close> the nodes \<open>0, 1, 3\<close> become \<open>0, - 1, - 3\<close>,
  whose cell sizes are \<open>- 1\<close> and \<open>- 2\<close>; the call stores \<open>h_min = - 1\<close> and
  \<open>h_max = - 2\<close>, while \<open>Discret1DGetMinMaxCellSize\<close> computes \<open>h_min = - 2\<close> and
  \<open>h_max = - 1\<close> on the scaled mesh. Every number of this example is a small integer or a
  half, so the same values arise in double precision.
\<close>

theorem Discret1DStretch_inverting_counterexample:
  "ds_stats ds_nonuni = ds_stats (Discret1DGetMinMaxCellSize ds_nonuni ms_nonuni [])
   \<and> dsx (FDSTAGStretch fs_nonuni 2 (- 2) 1) = fst (Discret1DStretch ds_nonuni ms_nonuni 2)
   \<and> msx (FDSTAGStretch fs_nonuni 2 (- 2) 1) = snd (Discret1DStretch ds_nonuni ms_nonuni 2)
   \<and> ds_stats (dsx (FDSTAGStretch fs_nonuni 2 (- 2) 1)) = (- 1, - 1, - 2)
   \<and> ds_stats (Discret1DGetMinMaxCellSize (dsx (FDSTAGStretch fs_nonuni 2 (- 2) 1))
        (msx (FDSTAGStretch fs_nonuni 2 (- 2) 1)) []) = (- 1, - 2, - 1)"
proof -
  have ax: "dsx (FDSTAGStretch fs_nonuni 2 (- 2) 1) = fst (Discret1DStretch ds_nonuni ms_nonuni 2)"
    "msx (FDSTAGStretch fs_nonuni 2 (- 2) 1) = snd (Discret1DStretch ds_nonuni ms_nonuni 2)"
    using FDSTAGStretch_axes[of fs_nonuni 2 "- 2" 1]
    by (simp_all add: fs_nonuni_def prod_eq_iff)
  have l: "local_minmax (fst (Discret1DStretch ds_nonuni ms_nonuni 2)) = (- 2, - 1)"
    by (simp add: local_minmax_def SIZE_CELL_def minmax_step_def upto_rec1 Stretch_nonuni_two)
  have g: "global_minmax (fst (Discret1DStretch ds_nonuni ms_nonuni 2)) [] = (- 2, - 1)"
    by (simp add: global_minmax_def l Stretch_nonuni_two)
  have "ds_stats (Discret1DGetMinMaxCellSize (fst (Discret1DStretch ds_nonuni ms_nonuni 2))
        (snd (Discret1DStretch ds_nonuni ms_nonuni 2)) []) = (- 1, - 2, - 1)"
    by (simp add: stats_GetMinMax g Stretch_nonuni_two)
  then show ?thesis by (simp add: ax stats_nonuni Stretch_nonuni_two)
qed

theorem FDSTAGStretch_corrected_witness:
  "h_uni ds_nonuni < 0 \<and> \<not> h_uni ds_uni < 0
   \<and> ds_stats (fst (Discret1DStretch ds_nonuni ms_nonuni (1 / 2))) = (- 1, 1 / 2, 1)
   \<and> ncoor (fst (Discret1DStretch ds_nonuni ms_nonuni (1 / 2))) 2 = 3 / 2
   \<and> ccoor (fst (Discret1DStretch ds_nonuni ms_nonuni (1 / 2))) 1 = 1
   \<and> xstart (snd (Discret1DStretch ds_nonuni ms_nonuni (1 / 2))) 2 = 3 / 2
   \<and> ds_stats (fst (Discret1DStretch ds_uni ms_uni (1 / 2))) = (1 / 2, 1 / 2, 1 / 2)
   \<and> dsx (FDSTAGStretch fs_nonuni 1 (- 1) (1 / 2)) = fst (Discret1DStretch ds_nonuni ms_nonuni (1 / 2))
   \<and> dsz (FDSTAGStretch fs_nonuni 1 (- 1) (1 / 2)) = ds_nonuni
   \<and> msz (FDSTAGStretch fs_nonuni 1 (- 1) (1 / 2)) = ms_nonuni"
proof -
  obtain ds' ms' where st: "Discret1DStretch ds_nonuni ms_nonuni (1 / 2) = (ds', ms')"
    by (cases "Discret1DStretch ds_nonuni ms_nonuni (1 / 2)")
  obtain du' mu' where su: "Discret1DStretch ds_uni ms_uni (1 / 2) = (du', mu')"
    by (cases "Discret1DStretch ds_uni ms_uni (1 / 2)")
  have b: "bufsz ds_nonuni = 5" "ncels ds_nonuni = 2" "nsegs ms_nonuni = 2"
    "ncoor ds_nonuni 1 = 1" "ncoor ds_nonuni 2 = 3" "xstart ms_nonuni 2 = 3"
    "h_uni ds_nonuni = - 1" "h_min ds_nonuni = 1" "h_max ds_nonuni = 2"
    by (simp_all add: ds_nonuni_def ms_nonuni_def)
  have u: "h_uni ds_uni = 1" "nsegs ms_uni = 1" "xstart ms_uni 0 = 0" "xstart ms_uni 1 = 2"
    "istart ms_uni 1 = 2"
    by (simp_all add: ds_uni_def ms_uni_def)
  note t = FDSTAGStretch_corrected[of fs_nonuni 1 "- 1" "1 / 2" ds_nonuni ms_nonuni "1 / 2"]
  note tu = FDSTAGStretch_corrected[of fs_nonuni 1 "- 1" "1 / 2" ds_uni ms_uni "1 / 2"]
  from t st have ax:
    "dsx (FDSTAGStretch fs_nonuni 1 (- 1) (1 / 2)) = ds'"
    "dsz (FDSTAGStretch fs_nonuni 1 (- 1) (1 / 2)) = ds_nonuni"
    "msz (FDSTAGStretch fs_nonuni 1 (- 1) (1 / 2)) = ms_nonuni"
    by (simp_all add: fs_nonuni_def prod_eq_iff)
  from t st have q:
    "\<forall>i. 0 \<le> i \<and> i \<le> nsegs ms_nonuni \<longrightarrow> xstart ms' i = xstart ms_nonuni i * (1 - 1 / 2)"
    "\<forall>i. - 1 \<le> i \<and> i \<le> bufsz ds_nonuni - 2 \<longrightarrow> ncoor ds' i = ncoor ds_nonuni i * (1 - 1 / 2)"
    "\<forall>i. - 1 \<le> i \<and> i \<le> ncels ds_nonuni \<longrightarrow> ccoor ds' i = (ncoor ds' i + ncoor ds' (i + 1)) / 2"
    "h_uni ds' = h_uni ds_nonuni" "h_min ds' = h_min ds_nonuni * (1 - 1 / 2)"
    "h_max ds' = h_max ds_nonuni * (1 - 1 / 2)"
    using b by simp_all
  from tu su have qu:
    "\<forall>i. 0 \<le> i \<and> i \<le> nsegs ms_uni \<longrightarrow> xstart mu' i = xstart ms_uni i * (1 - 1 / 2)"
    "h_uni du' = MeshSeg1DGetUniStep mu'" "h_min du' = MeshSeg1DGetUniStep mu'"
    "h_max du' = MeshSeg1DGetUniStep mu'"
    using u by simp_all
  have n: "ncoor ds' 1 = 1 / 2" "ncoor ds' 2 = 3 / 2" using q(2) b by simp_all
  have c: "ccoor ds' 1 = 1" using q(3)[rule_format, of 1] b n by simp
  have x: "xstart ms' 2 = 3 / 2" using q(1)[rule_format, of 2] b by simp
  have s: "ds_stats ds' = (- 1, 1 / 2, 1)" using q(4-6) b by (simp add: ds_stats_def)
  have mu: "nsegs mu' = 1" "istart mu' = istart ms_uni"
    using Discret1DStretch_fields(1)[OF su] by (simp_all add: MeshSeg1DStretch_fields u)
  have "xstart mu' 0 = 0" "xstart mu' 1 = 1"
    using qu(1)[rule_format, of 0] qu(1)[rule_format, of 1] u by simp_all
  then have "MeshSeg1DGetUniStep mu' = 1 / 2"
    by (simp add: MeshSeg1DGetUniStep_def mu u)
  then have s': "ds_stats du' = (1 / 2, 1 / 2, 1 / 2)" using qu(2-4) by (simp add: ds_stats_def)
  show ?thesis using n c x s s' ax b u by (simp add: st su)
qed
section \<open>The residual\<close>

text \<open>
  C2. For arbitrary real strain-rate arrays and indices, the second invariant that
  \<^verbatim>\<open>JacResGetResidual\<close> computes at a central point and at an xy, xz and yz edge point is
  non-negative, so the square root stored in \<^verbatim>\<open>DII\<close> is the root of a non-negative
  number: its square is the invariant.
\<close>

theorem J2Inv_nonneg:
  "0 \<le> J2Inv_center axx ayy azz axy axz ayz i j k
   \<and> 0 \<le> J2Inv_xy axx ayy azz axy axz ayz mx my i j k
   \<and> 0 \<le> J2Inv_xz axx ayy azz axy axz ayz mx mz i j k
   \<and> 0 \<le> J2Inv_yz axx ayy azz axy axz ayz my mz i j k
   \<and> (sqrt (J2Inv_center axx ayy azz axy axz ayz i j k))\<^sup>2
        = J2Inv_center axx ayy azz axy axz ayz i j k
   \<and> (sqrt (J2Inv_xy axx ayy azz axy axz ayz mx my i j k))\<^sup>2
        = J2Inv_xy axx ayy azz axy axz ayz mx my i j k
   \<and> (sqrt (J2Inv_xz axx ayy azz axy axz ayz mx mz i j k))\<^sup>2
        = J2Inv_xz axx ayy azz axy axz ayz mx mz i j k
   \<and> (sqrt (J2Inv_yz axx ayy azz axy axz ayz my mz i j k))\<^sup>2
        = J2Inv_yz axx ayy azz axy axz ayz my mz i j k"
proof -
  have c: "0 \<le> J2Inv_center axx ayy azz axy axz ayz i j k"
    by (simp add: J2Inv_center_def Let_def)
  have xy: "0 \<le> J2Inv_xy axx ayy azz axy axz ayz mx my i j k"
    by (simp add: J2Inv_xy_def Let_def)
  have xz: "0 \<le> J2Inv_xz axx ayy azz axy axz ayz mx mz i j k"
    by (simp add: J2Inv_xz_def Let_def)
  have yz: "0 \<le> J2Inv_yz axx ayy azz axy axz ayz my mz i j k"
    by (simp add: J2Inv_yz_def Let_def)
  from c xy xz yz show ?thesis by simp
qed

lemma res_center_step:
  assumes "Residual_center lib (i, j, k) (it, jr) = Inr (it', jr')"
  shows "it' = it + 1 \<and> res_frame jr jr' \<and> (\<forall>m. m \<noteq> it \<longrightarrow> svCell jr' m = svCell jr m)
    \<and> theta (svBulk (svCell jr' it)) = theta (svBulk (svCell jr it))
    \<and> (VolConstEq lib (svBulk (svCell jr it)) (numPhases jr) (phases jr) (phRat (svCell jr it))
                 (matLim jr) (ts_dt (jr_ts jr)) (lp jr k j i) (lT jr k j i)
               = Inr (rho (svBulk (svCell jr' it)), IKdt (svBulk (svCell jr' it)),
                      alpha (svBulk (svCell jr' it)), pn (svBulk (svCell jr' it)),
                      Tn (svBulk (svCell jr' it))))
    \<and> gc jr' = upd3 (gc jr) k j i
         (- IKdt (svBulk (svCell jr' it)) * (lp jr k j i - pn (svBulk (svCell jr' it)))
          - theta (svBulk (svCell jr' it))
          + alpha (svBulk (svCell jr' it)) * (lT jr k j i - Tn (svBulk (svCell jr' it)))
            / ts_dt (jr_ts jr))"
  using assms
  apply (simp add: Residual_center_def Let_def ebind_def split: sum.splits prod.splits)
  apply (auto simp: res_frame_def)
  done


lemma res_frame_refl: "res_frame jr jr"
  by (simp add: res_frame_def)

lemma res_frame_trans: "res_frame a b \<Longrightarrow> res_frame b c \<Longrightarrow> res_frame a c"
  by (simp add: res_frame_def)

lemma res_frame_funs:
  "res_frame jr jr' \<Longrightarrow> vol_of lib jr' = vol_of lib jr \<and> cont_res jr' = cont_res jr"
  by (simp add: res_frame_def vol_of_def cont_res_def fun_eq_iff)

lemma res_center_step':
  assumes "Residual_center lib p (it, jr) = Inr (it', jr')"
  shows "it' = it + 1 \<and> res_frame jr jr' \<and> (\<forall>m. m \<noteq> it \<longrightarrow> svCell jr' m = svCell jr m)
    \<and> theta (svBulk (svCell jr' it)) = theta (svBulk (svCell jr it))
    \<and> vol_of lib jr p (svBulk (svCell jr' it))
    \<and> gc_at jr' p = cont_res jr p (svBulk (svCell jr' it))
    \<and> (\<forall>q. q \<noteq> p \<longrightarrow> gc_at jr' q = gc_at jr q)"
proof -
  obtain i j k where p: "p = (i, j, k)" by (cases p)
  note s = res_center_step[OF assms[unfolded p]]
  have "vol_of lib jr p (svBulk (svCell jr' it))"
    unfolding vol_of_def p using s by blast
  moreover have "gc_at jr' p = cont_res jr p (svBulk (svCell jr' it))"
    using s by (simp add: gc_at_def cont_res_def p upd3_def)
  moreover have "\<forall>q. q \<noteq> p \<longrightarrow> gc_at jr' q = gc_at jr q"
    using s by (auto simp: gc_at_def p upd3_def)
  ultimately show ?thesis using s by simp
qed

lemma res_center_loop:
  "efold (Residual_center lib) xs (it, jr) = Inr (it', jr') \<Longrightarrow>
   it' = it + int (length xs) \<and> res_frame jr jr' \<and>
   (\<forall>m. \<not> (it \<le> m \<and> m < it + int (length xs)) \<longrightarrow> svCell jr' m = svCell jr m) \<and>
   (\<forall>q. q \<notin> set xs \<longrightarrow> gc_at jr' q = gc_at jr q) \<and>
   (\<forall>m. it \<le> m \<and> m < it + int (length xs) \<longrightarrow>
        theta (svBulk (svCell jr' m)) = theta (svBulk (svCell jr m)) \<and>
        vol_of lib jr (xs ! nat (m - it)) (svBulk (svCell jr' m)) \<and>
        (distinct xs \<longrightarrow> gc_at jr' (xs ! nat (m - it)) = cont_res jr (xs ! nat (m - it)) (svBulk (svCell jr' m))))"
proof (induction xs arbitrary: it jr)
  case Nil
  then show ?case by (auto simp: res_frame_def)
next
  case (Cons x xs)
  from Cons.prems obtain it1 jr1 where s1: "Residual_center lib x (it, jr) = Inr (it1, jr1)"
    and r: "efold (Residual_center lib) xs (it1, jr1) = Inr (it', jr')"
    by (auto split: sum.splits)
  note c = res_center_step'[OF s1]
  note ih = Cons.IH[OF r]
  from c have it1: "it1 = it + 1" by simp
  from c have f: "vol_of lib jr1 = vol_of lib jr" "cont_res jr1 = cont_res jr"
    using res_frame_funs[of jr jr1 lib] by simp_all
  have fr: "res_frame jr jr'" using c ih res_frame_trans by blast
  have len: "it' = it + int (length (x # xs))" using ih it1 by simp
  have out: "svCell jr' m = svCell jr m" if "\<not> (it \<le> m \<and> m < it + int (length (x # xs)))" for m
    using that ih c it1 by auto
  have gout: "gc_at jr' q = gc_at jr q" if "q \<notin> set (x # xs)" for q
  proof -
    from that have "q \<notin> set xs" "q \<noteq> x" by auto
    then have "gc_at jr' q = gc_at jr1 q" "gc_at jr1 q = gc_at jr q" using ih c by blast+
    then show ?thesis by simp
  qed
  have inn: "theta (svBulk (svCell jr' m)) = theta (svBulk (svCell jr m)) \<and>
        vol_of lib jr ((x # xs) ! nat (m - it)) (svBulk (svCell jr' m)) \<and>
        (distinct (x # xs) \<longrightarrow> gc_at jr' ((x # xs) ! nat (m - it))
            = cont_res jr ((x # xs) ! nat (m - it)) (svBulk (svCell jr' m)))"
    if m: "it \<le> m \<and> m < it + int (length (x # xs))" for m
  proof (cases "m = it")
    case True
    have a: "svCell jr' it = svCell jr1 it" using ih it1 by simp
    have "\<forall>q. q \<notin> set xs \<longrightarrow> gc_at jr' q = gc_at jr1 q" using ih by blast
    then have b: "distinct (x # xs) \<longrightarrow> gc_at jr' x = gc_at jr1 x" by (cases x) auto
    show ?thesis using c a b by (simp add: True)
  next
    case False
    have n: "nat (m - it) = Suc (nat (m - it1))" using m False it1 by auto
    have m1: "it1 \<le> m \<and> m < it1 + int (length xs)" using m False it1 by simp
    have "svCell jr1 m = svCell jr m" using c False by simp
    then show ?thesis using ih m1 by (simp add: n f)
  qed
  from len fr out gout inn show ?case by blast
qed

lemma efold_invariant:
  "(\<And>x s s'. x \<in> set xs \<Longrightarrow> P s \<Longrightarrow> f x s = Inr s' \<Longrightarrow> P s') \<Longrightarrow> P s \<Longrightarrow>
     efold f xs s = Inr s' \<Longrightarrow> P s'"
proof (induction xs arbitrary: s)
  case Nil
  then show ?case by simp
next
  case (Cons x xs)
  from Cons.prems(3) obtain s1 where s1: "f x s = Inr s1" and r: "efold f xs s1 = Inr s'"
    by (auto split: sum.splits)
  have "P s1" using Cons.prems(1)[of x s s1] Cons.prems(2) s1 by simp
  then show ?case using Cons.IH[of s1] Cons.prems(1) r by auto
qed

lemma efold_total:
  "(\<And>x s. \<exists>s'. f x s = Inr s') \<Longrightarrow> \<exists>s'. efold f xs s = Inr s'"
proof (induction xs arbitrary: s)
  case Nil
  then show ?case by simp
next
  case (Cons x xs)
  from Cons.prems obtain s1 where "f x s = Inr s1" by blast
  then show ?case using Cons.IH[of s1] Cons.prems by simp
qed

lemma res_edge_steps:
  "Residual_xy lib p s = Inr s' \<Longrightarrow>
     svCell (snd s') = svCell (snd s) \<and> gc (snd s') = gc (snd s) \<and> res_frame (snd s) (snd s')"
  "Residual_xz lib p s = Inr s' \<Longrightarrow>
     svCell (snd s') = svCell (snd s) \<and> gc (snd s') = gc (snd s) \<and> res_frame (snd s) (snd s')"
  "Residual_yz lib p s = Inr s' \<Longrightarrow>
     svCell (snd s') = svCell (snd s) \<and> gc (snd s') = gc (snd s) \<and> res_frame (snd s) (snd s')"
  by (cases p; cases s;
      auto simp: Residual_xy_def Residual_xz_def Residual_yz_def Let_def ebind_def res_frame_def
        split: sum.splits prod.splits)+

lemma res_edge_loop:
  assumes step: "\<And>p s s'. f p s = Inr s' \<Longrightarrow>
     svCell (snd s') = svCell (snd s) \<and> gc (snd s') = gc (snd s) \<and> res_frame (snd s) (snd s')"
    and run: "efold f xs s = Inr s'"
  shows "svCell (snd s') = svCell (snd s) \<and> gc (snd s') = gc (snd s) \<and> res_frame (snd s) (snd s')"
proof (rule efold_invariant[where P = "\<lambda>u. svCell (snd u) = svCell (snd s) \<and> gc (snd u) = gc (snd s)
      \<and> res_frame (snd s) (snd u)" and f = f and xs = xs and s = s, OF _ _ run])
  show "svCell (snd s) = svCell (snd s) \<and> gc (snd s) = gc (snd s) \<and> res_frame (snd s) (snd s)"
    by (simp add: res_frame_refl)
next
  fix x u u'
  assume "svCell (snd u) = svCell (snd s) \<and> gc (snd u) = gc (snd s) \<and> res_frame (snd s) (snd u)"
    and "f x u = Inr u'"
  then show "svCell (snd u') = svCell (snd s) \<and> gc (snd u') = gc (snd s) \<and> res_frame (snd s) (snd u')"
    using step res_frame_trans by metis
qed

lemma distinct_concat_map:
  "distinct ks \<Longrightarrow> (\<And>k. k \<in> set ks \<Longrightarrow> distinct (f k)) \<Longrightarrow>
   (\<And>k k'. k \<in> set ks \<Longrightarrow> k' \<in> set ks \<Longrightarrow> k \<noteq> k' \<Longrightarrow> set (f k) \<inter> set (f k') = {}) \<Longrightarrow>
   distinct (concat (map f ks))"
proof (induction ks)
  case Nil
  then show ?case by simp
next
  case (Cons k ks)
  have "distinct (concat (map f ks))" using Cons by simp
  moreover have "distinct (f k)" using Cons.prems(2) by simp
  moreover have "set (f k) \<inter> set (f k') = {}" if "k' \<in> set ks" for k'
    using Cons.prems(1) Cons.prems(3)[of k k'] that by auto
  ultimately show ?case by auto
qed

lemma distinct_STD_LOOP: "distinct (STD_LOOP rx ry rz)"
proof -
  obtain nx sx ny sy nz sz where r: "rx = (nx, sx)" "ry = (ny, sy)" "rz = (nz, sz)"
    by (cases rx; cases ry; cases rz) simp
  have inner: "distinct (concat (map (\<lambda>j. map (\<lambda>i. (i, j, k)) [sx..sx + nx - 1]) [sy..sy + ny - 1]))"
    for k :: int
    by (rule distinct_concat_map) (auto simp: distinct_map inj_on_def)
  show ?thesis
    unfolding STD_LOOP_def r prod.case
    by (rule distinct_concat_map) (auto simp: inner)
qed

lemma never_fails_D:
  assumes "never_fails lib"
  shows "DevConstEq lib a b c d e f g h \<noteq> Inl x" "VolConstEq lib sb b c d e f g h \<noteq> Inl x"
    "GetStressCell lib sc l xx yy zz \<noteq> Inl x" "GetStressEdge lib se l xx \<noteq> Inl x"
proof -
  have "\<exists>r. DevConstEq lib a b c d e f g h = Inr r"
    using assms by (simp add: never_fails_def)
  then show "DevConstEq lib a b c d e f g h \<noteq> Inl x" by auto
  have "\<exists>r. VolConstEq lib sb b c d e f g h = Inr r"
    using assms by (simp add: never_fails_def)
  then show "VolConstEq lib sb b c d e f g h \<noteq> Inl x" by auto
  have "\<exists>r. GetStressCell lib sc l xx yy zz = Inr r"
    using assms by (simp add: never_fails_def)
  then show "GetStressCell lib sc l xx yy zz \<noteq> Inl x" by auto
  have "\<exists>r. GetStressEdge lib se l xx = Inr r"
    using assms by (simp add: never_fails_def)
  then show "GetStressEdge lib se l xx \<noteq> Inl x" by auto
qed


lemma res_center_total:
  assumes "never_fails lib"
  shows "\<exists>s'. Residual_center lib p s = Inr s'"
  by (cases p; cases s)
     (simp add: Residual_center_def Let_def ebind_def never_fails_D[OF assms]
        split: sum.splits prod.splits)

lemma res_edge_total:
  assumes "never_fails lib"
  shows "\<exists>s'. Residual_xy lib p s = Inr s'"
    "\<exists>s'. Residual_xz lib p s = Inr s'" "\<exists>s'. Residual_yz lib p s = Inr s'"
  by (cases p; cases s;
      simp add: Residual_xy_def Residual_xz_def Residual_yz_def Let_def
        ebind_def never_fails_D[OF assms] split: sum.splits prod.splits)+

lemma JacResGetResidual_unfold:
  assumes s1: "efold (Residual_center lib) (center_points (jr_fs jr))
                 (0, jr\<lparr>lfx := (\<lambda>_ _ _. 0), lfy := (\<lambda>_ _ _. 0), lfz := (\<lambda>_ _ _. 0)\<rparr>) = Inr (i1, jr1)"
    and s2: "efold (Residual_xy lib) (xy_points (jr_fs jr)) (0, jr1) = Inr (i2, jr2)"
    and s3: "efold (Residual_xz lib) (xz_points (jr_fs jr)) (0, jr2) = Inr (i3, jr3)"
    and s4: "efold (Residual_yz lib) (yz_points (jr_fs jr)) (0, jr3) = Inr (i4, jr4)"
  shows "JacResGetResidual lib jr =
     Inr (jr4\<lparr>gfx := LOCAL_TO_GLOBAL lib (DA_X (jr_fs jr)) (lfx jr4),
              gfy := LOCAL_TO_GLOBAL lib (DA_Y (jr_fs jr)) (lfy jr4),
              gfz := LOCAL_TO_GLOBAL lib (DA_Z (jr_fs jr)) (lfz jr4)\<rparr>)"
  by (simp add: JacResGetResidual_def Let_def ebind_def s1 s2 s3 s4)

lemma JacResGetResidual_Inr:
  assumes "JacResGetResidual lib jr = Inr jr'"
  shows "\<exists>i1 jr1 i2 jr2 i3 jr3 i4 jr4.
     efold (Residual_center lib) (center_points (jr_fs jr))
        (0, jr\<lparr>lfx := (\<lambda>_ _ _. 0), lfy := (\<lambda>_ _ _. 0), lfz := (\<lambda>_ _ _. 0)\<rparr>) = Inr (i1, jr1)
     \<and> efold (Residual_xy lib) (xy_points (jr_fs jr)) (0, jr1) = Inr (i2, jr2)
     \<and> efold (Residual_xz lib) (xz_points (jr_fs jr)) (0, jr2) = Inr (i3, jr3)
     \<and> efold (Residual_yz lib) (yz_points (jr_fs jr)) (0, jr3) = Inr (i4, jr4)
     \<and> jr' = jr4\<lparr>gfx := LOCAL_TO_GLOBAL lib (DA_X (jr_fs jr)) (lfx jr4),
              gfy := LOCAL_TO_GLOBAL lib (DA_Y (jr_fs jr)) (lfy jr4),
              gfz := LOCAL_TO_GLOBAL lib (DA_Z (jr_fs jr)) (lfz jr4)\<rparr>"
  using assms
  by (auto simp: JacResGetResidual_def Let_def ebind_def split: sum.splits prod.splits)

lemma JacResGetResidual_total:
  assumes "never_fails lib"
  shows "\<exists>jr'. JacResGetResidual lib jr = Inr jr'"
proof -
  obtain i1 jr1 where s1: "efold (Residual_center lib) (center_points (jr_fs jr))
       (0, jr\<lparr>lfx := (\<lambda>_ _ _. 0), lfy := (\<lambda>_ _ _. 0), lfz := (\<lambda>_ _ _. 0)\<rparr>) = Inr (i1, jr1)"
    using efold_total[of "Residual_center lib"] res_center_total[OF assms] by (metis surj_pair)
  obtain i2 jr2 where s2: "efold (Residual_xy lib) (xy_points (jr_fs jr)) (0, jr1) = Inr (i2, jr2)"
    using efold_total[of "Residual_xy lib"] res_edge_total(1)[OF assms] by (metis surj_pair)
  obtain i3 jr3 where s3: "efold (Residual_xz lib) (xz_points (jr_fs jr)) (0, jr2) = Inr (i3, jr3)"
    using efold_total[of "Residual_xz lib"] res_edge_total(2)[OF assms] by (metis surj_pair)
  obtain i4 jr4 where s4: "efold (Residual_yz lib) (yz_points (jr_fs jr)) (0, jr3) = Inr (i4, jr4)"
    using efold_total[of "Residual_yz lib"] res_edge_total(3)[OF assms] by (metis surj_pair)
  show ?thesis using JacResGetResidual_unfold[OF s1 s2 s3 s4] by simp
qed

lemma JacResGetResidual_cells:
  assumes run: "JacResGetResidual lib jr = Inr jr'"
    and n: "0 \<le> n" "n < int (length (center_points (jr_fs jr)))"
  shows "res_frame jr jr'
    \<and> theta (svBulk (svCell jr' n)) = theta (svBulk (svCell jr n))
    \<and> vol_of lib jr (center_points (jr_fs jr) ! nat n) (svBulk (svCell jr' n))
    \<and> gc_at jr' (center_points (jr_fs jr) ! nat n)
        = cont_res jr (center_points (jr_fs jr) ! nat n) (svBulk (svCell jr' n))"
proof -
  define jr0 where "jr0 = jr\<lparr>lfx := (\<lambda>_ _ _. 0), lfy := (\<lambda>_ _ _. 0), lfz := (\<lambda>_ _ _. 0)\<rparr>"
  from JacResGetResidual_Inr[OF run] obtain i1 jr1 i2 jr2 i3 jr3 i4 jr4 where
    s1: "efold (Residual_center lib) (center_points (jr_fs jr)) (0, jr0) = Inr (i1, jr1)"
    and s2: "efold (Residual_xy lib) (xy_points (jr_fs jr)) (0, jr1) = Inr (i2, jr2)"
    and s3: "efold (Residual_xz lib) (xz_points (jr_fs jr)) (0, jr2) = Inr (i3, jr3)"
    and s4: "efold (Residual_yz lib) (yz_points (jr_fs jr)) (0, jr3) = Inr (i4, jr4)"
    and r: "jr' = jr4\<lparr>gfx := LOCAL_TO_GLOBAL lib (DA_X (jr_fs jr)) (lfx jr4),
              gfy := LOCAL_TO_GLOBAL lib (DA_Y (jr_fs jr)) (lfy jr4),
              gfz := LOCAL_TO_GLOBAL lib (DA_Z (jr_fs jr)) (lfz jr4)\<rparr>"
    unfolding jr0_def by blast
  have f0: "res_frame jr jr0" "svCell jr0 = svCell jr"
    by (simp_all add: jr0_def res_frame_def)
  have d: "distinct (center_points (jr_fs jr))"
    by (simp add: center_points_def distinct_STD_LOOP)
  note c = res_center_loop[OF s1]
  have e2: "svCell jr2 = svCell jr1 \<and> gc jr2 = gc jr1 \<and> res_frame jr1 jr2"
    using res_edge_loop[of "Residual_xy lib", OF res_edge_steps(1) s2] by simp
  have e3: "svCell jr3 = svCell jr2 \<and> gc jr3 = gc jr2 \<and> res_frame jr2 jr3"
    using res_edge_loop[of "Residual_xz lib", OF res_edge_steps(2) s3] by simp
  have e4: "svCell jr4 = svCell jr3 \<and> gc jr4 = gc jr3 \<and> res_frame jr3 jr4"
    using res_edge_loop[of "Residual_yz lib", OF res_edge_steps(3) s4] by simp
  have sv: "svCell jr' = svCell jr1" "gc jr' = gc jr1" using r e2 e3 e4 by simp_all
  have fr: "res_frame jr jr'"
    using f0 c e2 e3 e4 r by (simp add: res_frame_def)
  have g: "gc_at jr' = gc_at jr1" using sv by (simp add: gc_at_def fun_eq_iff)
  have v: "vol_of lib jr0 = vol_of lib jr" "cont_res jr0 = cont_res jr"
    using res_frame_funs[OF f0(1), of lib] by simp_all
  from c n d have "theta (svBulk (svCell jr1 n)) = theta (svBulk (svCell jr0 n)) \<and>
        vol_of lib jr0 (center_points (jr_fs jr) ! nat n) (svBulk (svCell jr1 n)) \<and>
        gc_at jr1 (center_points (jr_fs jr) ! nat n)
          = cont_res jr0 (center_points (jr_fs jr) ! nat n) (svBulk (svCell jr1 n))"
    by simp
  then show ?thesis using fr by (simp add: sv g v f0)
qed

text \<open>
  C1. \<^verbatim>\<open>JacResGetResidual\<close>, run after \<^verbatim>\<open>JacResGetEffStrainRate\<close>, returns whenever the
  constitutive equations do not fail, and whenever it returns the continuity residual at
  every cell center \<open>(i, j, k)\<close> of the loop (the \<open>n\<close>-th central point) is
  \<open>- IKdt * (p - pn) - theta + alpha * (T - Tn) / dt\<close>, for arbitrary pressure, temperature
  and velocity arrays. Here \<open>theta\<close> is the volumetric strain rate
  \<^verbatim>\<open>JacResGetEffStrainRate\<close> stored in the cell (the sum of the three diagonal velocity
  gradients), and \<open>IKdt\<close>, \<open>alpha\<close>, \<open>pn\<close>, \<open>Tn\<close> are what \<open>VolConstEq\<close> returned for the
  cell. In particular, with zero velocity everywhere, pressure \<open>p0\<close> everywhere and the
  temperature of the cell equal to its history, the residual is \<open>- IKdt * (p0 - pn)\<close>.
\<close>

theorem JacResGetResidual_continuity:
  "(never_fails lib \<longrightarrow> (\<exists>jr'. JacResGetResidual lib (JacResGetEffStrainRate lib jr) = Inr jr'))
   \<and> (\<forall>jr' n i j k.
        JacResGetResidual lib (JacResGetEffStrainRate lib jr) = Inr jr'
        \<and> 0 \<le> n \<and> n < int (length (center_points (jr_fs jr)))
        \<and> center_points (jr_fs jr) ! nat n = (i, j, k) \<longrightarrow>
        gc jr' k j i
          = - IKdt (svBulk (svCell jr' n)) * (lp jr k j i - pn (svBulk (svCell jr' n)))
            - theta (svBulk (svCell jr' n))
            + alpha (svBulk (svCell jr' n)) * (lT jr k j i - Tn (svBulk (svCell jr' n)))
              / ts_dt (jr_ts jr)
        \<and> theta (svBulk (svCell jr' n)) = theta (svBulk (svCell (JacResGetEffStrainRate lib jr) n))
        \<and> theta (svBulk (svCell jr' n))
            = grad_xx jr (i, j, k) + grad_yy jr (i, j, k) + grad_zz jr (i, j, k)
        \<and> (\<exists>sb ph. VolConstEq lib sb (numPhases jr) (phases jr) ph (matLim jr) (ts_dt (jr_ts jr))
                     (lp jr k j i) (lT jr k j i)
                   = Inr (rho (svBulk (svCell jr' n)), IKdt (svBulk (svCell jr' n)),
                          alpha (svBulk (svCell jr' n)), pn (svBulk (svCell jr' n)),
                          Tn (svBulk (svCell jr' n))))
        \<and> ((\<forall>k j i. lvx jr k j i = 0 \<and> lvy jr k j i = 0 \<and> lvz jr k j i = 0 \<and> lp jr k j i = p0)
             \<and> lT jr k j i = Tn (svBulk (svCell jr' n)) \<longrightarrow>
           gc jr' k j i = - IKdt (svBulk (svCell jr' n)) * (p0 - pn (svBulk (svCell jr' n)))))"
proof (intro conjI allI impI)
  assume "never_fails lib"
  then show "\<exists>jr'. JacResGetResidual lib (JacResGetEffStrainRate lib jr) = Inr jr'"
    by (rule JacResGetResidual_total)
next
  fix jr' n i j k
  assume a: "JacResGetResidual lib (JacResGetEffStrainRate lib jr) = Inr jr'
        \<and> 0 \<le> n \<and> n < int (length (center_points (jr_fs jr)))
        \<and> center_points (jr_fs jr) ! nat n = (i, j, k)"
  define jrE where "jrE = JacResGetEffStrainRate lib jr"
  define b where "b = svBulk (svCell jr' n)"
  have e: "same_input jr jrE" "svCell jrE n = cell_upd jr (i, j, k) (svCell jr n)"
    using JacResGetEffStrainRate_cells[of jr lib] a by (simp_all add: jrE_def)
  have fsE: "jr_fs jrE = jr_fs jr" using e by (simp add: same_input_def)
  have rf: "res_frame jr jrE" using e by (simp add: same_input_def res_frame_def)
  have "res_frame jrE jr'
    \<and> theta (svBulk (svCell jr' n)) = theta (svBulk (svCell jrE n))
    \<and> vol_of lib jrE (center_points (jr_fs jrE) ! nat n) (svBulk (svCell jr' n))
    \<and> gc_at jr' (center_points (jr_fs jrE) ! nat n)
        = cont_res jrE (center_points (jr_fs jrE) ! nat n) (svBulk (svCell jr' n))"
    using a by (intro JacResGetResidual_cells) (simp_all add: jrE_def[symmetric] fsE)
  then have c: "theta b = theta (svBulk (svCell jrE n))" "vol_of lib jr (i, j, k) b"
      "gc_at jr' (i, j, k) = cont_res jr (i, j, k) b"
    using a res_frame_funs[OF rf, of lib] by (simp_all add: fsE b_def)
  have th: "theta b = grad_xx jr (i, j, k) + grad_yy jr (i, j, k) + grad_zz jr (i, j, k)"
    using c(1) e(2) by (simp add: cell_upd_def Let_def)
  have g: "gc jr' k j i = - IKdt b * (lp jr k j i - pn b) - theta b
             + alpha b * (lT jr k j i - Tn b) / ts_dt (jr_ts jr)"
    using c(3) by (simp add: gc_at_def cont_res_def)
  have v: "\<exists>sb ph. VolConstEq lib sb (numPhases jr) (phases jr) ph (matLim jr) (ts_dt (jr_ts jr))
                     (lp jr k j i) (lT jr k j i)
                   = Inr (rho b, IKdt b, alpha b, pn b, Tn b)"
    using c(2) by (simp add: vol_of_def)
  show "gc jr' k j i
          = - IKdt (svBulk (svCell jr' n)) * (lp jr k j i - pn (svBulk (svCell jr' n)))
            - theta (svBulk (svCell jr' n))
            + alpha (svBulk (svCell jr' n)) * (lT jr k j i - Tn (svBulk (svCell jr' n)))
              / ts_dt (jr_ts jr)"
    using g by (simp add: b_def)
  show "theta (svBulk (svCell jr' n)) = theta (svBulk (svCell (JacResGetEffStrainRate lib jr) n))"
    using c(1) by (simp add: b_def jrE_def)
  show "theta (svBulk (svCell jr' n))
            = grad_xx jr (i, j, k) + grad_yy jr (i, j, k) + grad_zz jr (i, j, k)"
    using th by (simp add: b_def)
  show "\<exists>sb ph. VolConstEq lib sb (numPhases jr) (phases jr) ph (matLim jr) (ts_dt (jr_ts jr))
                     (lp jr k j i) (lT jr k j i)
                   = Inr (rho (svBulk (svCell jr' n)), IKdt (svBulk (svCell jr' n)),
                          alpha (svBulk (svCell jr' n)), pn (svBulk (svCell jr' n)),
                          Tn (svBulk (svCell jr' n)))"
    using v by (simp add: b_def)
  assume z: "(\<forall>k j i. lvx jr k j i = 0 \<and> lvy jr k j i = 0 \<and> lvz jr k j i = 0 \<and> lp jr k j i = p0)
             \<and> lT jr k j i = Tn (svBulk (svCell jr' n))"
  then have "theta b = 0"
    by (simp add: th grad_xx_def grad_yy_def grad_zz_def)
  then show "gc jr' k j i = - IKdt (svBulk (svCell jr' n)) * (p0 - pn (svBulk (svCell jr' n)))"
    using g z by (simp add: b_def)
qed

theorem JacResGetResidual_continuity_witness:
  "never_fails lib_const \<and>
   (\<exists>jr'. JacResGetResidual lib_const (JacResGetEffStrainRate lib_const jr_small) = Inr jr'
      \<and> 0 < int (length (center_points (jr_fs jr_small)))
      \<and> center_points (jr_fs jr_small) ! nat 0 = (0, 0, 0)
      \<and> theta (svBulk (svCell jr' 0)) = 3
      \<and> gc jr' 0 0 0 = 5)"
proof -
  have nf: "never_fails lib_const"
    by (simp add: never_fails_def lib_const_def)
  have cp: "center_points (jr_fs jr_small) = [(0,0,0),(1,0,0),(0,1,0),(1,1,0),(0,0,1),(1,0,1),(0,1,1),(1,1,1)]"
    by (simp add: center_points_def jr_small_def fs_nonuni_def ds_nonuni_def STD_LOOP_def
          GET_CELL_RANGE_def upto_rec1)
  have gr: "grad_xx jr_small (0, 0, 0) = 1" "grad_yy jr_small (0, 0, 0) = 2"
          "grad_zz jr_small (0, 0, 0) = 0"
    by (simp_all add: grad_xx_def grad_yy_def grad_zz_def jr_small_def fs_nonuni_def
          ds_nonuni_def SIZE_CELL_def)
  have f: "lp jr_small 0 0 0 = 5" "lT jr_small 0 0 0 = 7" "ts_dt (jr_ts jr_small) = 2"
    by (simp_all add: jr_small_def)
  note t = JacResGetResidual_continuity[of lib_const jr_small 5]
  from t nf obtain jr' where
    r: "JacResGetResidual lib_const (JacResGetEffStrainRate lib_const jr_small) = Inr jr'"
    by blast
  have "gc jr' 0 0 0
          = - IKdt (svBulk (svCell jr' 0)) * (lp jr_small 0 0 0 - pn (svBulk (svCell jr' 0)))
            - theta (svBulk (svCell jr' 0))
            + alpha (svBulk (svCell jr' 0)) * (lT jr_small 0 0 0 - Tn (svBulk (svCell jr' 0)))
              / ts_dt (jr_ts jr_small)
        \<and> theta (svBulk (svCell jr' 0))
            = grad_xx jr_small (0, 0, 0) + grad_yy jr_small (0, 0, 0) + grad_zz jr_small (0, 0, 0)
        \<and> (\<exists>sb ph. VolConstEq lib_const sb (numPhases jr_small) (phases jr_small) ph
                     (matLim jr_small) (ts_dt (jr_ts jr_small))
                     (lp jr_small 0 0 0) (lT jr_small 0 0 0)
                   = Inr (rho (svBulk (svCell jr' 0)), IKdt (svBulk (svCell jr' 0)),
                          alpha (svBulk (svCell jr' 0)), pn (svBulk (svCell jr' 0)),
                          Tn (svBulk (svCell jr' 0))))"
    using t[THEN conjunct2, rule_format, of jr' 0 0 0 0] r by (simp add: cp)
  then have "theta (svBulk (svCell jr' 0)) = 3 \<and> gc jr' 0 0 0 = 5"
    by (simp add: gr f lib_const_def)
  with nf r show ?thesis by (simp add: cp)
qed

section \<open>Properties of Discret1DCheckMG\<close>

lemma smod_two_eq_zero_iff: "(k::int) smod 2 = 0 \<longleftrightarrow> even k"
  by (auto simp: signed_modulo_int_def sgn_if elim: evenE oddE)

lemma smod_eq_zero_iff_dvd: "(k::int) smod l = 0 \<longleftrightarrow> l dvd k"
proof (cases "l = 0")
  case True
  then show ?thesis by (auto simp: signed_modulo_int_def sgn_if)
next
  case False
  then have "k mod l \<noteq> l"
    by (metis abs_mod_less less_irrefl)
  then show ?thesis
    by (auto simp: signed_modulo_int_eq_modulo_int of_bool_def dvd_eq_mod_eq_0)
qed

lemma sdiv_two_even: "even (k::int) \<Longrightarrow> k sdiv 2 = k div 2"
  by (auto simp: signed_divide_int_def sgn_if elim!: evenE)

lemma coarsen_loop_Some_nonzero:
  assumes "coarsen_loop sz m = Some r"
  shows "sz \<noteq> 0"
  by (rule coarsen_loop.raw_induct[where P = "\<lambda>sz _ _. sz \<noteq> 0", OF _ assms])
     (fastforce split: if_splits)

lemma coarsen_loop_zero: "coarsen_loop 0 n = None"
  using coarsen_loop_Some_nonzero[of 0 n] by (cases "coarsen_loop 0 n") auto

lemma coarsen_loop_nonzero:
  "sz \<noteq> 0 \<Longrightarrow> \<exists>k r. coarsen_loop sz n = Some (r, n + int k) \<and> odd r \<and> sz = r * 2 ^ k"
proof (induction "nat \<bar>sz\<bar>" arbitrary: sz n rule: less_induct)
  case less
  show ?case
  proof (cases "even sz")
    case False
    then have "coarsen_loop sz n = Some (sz, n + int 0)"
      by (subst coarsen_loop.simps) (simp add: smod_two_eq_zero_iff)
    with False show ?thesis by (intro exI[of _ 0] exI[of _ sz]) simp
  next
    case True
    then obtain h where h: "sz = 2 * h" by (elim evenE)
    with less.prems have h0: "h \<noteq> 0" by simp
    have lt: "nat \<bar>h\<bar> < nat \<bar>sz\<bar>" using h h0 by simp
    from less.hyps[OF lt h0, of "n + 1"] obtain k r where
      kr: "coarsen_loop h (n + 1) = Some (r, n + 1 + int k)" "odd r" "h = r * 2 ^ k"
      by blast
    have "coarsen_loop sz n = coarsen_loop h (n + 1)"
      by (subst coarsen_loop.simps) (simp add: smod_two_eq_zero_iff sdiv_two_even True h)
    with kr have "coarsen_loop sz n = Some (r, n + int (Suc k))" "sz = r * 2 ^ Suc k"
      using h by simp_all
    with kr(2) show ?thesis by blast
  qed
qed

lemma odd_part_multiplicity:
  assumes "odd (r::int)" "sz = r * 2 ^ k"
  shows "2 ^ k dvd sz \<and> \<not> 2 ^ Suc k dvd sz"
proof
  show "2 ^ k dvd sz" using assms by simp
  show "\<not> 2 ^ Suc k dvd sz"
  proof
    assume "2 ^ Suc k dvd sz"
    then have "(2::int) * 2 ^ k dvd r * 2 ^ k" using assms by simp
    then have "(2::int) dvd r" by simp
    with assms(1) show False by simp
  qed
qed

lemma Discret1DCheckMG_fails_iff:
  "(\<exists>e. Discret1DCheckMG ds dir = Some (Inl e)) \<longleftrightarrow>
     (odd (ncels ds) \<or> \<not> nproc ds dvd tcels ds \<or> ncels ds \<noteq> tcels ds sdiv nproc ds)"
  by (auto simp: Discret1DCheckMG_def smod_two_eq_zero_iff smod_eq_zero_iff_dvd
           split: option.splits)

lemma Discret1DCheckMG_passes:
  assumes "ncels ds \<noteq> 0" "even (ncels ds)" "nproc ds dvd tcels ds"
    "ncels ds = tcels ds sdiv nproc ds"
  shows "\<exists>k. Discret1DCheckMG ds dir = Some (Inr (int k)) \<and>
              2 ^ k dvd ncels ds \<and> \<not> 2 ^ Suc k dvd ncels ds"
proof -
  from coarsen_loop_nonzero[OF assms(1), of 0] obtain k r where
    kr: "coarsen_loop (ncels ds) 0 = Some (r, int k)" "odd r" "ncels ds = r * 2 ^ k"
    by auto
  have "Discret1DCheckMG ds dir = Some (Inr (int k))"
    using assms kr(1) by (simp add: Discret1DCheckMG_def smod_two_eq_zero_iff smod_eq_zero_iff_dvd)
  with odd_part_multiplicity[OF kr(2,3)] show ?thesis by blast
qed

text \<open>
  C9, as amended. On a positive number of processes, \<open>Discret1DCheckMG\<close> returns an error
  if and only if the local cell count \<open>ncels\<close> is odd, or the total cell count \<open>tcels\<close> is
  not divisible by \<open>nproc\<close>, or \<open>ncels\<close> differs from \<open>tcels / nproc\<close>; the error is one of
  three messages, each naming the axis \<open>dir\<close> (the first failing check decides which).
  When all three checks pass and \<open>ncels\<close> is not zero, the call returns normally, and the
  \<open>ncors\<close> it returns is the largest \<open>k\<close> such that \<open>2 ^ k\<close> divides \<open>ncels\<close>.
\<close>

theorem Discret1DCheckMG_amended:
  assumes "0 < nproc ds"
  shows "((\<exists>e. Discret1DCheckMG ds dir = Some (Inl e)) \<longleftrightarrow>
            (odd (ncels ds) \<or> \<not> nproc ds dvd tcels ds \<or> ncels ds \<noteq> tcels ds sdiv nproc ds))
       \<and> (odd (ncels ds) \<longrightarrow>
            Discret1DCheckMG ds dir = Some (Inl (PETSC_ERR_USER (odd_size_msg dir))))
       \<and> (even (ncels ds) \<and> \<not> nproc ds dvd tcels ds \<longrightarrow>
            Discret1DCheckMG ds dir = Some (Inl (PETSC_ERR_USER (no_uniform_msg dir))))
       \<and> (even (ncels ds) \<and> nproc ds dvd tcels ds \<and> ncels ds \<noteq> tcels ds sdiv nproc ds \<longrightarrow>
            Discret1DCheckMG ds dir = Some (Inl (PETSC_ERR_USER (not_constant_msg dir))))
       \<and> (even (ncels ds) \<and> nproc ds dvd tcels ds \<and> ncels ds = tcels ds sdiv nproc ds
            \<and> ncels ds \<noteq> 0 \<longrightarrow>
            (\<exists>k. Discret1DCheckMG ds dir = Some (Inr (int k)) \<and>
                 2 ^ k dvd ncels ds \<and> \<not> 2 ^ Suc k dvd ncels ds))"
proof (intro conjI impI)
  show "(\<exists>e. Discret1DCheckMG ds dir = Some (Inl e)) \<longleftrightarrow>
          (odd (ncels ds) \<or> \<not> nproc ds dvd tcels ds \<or> ncels ds \<noteq> tcels ds sdiv nproc ds)"
    by (rule Discret1DCheckMG_fails_iff)
next
  assume "odd (ncels ds)"
  then show "Discret1DCheckMG ds dir = Some (Inl (PETSC_ERR_USER (odd_size_msg dir)))"
    by (simp add: Discret1DCheckMG_def smod_two_eq_zero_iff)
next
  assume "even (ncels ds) \<and> \<not> nproc ds dvd tcels ds"
  then show "Discret1DCheckMG ds dir = Some (Inl (PETSC_ERR_USER (no_uniform_msg dir)))"
    by (simp add: Discret1DCheckMG_def smod_two_eq_zero_iff smod_eq_zero_iff_dvd)
next
  assume "even (ncels ds) \<and> nproc ds dvd tcels ds \<and> ncels ds \<noteq> tcels ds sdiv nproc ds"
  then show "Discret1DCheckMG ds dir = Some (Inl (PETSC_ERR_USER (not_constant_msg dir)))"
    by (simp add: Discret1DCheckMG_def smod_two_eq_zero_iff smod_eq_zero_iff_dvd)
next
  assume "even (ncels ds) \<and> nproc ds dvd tcels ds \<and> ncels ds = tcels ds sdiv nproc ds
            \<and> ncels ds \<noteq> 0"
  then show "\<exists>k. Discret1DCheckMG ds dir = Some (Inr (int k)) \<and>
                 2 ^ k dvd ncels ds \<and> \<not> 2 ^ Suc k dvd ncels ds"
    using Discret1DCheckMG_passes[of ds dir] by blast
qed

lemma sdiv_twelve_one: "(12::int) sdiv 1 = 12"
  by (simp add: signed_divide_int_def)

lemma Discret1DCheckMG_twelve: "Discret1DCheckMG ds_twelve_cells ''x'' = Some (Inr 2)"
proof -
  have "coarsen_loop 12 0 = Some (3, 2)"
    by (simp add: coarsen_loop.simps signed_modulo_int_def signed_divide_int_def)
  then show ?thesis
    by (simp add: Discret1DCheckMG_def ds_twelve_cells_def signed_modulo_int_def
        signed_divide_int_def)
qed

theorem Discret1DCheckMG_amended_witness:
  "0 < nproc ds_twelve_cells \<and> even (ncels ds_twelve_cells)
   \<and> nproc ds_twelve_cells dvd tcels ds_twelve_cells
   \<and> ncels ds_twelve_cells = tcels ds_twelve_cells sdiv nproc ds_twelve_cells
   \<and> ncels ds_twelve_cells \<noteq> 0
   \<and> Discret1DCheckMG ds_twelve_cells ''x'' = Some (Inr 2)
   \<and> (\<exists>k. Discret1DCheckMG ds_twelve_cells ''x'' = Some (Inr (int k)) \<and>
           2 ^ k dvd ncels ds_twelve_cells \<and> \<not> 2 ^ Suc k dvd ncels ds_twelve_cells)"
proof -
  have h: "0 < nproc ds_twelve_cells" by (simp add: ds_twelve_cells_def)
  have c: "even (ncels ds_twelve_cells) \<and> nproc ds_twelve_cells dvd tcels ds_twelve_cells
     \<and> ncels ds_twelve_cells = tcels ds_twelve_cells sdiv nproc ds_twelve_cells
     \<and> ncels ds_twelve_cells \<noteq> 0"
    by (simp add: ds_twelve_cells_def sdiv_twelve_one)
  from Discret1DCheckMG_amended[OF h, of "''x''"] c
  have "\<exists>k. Discret1DCheckMG ds_twelve_cells ''x'' = Some (Inr (int k)) \<and>
           2 ^ k dvd ncels ds_twelve_cells \<and> \<not> 2 ^ Suc k dvd ncels ds_twelve_cells"
    by blast
  with h c Discret1DCheckMG_twelve show ?thesis by blast
qed

text \<open>
  The claim as stated fails on the axis without cells: all three checks pass
  (\<open>0\<close> is even, \<open>1\<close> divides \<open>0\<close>, \<open>0 / 1 = 0\<close>), and then the halving loop
  never leaves \<open>sz = 0\<close>, so the call does not return.
\<close>

theorem Discret1DCheckMG_no_cells_counterexample:
  "0 < nproc ds_no_cells \<and> even (ncels ds_no_cells)
   \<and> nproc ds_no_cells dvd tcels ds_no_cells
   \<and> ncels ds_no_cells = tcels ds_no_cells sdiv nproc ds_no_cells
   \<and> Discret1DCheckMG ds_no_cells ''x'' = None"
  by (simp add: ds_no_cells_def Discret1DCheckMG_def coarsen_loop_zero signed_modulo_int_def
      signed_divide_int_def)

section \<open>The processor-grid arguments of FDSTAGCreate\<close>

text \<open>
  C10. The arguments \<open>Px\<close>, \<open>Py\<close>, \<open>Pz\<close> of \<^verbatim>\<open>FDSTAGCreate\<close> have no effect: two calls that
  differ only in them give the same result, the same grid object or the same error, and
  this is the result of the call with \<^verbatim>\<open>PETSC_DECIDE\<close> for all three.
\<close>

theorem FDSTAGCreate_ignores_processor_hints:
  "FDSTAGCreate lib fs Nx Ny Nz Px Py Pz = FDSTAGCreate lib fs Nx Ny Nz Qx Qy Qz
   \<and> FDSTAGCreate lib fs Nx Ny Nz Px Py Pz
       = FDSTAGCreate lib fs Nx Ny Nz PETSC_DECIDE PETSC_DECIDE PETSC_DECIDE"
  by (simp only: FDSTAGCreate_def)

section \<open>Single-point constraints\<close>

lemma set_SPC_step:
  "0 \<le> n \<Longrightarrow> set_SPC (n + 1) list vals sol = (set_SPC n list vals sol)(list n := vals n)"
  by (simp add: set_SPC_def upto_rec2)

lemma zero_SPC_step:
  "0 \<le> n \<Longrightarrow> zero_SPC (n + 1) list res = (zero_SPC n list res)(list n := 0)"
  by (simp add: zero_SPC_def upto_rec2)

lemma set_SPC_other:
  "0 \<le> num \<Longrightarrow> \<forall>i. 0 \<le> i \<and> i < num \<longrightarrow> list i \<noteq> m \<Longrightarrow> set_SPC num list vals sol m = sol m"
proof (induction num rule: int_ge_induct)
  case base
  then show ?case by (simp add: set_SPC_def)
next
  case (step n)
  then have "list n \<noteq> m" "set_SPC n list vals sol m = sol m" by auto
  then show ?case using step.hyps by (simp add: set_SPC_step)
qed

lemma set_SPC_other':
  "\<forall>i. 0 \<le> i \<and> i < num \<longrightarrow> list i \<noteq> m \<Longrightarrow> set_SPC num list vals sol m = sol m"
  by (cases "0 \<le> num") (simp_all add: set_SPC_other, simp add: set_SPC_def)

lemma set_SPC_last:
  "0 \<le> num \<Longrightarrow> 0 \<le> i \<Longrightarrow> i < num \<Longrightarrow> \<forall>i'. i < i' \<and> i' < num \<longrightarrow> list i' \<noteq> list i \<Longrightarrow>
     set_SPC num list vals sol (list i) = vals i"
proof (induction num rule: int_ge_induct)
  case base
  then show ?case by simp
next
  case (step n)
  show ?case
  proof (cases "i = n")
    case True
    then show ?thesis using step by (simp add: set_SPC_step)
  next
    case False
    then have a: "i < n" "list n \<noteq> list i" using step.prems by auto
    then have "set_SPC n list vals sol (list i) = vals i" using step by auto
    then show ?thesis using step.hyps a by (simp add: set_SPC_step)
  qed
qed

lemma zero_SPC_at:
  "0 \<le> num \<Longrightarrow> 0 \<le> i \<Longrightarrow> i < num \<Longrightarrow> zero_SPC num list res (list i) = 0"
proof (induction num rule: int_ge_induct)
  case base
  then show ?case by simp
next
  case (step n)
  then show ?case by (cases "i = n") (simp_all add: zero_SPC_step)
qed

lemma zero_SPC_cases:
  "zero_SPC num list res m = 0 \<or> zero_SPC num list res m = res m"
proof (cases "0 \<le> num")
  case True
  then show ?thesis
  proof (induction num rule: int_ge_induct)
    case base
    then show ?case by (simp add: zero_SPC_def)
  next
    case (step n)
    then show ?case by (auto simp: zero_SPC_step)
  qed
next
  case False
  then show ?thesis by (simp add: zero_SPC_def)
qed

lemma JacResCopySol_sol:
  "snd (JacResCopySol lib jr x)
     = set_SPC (pNumSPC (jr_bc jr)) (pSPCList (jr_bc jr)) (pSPCVals (jr_bc jr))
         (set_SPC (vNumSPC (jr_bc jr)) (vSPCList (jr_bc jr)) (vSPCVals (jr_bc jr)) x)"
  by (simp add: JacResCopySol_def Let_def)

lemma JacResCopySol_split:
  "gvx (fst (JacResCopySol lib jr x)) = PetscMemcpy (gvx jr) 0 (snd (JacResCopySol lib jr x)) 0 (nXFace (jr_fs jr))"
  "gvy (fst (JacResCopySol lib jr x)) = PetscMemcpy (gvy jr) 0 (snd (JacResCopySol lib jr x))
       (nXFace (jr_fs jr)) (nYFace (jr_fs jr))"
  "gvz (fst (JacResCopySol lib jr x)) = PetscMemcpy (gvz jr) 0 (snd (JacResCopySol lib jr x))
       (nXFace (jr_fs jr) + nYFace (jr_fs jr)) (nZFace (jr_fs jr))"
  "gp (fst (JacResCopySol lib jr x)) = PetscMemcpy (gp jr) 0 (snd (JacResCopySol lib jr x))
       (nXFace (jr_fs jr) + nYFace (jr_fs jr) + nZFace (jr_fs jr)) (nCells (jr_fs jr))"
  by (simp_all add: JacResCopySol_def Let_def)

lemma JacResCopyRes_zero:
  "JacResCopyRes lib jr f
     = zero_SPC (pNumSPC (jr_bc jr)) (pSPCList (jr_bc jr))
         (zero_SPC (vNumSPC (jr_bc jr)) (vSPCList (jr_bc jr))
            (PetscMemcpy (PetscMemcpy (PetscMemcpy (PetscMemcpy f 0 (gfx jr) 0 (nXFace (jr_fs jr)))
                (nXFace (jr_fs jr)) (gfy jr) 0 (nYFace (jr_fs jr)))
                (nXFace (jr_fs jr) + nYFace (jr_fs jr)) (gfz jr) 0 (nZFace (jr_fs jr)))
                (nXFace (jr_fs jr) + nYFace (jr_fs jr) + nZFace (jr_fs jr))
                (VecGetArray_CEN lib (DA_CEN (jr_fs jr)) (gc jr)) 0 (nCells (jr_fs jr))))"
  by (simp add: JacResCopyRes_def Let_def)

text \<open>
  C3. \<^verbatim>\<open>JacResCopySol\<close> writes the prescribed values into the solution array before it
  splits it. A constrained position holds afterwards the value of the last list entry
  that names it, the velocity list being written before the pressure list: position
  \<open>list i\<close> holds \<open>vals i\<close> when no later entry of the same list, and for a velocity
  constraint no entry of the pressure list, names the same position. The global velocity
  and pressure arrays then hold that value at the position's place in its block.
  \<^verbatim>\<open>JacResCopyRes\<close> leaves exactly zero at every constrained position of the output, for
  any lists.
\<close>

theorem JacResCopySol_amended:
  "(\<forall>m v.
      (\<exists>i. 0 \<le> i \<and> i < vNumSPC (jr_bc jr) \<and> m = vSPCList (jr_bc jr) i \<and> v = vSPCVals (jr_bc jr) i
           \<and> (\<forall>i'. i < i' \<and> i' < vNumSPC (jr_bc jr) \<longrightarrow> vSPCList (jr_bc jr) i' \<noteq> m)
           \<and> (\<forall>i'. 0 \<le> i' \<and> i' < pNumSPC (jr_bc jr) \<longrightarrow> pSPCList (jr_bc jr) i' \<noteq> m))
      \<or> (\<exists>i. 0 \<le> i \<and> i < pNumSPC (jr_bc jr) \<and> m = pSPCList (jr_bc jr) i \<and> v = pSPCVals (jr_bc jr) i
           \<and> (\<forall>i'. i < i' \<and> i' < pNumSPC (jr_bc jr) \<longrightarrow> pSPCList (jr_bc jr) i' \<noteq> m))
      \<longrightarrow>
        snd (JacResCopySol lib jr x) m = v
      \<and> (0 \<le> m \<and> m < nXFace (jr_fs jr) \<longrightarrow> gvx (fst (JacResCopySol lib jr x)) m = v)
      \<and> (nXFace (jr_fs jr) \<le> m \<and> m < nXFace (jr_fs jr) + nYFace (jr_fs jr) \<longrightarrow>
           gvy (fst (JacResCopySol lib jr x)) (m - nXFace (jr_fs jr)) = v)
      \<and> (nXFace (jr_fs jr) + nYFace (jr_fs jr) \<le> m
           \<and> m < nXFace (jr_fs jr) + nYFace (jr_fs jr) + nZFace (jr_fs jr) \<longrightarrow>
           gvz (fst (JacResCopySol lib jr x)) (m - (nXFace (jr_fs jr) + nYFace (jr_fs jr))) = v)
      \<and> (nXFace (jr_fs jr) + nYFace (jr_fs jr) + nZFace (jr_fs jr) \<le> m
           \<and> m < nXFace (jr_fs jr) + nYFace (jr_fs jr) + nZFace (jr_fs jr) + nCells (jr_fs jr) \<longrightarrow>
           gp (fst (JacResCopySol lib jr x))
              (m - (nXFace (jr_fs jr) + nYFace (jr_fs jr) + nZFace (jr_fs jr))) = v))
   \<and> (\<forall>m. (\<exists>i. 0 \<le> i \<and> i < vNumSPC (jr_bc jr) \<and> m = vSPCList (jr_bc jr) i)
           \<or> (\<exists>i. 0 \<le> i \<and> i < pNumSPC (jr_bc jr) \<and> m = pSPCList (jr_bc jr) i)
        \<longrightarrow> JacResCopyRes lib jr f m = 0)"
proof (intro conjI allI impI)
  fix m v
  assume a: "(\<exists>i. 0 \<le> i \<and> i < vNumSPC (jr_bc jr) \<and> m = vSPCList (jr_bc jr) i \<and> v = vSPCVals (jr_bc jr) i
           \<and> (\<forall>i'. i < i' \<and> i' < vNumSPC (jr_bc jr) \<longrightarrow> vSPCList (jr_bc jr) i' \<noteq> m)
           \<and> (\<forall>i'. 0 \<le> i' \<and> i' < pNumSPC (jr_bc jr) \<longrightarrow> pSPCList (jr_bc jr) i' \<noteq> m))
      \<or> (\<exists>i. 0 \<le> i \<and> i < pNumSPC (jr_bc jr) \<and> m = pSPCList (jr_bc jr) i \<and> v = pSPCVals (jr_bc jr) i
           \<and> (\<forall>i'. i < i' \<and> i' < pNumSPC (jr_bc jr) \<longrightarrow> pSPCList (jr_bc jr) i' \<noteq> m))"
  show s: "snd (JacResCopySol lib jr x) m = v"
    using a
  proof (elim disjE exE conjE)
    fix i
    assume i: "0 \<le> i" "i < vNumSPC (jr_bc jr)" "m = vSPCList (jr_bc jr) i" "v = vSPCVals (jr_bc jr) i"
      and later: "\<forall>i'. i < i' \<and> i' < vNumSPC (jr_bc jr) \<longrightarrow> vSPCList (jr_bc jr) i' \<noteq> m"
      and pr: "\<forall>i'. 0 \<le> i' \<and> i' < pNumSPC (jr_bc jr) \<longrightarrow> pSPCList (jr_bc jr) i' \<noteq> m"
    have "set_SPC (vNumSPC (jr_bc jr)) (vSPCList (jr_bc jr)) (vSPCVals (jr_bc jr)) x
            (vSPCList (jr_bc jr) i) = vSPCVals (jr_bc jr) i"
      using i later by (intro set_SPC_last) auto
    then show ?thesis
      using set_SPC_other'[OF pr] i by (simp add: JacResCopySol_sol)
  next
    fix i
    assume i: "0 \<le> i" "i < pNumSPC (jr_bc jr)" "m = pSPCList (jr_bc jr) i" "v = pSPCVals (jr_bc jr) i"
      and later: "\<forall>i'. i < i' \<and> i' < pNumSPC (jr_bc jr) \<longrightarrow> pSPCList (jr_bc jr) i' \<noteq> m"
    show ?thesis
      unfolding JacResCopySol_sol i(3,4) using i later by (intro set_SPC_last) auto
  qed
  show "gvx (fst (JacResCopySol lib jr x)) m = v" if "0 \<le> m \<and> m < nXFace (jr_fs jr)"
    using that s by (simp add: JacResCopySol_split PetscMemcpy_def)
  show "gvy (fst (JacResCopySol lib jr x)) (m - nXFace (jr_fs jr)) = v"
    if "nXFace (jr_fs jr) \<le> m \<and> m < nXFace (jr_fs jr) + nYFace (jr_fs jr)"
    using that s by (simp add: JacResCopySol_split PetscMemcpy_def)
  show "gvz (fst (JacResCopySol lib jr x)) (m - (nXFace (jr_fs jr) + nYFace (jr_fs jr))) = v"
    if "nXFace (jr_fs jr) + nYFace (jr_fs jr) \<le> m
           \<and> m < nXFace (jr_fs jr) + nYFace (jr_fs jr) + nZFace (jr_fs jr)"
    using that s by (simp add: JacResCopySol_split PetscMemcpy_def)
  show "gp (fst (JacResCopySol lib jr x))
              (m - (nXFace (jr_fs jr) + nYFace (jr_fs jr) + nZFace (jr_fs jr))) = v"
    if "nXFace (jr_fs jr) + nYFace (jr_fs jr) + nZFace (jr_fs jr) \<le> m
           \<and> m < nXFace (jr_fs jr) + nYFace (jr_fs jr) + nZFace (jr_fs jr) + nCells (jr_fs jr)"
    using that s by (simp add: JacResCopySol_split PetscMemcpy_def)
next
  fix m
  assume a: "(\<exists>i. 0 \<le> i \<and> i < vNumSPC (jr_bc jr) \<and> m = vSPCList (jr_bc jr) i)
           \<or> (\<exists>i. 0 \<le> i \<and> i < pNumSPC (jr_bc jr) \<and> m = pSPCList (jr_bc jr) i)"
  then show "JacResCopyRes lib jr f m = 0"
  proof (elim disjE exE conjE)
    fix i
    assume i: "0 \<le> i" "i < vNumSPC (jr_bc jr)" "m = vSPCList (jr_bc jr) i"
    then have "zero_SPC (vNumSPC (jr_bc jr)) (vSPCList (jr_bc jr)) r m = 0" for r
      using zero_SPC_at[of "vNumSPC (jr_bc jr)" i "vSPCList (jr_bc jr)" r] by simp
    then show ?thesis
      unfolding JacResCopyRes_zero
      using zero_SPC_cases[of "pNumSPC (jr_bc jr)" "pSPCList (jr_bc jr)" _ m] by metis
  next
    fix i
    assume i: "0 \<le> i" "i < pNumSPC (jr_bc jr)" "m = pSPCList (jr_bc jr) i"
    then show ?thesis
      unfolding JacResCopyRes_zero
      using zero_SPC_at[of "pNumSPC (jr_bc jr)" i "pSPCList (jr_bc jr)"] by simp
  qed
qed

text \<open>
  Without the condition on later entries the prescribed value is not reproduced: with
  the velocity list \<open>[0, 0]\<close> and the values \<open>[1, 2]\<close>, position 0 holds 2, not the value 1
  of the first entry.
\<close>

theorem JacResCopySol_duplicate_counterexample:
  "(0::int) < vNumSPC (jr_bc (jr_small\<lparr>jr_bc := bc_dup\<rparr>))
   \<and> vSPCList (jr_bc (jr_small\<lparr>jr_bc := bc_dup\<rparr>)) 0 = 0
   \<and> vSPCVals (jr_bc (jr_small\<lparr>jr_bc := bc_dup\<rparr>)) 0 = 1
   \<and> snd (JacResCopySol lib_const (jr_small\<lparr>jr_bc := bc_dup\<rparr>) (\<lambda>_. 0)) 0 = 2
   \<and> gvx (fst (JacResCopySol lib_const (jr_small\<lparr>jr_bc := bc_dup\<rparr>) (\<lambda>_. 0))) 0 = 2"
  by (simp add: JacResCopySol_def Let_def set_SPC_def PetscMemcpy_def bc_dup_def bc_none_def
        jr_small_def fs_nonuni_def upto_rec1)

theorem JacResCopySol_amended_witness:
  "(0::int) \<le> 1 \<and> 1 < vNumSPC (jr_bc (jr_small\<lparr>jr_bc := bc_two\<rparr>))
   \<and> vSPCList (jr_bc (jr_small\<lparr>jr_bc := bc_two\<rparr>)) 1 = 13
   \<and> vSPCVals (jr_bc (jr_small\<lparr>jr_bc := bc_two\<rparr>)) 1 = 5 / 2
   \<and> nXFace (jr_fs (jr_small\<lparr>jr_bc := bc_two\<rparr>)) = 12
   \<and> nYFace (jr_fs (jr_small\<lparr>jr_bc := bc_two\<rparr>)) = 12
   \<and> snd (JacResCopySol lib_const (jr_small\<lparr>jr_bc := bc_two\<rparr>) (\<lambda>_. 0)) 13 = 5 / 2
   \<and> gvy (fst (JacResCopySol lib_const (jr_small\<lparr>jr_bc := bc_two\<rparr>) (\<lambda>_. 0))) 1 = 5 / 2
   \<and> JacResCopyRes lib_const (jr_small\<lparr>jr_bc := bc_two\<rparr>) (\<lambda>_. 1) 13 = 0"
proof -
  define jr where "jr = jr_small\<lparr>jr_bc := bc_two\<rparr>"
  have f: "vNumSPC (jr_bc jr) = 2" "pNumSPC (jr_bc jr) = 1" "vSPCList (jr_bc jr) 1 = 13"
    "vSPCVals (jr_bc jr) 1 = 5 / 2" "nXFace (jr_fs jr) = 12" "nYFace (jr_fs jr) = 12"
    "\<And>i. pSPCList (jr_bc jr) i = 36"
    by (simp_all add: jr_def bc_two_def bc_none_def jr_small_def fs_nonuni_def)
  note t = JacResCopySol_amended[of jr lib_const "\<lambda>_. 0" "\<lambda>_. 1"]
  have h: "(\<exists>i. 0 \<le> i \<and> i < vNumSPC (jr_bc jr) \<and> 13 = vSPCList (jr_bc jr) i
              \<and> 5 / 2 = vSPCVals (jr_bc jr) i
           \<and> (\<forall>i'. i < i' \<and> i' < vNumSPC (jr_bc jr) \<longrightarrow> vSPCList (jr_bc jr) i' \<noteq> 13)
           \<and> (\<forall>i'. 0 \<le> i' \<and> i' < pNumSPC (jr_bc jr) \<longrightarrow> pSPCList (jr_bc jr) i' \<noteq> 13))"
    by (rule exI[of _ 1]) (simp add: f)
  have h2: "\<exists>i. 0 \<le> i \<and> i < vNumSPC (jr_bc jr) \<and> 13 = vSPCList (jr_bc jr) i"
    by (rule exI[of _ 1]) (simp add: f)
  have "snd (JacResCopySol lib_const jr (\<lambda>_. 0)) 13 = 5 / 2
      \<and> gvy (fst (JacResCopySol lib_const jr (\<lambda>_. 0))) (13 - nXFace (jr_fs jr)) = 5 / 2"
    using t[THEN conjunct1, rule_format, of 13 "5 / 2", OF disjI1, OF h] by (simp add: f)
  moreover have "JacResCopyRes lib_const jr (\<lambda>_. 1) 13 = 0"
    using t[THEN conjunct2, rule_format, of 13, OF disjI1, OF h2] .
  ultimately show ?thesis by (simp add: f jr_def[symmetric])
qed

section \<open>The Courant step\<close>

lemma courant_dt_bound:
  fixes d g m :: real
  shows "(if (if g \<noteq> 0 \<and> d * (11 / 10) > 1 / g then 1 / g else d * (11 / 10)) > m then m
          else (if g \<noteq> 0 \<and> d * (11 / 10) > 1 / g then 1 / g else d * (11 / 10))) \<le> d * (11 / 10)
       \<and> (if (if g \<noteq> 0 \<and> d * (11 / 10) > 1 / g then 1 / g else d * (11 / 10)) > m then m
          else (if g \<noteq> 0 \<and> d * (11 / 10) > 1 / g then 1 / g else d * (11 / 10))) \<le> m"
  by (cases "g \<noteq> 0 \<and> d * (11 / 10) > 1 / g") auto

lemma JacResGetCourantStep_shape:
  "\<exists>g. JacResGetCourantStep lib jr =
     jr\<lparr>jr_ts := (jr_ts jr)\<lparr>ts_pdt := ts_dt (jr_ts jr),
        ts_dt := (if (if g \<noteq> 0 \<and> ts_dt (jr_ts jr) * (11 / 10) > 1 / g then 1 / g
                      else ts_dt (jr_ts jr) * (11 / 10)) > ts_dtmax (jr_ts jr)
                  then ts_dtmax (jr_ts jr)
                  else (if g \<noteq> 0 \<and> ts_dt (jr_ts jr) * (11 / 10) > 1 / g then 1 / g
                        else ts_dt (jr_ts jr) * (11 / 10)))\<rparr>\<rparr>"
  unfolding JacResGetCourantStep_def Let_def by (rule exI) (rule refl)

lemma JacResGetCourantStep_bound: "ts_dt (jr_ts (JacResGetCourantStep lib jr)) \<le> ts_dt (jr_ts jr) * (11 / 10)
   \<and> ts_dt (jr_ts (JacResGetCourantStep lib jr)) \<le> ts_dtmax (jr_ts jr)
   \<and> ts_pdt (jr_ts (JacResGetCourantStep lib jr)) = ts_dt (jr_ts jr)
   \<and> ts_dtmax (jr_ts (JacResGetCourantStep lib jr)) = ts_dtmax (jr_ts jr)"
proof -
  from JacResGetCourantStep_shape[of lib jr] obtain g where
    s: "JacResGetCourantStep lib jr =
     jr\<lparr>jr_ts := (jr_ts jr)\<lparr>ts_pdt := ts_dt (jr_ts jr),
        ts_dt := (if (if g \<noteq> 0 \<and> ts_dt (jr_ts jr) * (11 / 10) > 1 / g then 1 / g
                      else ts_dt (jr_ts jr) * (11 / 10)) > ts_dtmax (jr_ts jr)
                  then ts_dtmax (jr_ts jr)
                  else (if g \<noteq> 0 \<and> ts_dt (jr_ts jr) * (11 / 10) > 1 / g then 1 / g
                        else ts_dt (jr_ts jr) * (11 / 10)))\<rparr>\<rparr>" by blast
  define r where "r = (if (if g \<noteq> 0 \<and> ts_dt (jr_ts jr) * (11 / 10) > 1 / g then 1 / g
                      else ts_dt (jr_ts jr) * (11 / 10)) > ts_dtmax (jr_ts jr)
                  then ts_dtmax (jr_ts jr)
                  else (if g \<noteq> 0 \<and> ts_dt (jr_ts jr) * (11 / 10) > 1 / g then 1 / g
                        else ts_dt (jr_ts jr) * (11 / 10)))"
  have b: "r \<le> ts_dt (jr_ts jr) * (11 / 10) \<and> r \<le> ts_dtmax (jr_ts jr)"
    unfolding r_def by (rule courant_dt_bound)
  have "JacResGetCourantStep lib jr = jr\<lparr>jr_ts := (jr_ts jr)\<lparr>ts_pdt := ts_dt (jr_ts jr), ts_dt := r\<rparr>\<rparr>"
    unfolding r_def by (rule s)
  then show ?thesis using b by simp
qed

lemma ds_nonuni_coords: "ncoor ds_nonuni (- 1) = - 1" "ncoor ds_nonuni 0 = 0" "ncoor ds_nonuni 1 = 1"
  "ncoor ds_nonuni 2 = 3" "ncoor ds_nonuni 3 = 5" "h_uni ds_nonuni = - 1"
  by (simp_all add: ds_nonuni_def)

lemma courant_point_zero:
  "va k j i = 0 \<Longrightarrow> 0 \<le> m \<Longrightarrow> courant_point ds va dir sx sy sz (i, j, k) m = m"
  by (simp add: courant_point_def Let_def)

lemma courant_fold_zero:
  "\<forall>p \<in> set ps. (case p of (i, j, k) \<Rightarrow> va k j i = 0) \<Longrightarrow> 0 \<le> m \<Longrightarrow>
     fold (courant_point ds va dir sx sy sz) ps m = m"
  by (induction ps) (auto simp: courant_point_zero)


lemma lib_courant_simps:
  "DMDAGetCorners3 lib_courant 5 = (0, 0, 0, 3, 2, 2)"
  "DMDAGetCorners3 lib_courant 6 = (0, 0, 0, 2, 3, 2)"
  "DMDAGetCorners3 lib_courant 7 = (0, 0, 0, 2, 2, 3)"
  "DMDAVecGetArray lib_courant 5 a = (\<lambda>k j i. a (i + 3 * (j + 2 * k)))"
  "DMDAVecGetArray lib_courant 6 a = (\<lambda>k j i. a (i + 2 * (j + 3 * k)))"
  "DMDAVecGetArray lib_courant 7 a = (\<lambda>k j i. a (i + 2 * (j + 2 * k)))"
  "ISParallel lib_courant = False"
  by (simp_all add: lib_courant_def dims_courant_def)

lemma jr_courant_simps:
  "jr_fs (jr_courant vx vy vz) = fs_courant" "gvx (jr_courant vx vy vz) = vx"
  "gvy (jr_courant vx vy vz) = vy" "gvz (jr_courant vx vy vz) = vz"
  "ts_dt (jr_ts (jr_courant vx vy vz)) = 2" "ts_Cmax (jr_ts (jr_courant vx vy vz)) = 1 / 2"
  "ts_dtmax (jr_ts (jr_courant vx vy vz)) = 10"
  "dsx fs_courant = ds_nonuni" "dsy fs_courant = ds_nonuni" "dsz fs_courant = ds_nonuni"
  "DA_X fs_courant = 5" "DA_Y fs_courant = 6" "DA_Z fs_courant = 7"
  by (simp_all add: jr_courant_def fs_courant_def)

lemma getMaxInvStep1DLocal_zero:
  "0 \<le> m \<Longrightarrow> getMaxInvStep1DLocal lib_courant ds_nonuni 5 (\<lambda>_. 0) dir m = m"
  "0 \<le> m \<Longrightarrow> getMaxInvStep1DLocal lib_courant ds_nonuni 6 (\<lambda>_. 0) dir m = m"
  "0 \<le> m \<Longrightarrow> getMaxInvStep1DLocal lib_courant ds_nonuni 7 (\<lambda>_. 0) dir m = m"
  by (simp_all add: getMaxInvStep1DLocal_def ds_nonuni_coords lib_courant_simps courant_fold_zero)

lemma face_points:
  "STD_LOOP (3, 0) (2, 0) (2, 0) = [(0,0,0),(1,0,0),(2,0,0),(0,1,0),(1,1,0),(2,1,0),(0,0,1),(1,0,1),(2,0,1),(0,1,1),(1,1,1),(2,1,1)]"
  "STD_LOOP (2, 0) (3, 0) (2, 0) = [(0,0,0),(1,0,0),(0,1,0),(1,1,0),(0,2,0),(1,2,0),(0,0,1),(1,0,1),(0,1,1),(1,1,1),(0,2,1),(1,2,1)]"
  "STD_LOOP (2, 0) (2, 0) (3, 0) = [(0,0,0),(1,0,0),(0,1,0),(1,1,0),(0,0,1),(1,0,1),(0,1,1),(1,1,1),(0,0,2),(1,0,2),(0,1,2),(1,1,2)]"
  by (simp_all add: STD_LOOP_def upto_rec1)

lemma getMaxInvStep1DLocal_y:
  "getMaxInvStep1DLocal lib_courant ds_nonuni 6 (\<lambda>n. if n = 1 then 1 else 0) 0 0 = 1 / 2"
proof -
  define va :: arr3 where "va = (\<lambda>k j i. if i + 2 * (j + 3 * k) = 1 then 1 else 0)"
  define f where "f = courant_point ds_nonuni va 0 0 0 0"
  have p0: "f (0, 0, 0) 0 = 0"
    by (simp add: f_def courant_point_def Let_def va_def)
  have p1: "f (1, 0, 0) 0 = 1 / 2"
    by (simp add: f_def courant_point_def Let_def va_def ds_nonuni_coords)
  have r: "fold f [(0,1,0),(1,1,0),(0,2,0),(1,2,0),(0,0,1),(1,0,1),(0,1,1),(1,1,1),(0,2,1),(1,2,1)]
             (1 / 2) = 1 / 2"
    unfolding f_def by (rule courant_fold_zero) (simp_all add: va_def)
  have "fold f (STD_LOOP (2, 0) (3, 0) (2, 0)) 0
      = fold f [(0,1,0),(1,1,0),(0,2,0),(1,2,0),(0,0,1),(1,0,1),(0,1,1),(1,1,1),(0,2,1),(1,2,1)]
          (f (1, 0, 0) (f (0, 0, 0) 0))"
    by (simp add: face_points)
  also have "\<dots> = 1 / 2" by (simp only: p0 p1 r)
  finally have F: "fold f (STD_LOOP (2, 0) (3, 0) (2, 0)) 0 = 1 / 2" .
  have V: "DMDAVecGetArray lib_courant 6 (\<lambda>n. if n = 1 then 1 else 0) = va"
    by (simp add: lib_courant_simps va_def)
  have "getMaxInvStep1DLocal lib_courant ds_nonuni 6 (\<lambda>n. if n = 1 then 1 else 0) 0 0
      = fold f (STD_LOOP (2, 0) (3, 0) (2, 0)) 0"
    unfolding f_def V[symmetric]
    by (simp add: getMaxInvStep1DLocal_def ds_nonuni_coords lib_courant_simps(2))
  then show ?thesis by (simp only: F)
qed

lemma getMaxInvStep1DLocal_x:
  "getMaxInvStep1DLocal lib_courant ds_nonuni 5 (\<lambda>n. if n = 1 then - 1 else 0) 0 0 = 0"
proof -
  define va :: arr3 where "va = (\<lambda>k j i. if i + 3 * (j + 2 * k) = 1 then - 1 else 0)"
  define f where "f = courant_point ds_nonuni va 0 0 0 0"
  have p0: "f (0, 0, 0) 0 = 0"
    by (simp add: f_def courant_point_def Let_def va_def)
  have p1: "f (1, 0, 0) 0 = 0"
    by (simp add: f_def courant_point_def Let_def va_def ds_nonuni_coords)
  have r: "fold f [(2,0,0),(0,1,0),(1,1,0),(2,1,0),(0,0,1),(1,0,1),(2,0,1),(0,1,1),(1,1,1),(2,1,1)] 0 = 0"
    unfolding f_def by (rule courant_fold_zero) (simp_all add: va_def)
  have "fold f (STD_LOOP (3, 0) (2, 0) (2, 0)) 0
      = fold f [(2,0,0),(0,1,0),(1,1,0),(2,1,0),(0,0,1),(1,0,1),(2,0,1),(0,1,1),(1,1,1),(2,1,1)]
          (f (1, 0, 0) (f (0, 0, 0) 0))"
    by (simp add: face_points)
  also have "\<dots> = 0" by (simp only: p0 p1 r)
  finally have F: "fold f (STD_LOOP (3, 0) (2, 0) (2, 0)) 0 = 0" .
  have V: "DMDAVecGetArray lib_courant 5 (\<lambda>n. if n = 1 then - 1 else 0) = va"
    by (simp add: lib_courant_simps va_def)
  have "getMaxInvStep1DLocal lib_courant ds_nonuni 5 (\<lambda>n. if n = 1 then - 1 else 0) 0 0
      = fold f (STD_LOOP (3, 0) (2, 0) (2, 0)) 0"
    unfolding f_def V[symmetric]
    by (simp add: getMaxInvStep1DLocal_def ds_nonuni_coords lib_courant_simps(1))
  then show ?thesis by (simp only: F)
qed

lemma courant_code_y: "ts_dt (jr_ts (JacResGetCourantStep lib_courant jr_courant_y)) = 1"
  by (simp add: JacResGetCourantStep_def Let_def jr_courant_y_def jr_courant_simps
        lib_courant_simps getMaxInvStep1DLocal_zero getMaxInvStep1DLocal_y)

lemma courant_code_x: "ts_dt (jr_ts (JacResGetCourantStep lib_courant jr_courant_x)) = 11 / 5"
  by (simp add: JacResGetCourantStep_def Let_def jr_courant_x_def jr_courant_simps
        lib_courant_simps getMaxInvStep1DLocal_zero getMaxInvStep1DLocal_x)

lemma fold_max_zero:
  fixes m :: real
  shows "\<forall>p \<in> set ps. g p = 0 \<Longrightarrow> 0 \<le> m \<Longrightarrow> fold max (map g ps) m = m"
  by (induction ps) auto

lemma spec_axis_zero:
  "spec_axis lib_courant ds_nonuni 5 (\<lambda>_. 0) axis = 0"
  "spec_axis lib_courant ds_nonuni 6 (\<lambda>_. 0) axis = 0"
  "spec_axis lib_courant ds_nonuni 7 (\<lambda>_. 0) axis = 0"
proof -
  have z: "spec_point ds_nonuni (\<lambda>k j i. 0) axis sx sy sz p = 0" for sx sy sz p
    by (cases p) (simp add: spec_point_def)
  have f: "fold max (map (spec_point ds_nonuni (\<lambda>k j i. 0) axis sx sy sz) ps) 0 = 0" for sx sy sz ps
    by (rule fold_max_zero) (simp_all add: z)
  show "spec_axis lib_courant ds_nonuni 5 (\<lambda>_. 0) axis = 0"
    by (simp add: spec_axis_def lib_courant_simps f)
  show "spec_axis lib_courant ds_nonuni 6 (\<lambda>_. 0) axis = 0"
    by (simp add: spec_axis_def lib_courant_simps f)
  show "spec_axis lib_courant ds_nonuni 7 (\<lambda>_. 0) axis = 0"
    by (simp add: spec_axis_def lib_courant_simps f)
qed

lemma spec_point_zero:
  "va k j i = 0 \<Longrightarrow> spec_point ds va axis sx sy sz (i, j, k) = 0"
  by (simp add: spec_point_def Let_def)

lemma spec_axis_y:
  "spec_axis lib_courant ds_nonuni 6 (\<lambda>n. if n = 1 then 1 else 0) 1 = 1"
proof -
  define va :: arr3 where "va = (\<lambda>k j i. if i + 2 * (j + 3 * k) = 1 then 1 else 0)"
  define g where "g = spec_point ds_nonuni va 1 0 0 0"
  have p0: "g (0, 0, 0) = 0"
    by (simp add: g_def spec_point_def Let_def va_def)
  have p1: "g (1, 0, 0) = 1"
    by (simp add: g_def spec_point_def Let_def va_def ds_nonuni_coords)
  have m: "max (g (1, 0, 0)) (max (g (0, 0, 0)) 0) = 1"
    by (simp add: p0 p1)
  have r: "fold max (map g [(0,1,0),(1,1,0),(0,2,0),(1,2,0),(0,0,1),(1,0,1),(0,1,1),(1,1,1),(0,2,1),(1,2,1)])
             1 = 1"
    by (rule fold_max_zero) (simp_all add: g_def spec_point_zero va_def)
  have "fold max (map g (STD_LOOP (2, 0) (3, 0) (2, 0))) 0
      = fold max (map g [(0,1,0),(1,1,0),(0,2,0),(1,2,0),(0,0,1),(1,0,1),(0,1,1),(1,1,1),(0,2,1),(1,2,1)])
          (max (g (1, 0, 0)) (max (g (0, 0, 0)) 0))"
    by (simp only: face_points list.map fold_Cons o_apply)
  also have "\<dots> = 1" by (simp only: m r)
  finally have F: "fold max (map g (STD_LOOP (2, 0) (3, 0) (2, 0))) 0 = 1" .
  have V: "DMDAVecGetArray lib_courant 6 (\<lambda>n. if n = 1 then 1 else 0) = va"
    by (simp add: lib_courant_simps va_def)
  have "spec_axis lib_courant ds_nonuni 6 (\<lambda>n. if n = 1 then 1 else 0) 1
      = fold max (map g (STD_LOOP (2, 0) (3, 0) (2, 0))) 0"
    unfolding g_def V[symmetric]
    by (simp add: spec_axis_def lib_courant_simps(2))
  then show ?thesis by (simp only: F)
qed

lemma spec_axis_x:
  "spec_axis lib_courant ds_nonuni 5 (\<lambda>n. if n = 1 then - 1 else 0) 0 = 1"
proof -
  define va :: arr3 where "va = (\<lambda>k j i. if i + 3 * (j + 2 * k) = 1 then - 1 else 0)"
  define g where "g = spec_point ds_nonuni va 0 0 0 0"
  have p0: "g (0, 0, 0) = 0"
    by (simp add: g_def spec_point_def Let_def va_def)
  have p1: "g (1, 0, 0) = 1"
    by (simp add: g_def spec_point_def Let_def va_def ds_nonuni_coords)
  have m: "max (g (1, 0, 0)) (max (g (0, 0, 0)) 0) = 1"
    by (simp add: p0 p1)
  have r: "fold max (map g [(2,0,0),(0,1,0),(1,1,0),(2,1,0),(0,0,1),(1,0,1),(2,0,1),(0,1,1),(1,1,1),(2,1,1)])
             1 = 1"
    by (rule fold_max_zero) (simp_all add: g_def spec_point_zero va_def)
  have "fold max (map g (STD_LOOP (3, 0) (2, 0) (2, 0))) 0
      = fold max (map g [(2,0,0),(0,1,0),(1,1,0),(2,1,0),(0,0,1),(1,0,1),(2,0,1),(0,1,1),(1,1,1),(2,1,1)])
          (max (g (1, 0, 0)) (max (g (0, 0, 0)) 0))"
    by (simp only: face_points list.map fold_Cons o_apply)
  also have "\<dots> = 1" by (simp only: m r)
  finally have F: "fold max (map g (STD_LOOP (3, 0) (2, 0) (2, 0))) 0 = 1" .
  have V: "DMDAVecGetArray lib_courant 5 (\<lambda>n. if n = 1 then - 1 else 0) = va"
    by (simp add: lib_courant_simps va_def)
  have "spec_axis lib_courant ds_nonuni 5 (\<lambda>n. if n = 1 then - 1 else 0) 0
      = fold max (map g (STD_LOOP (3, 0) (2, 0) (2, 0))) 0"
    unfolding g_def V[symmetric]
    by (simp add: spec_axis_def lib_courant_simps(1))
  then show ?thesis by (simp only: F)
qed

lemma courant_spec_y: "spec_CourantStep lib_courant jr_courant_y = 1 / 2"
  by (simp add: spec_CourantStep_def Let_def jr_courant_y_def jr_courant_simps
        lib_courant_simps spec_axis_zero spec_axis_y)

lemma courant_spec_x: "spec_CourantStep lib_courant jr_courant_x = 1 / 2"
  by (simp add: spec_CourantStep_def Let_def jr_courant_x_def jr_courant_simps
        lib_courant_simps spec_axis_zero spec_axis_x)

text \<open>
  C4. \<^verbatim>\<open>JacResGetCourantStep\<close> never returns a step above 1.1 times the previous one or
  above \<open>dtmax\<close>, and stores the previous step in \<^verbatim>\<open>pdt\<close>. The step is not the one the
  specification describes. On the axes with nodes at 0, 1 and 3, previous step 2,
  \<open>Cmax = 1/2\<close> and \<open>dtmax = 10\<close>: with the single velocity \<open>vy = 1\<close> at the point
  \<open>(i, j, k) = (1, 0, 0)\<close> the source takes the cell width at the x index 1, which is 2,
  where the y index 0 gives 1, and returns the step 1 where the described step is 1/2;
  with the single velocity \<open>vx = - 1\<close> at \<open>(1, 0, 0)\<close> the source computes the negative
  inverse step \<open>v / h = - 1\<close>, which never exceeds the running maximum 0, and returns the
  step 11/5 where the described step is 1/2.
\<close>

theorem JacResGetCourantStep_diverges:
  "ts_dt (jr_ts (JacResGetCourantStep lib jr)) \<le> ts_dt (jr_ts jr) * (11 / 10)
   \<and> ts_dt (jr_ts (JacResGetCourantStep lib jr)) \<le> ts_dtmax (jr_ts jr)
   \<and> ts_pdt (jr_ts (JacResGetCourantStep lib jr)) = ts_dt (jr_ts jr)
   \<and> ts_dt (jr_ts (JacResGetCourantStep lib_courant jr_courant_y)) = 1
   \<and> spec_CourantStep lib_courant jr_courant_y = 1 / 2
   \<and> ts_dt (jr_ts (JacResGetCourantStep lib_courant jr_courant_x)) = 11 / 5
   \<and> spec_CourantStep lib_courant jr_courant_x = 1 / 2"
  using JacResGetCourantStep_bound[of lib jr] courant_code_y courant_spec_y courant_code_x
    courant_spec_x
  by simp

end
